theory Spec2Isabelle
  imports Complex_Main
begin

section \<open>Python values, errors and containers\<close>

text \<open>
  Every \<^verbatim>\<open>raise\<close> of the loaders, and every exception the Python run time or the
  array libraries raise on the paths modelled here, is a value of \<open>error\<close>; a function
  that can raise returns \<open>error + 'a\<close> with \<open>Inl\<close> for the exception.
\<close>

datatype error =
    ValueError string
  | PermissionError
  | ZeroDivisionError
  | KeyError string
  | TypeError
  | IndexError
  | AttributeError string
  | UnboundLocalError string

text \<open>Sequencing of a computation that may raise.\<close>

definition bind_err :: "error + 'a \<Rightarrow> ('a \<Rightarrow> error + 'b) \<Rightarrow> error + 'b" where
  "bind_err m f = (case m of Inl e \<Rightarrow> Inl e | Inr x \<Rightarrow> f x)"

text \<open>Reading an attribute of an object that may never have been assigned.\<close>

definition attr :: "string \<Rightarrow> 'a option \<Rightarrow> error + 'a" where
  "attr name v = (case v of None \<Rightarrow> Inl (AttributeError name) | Some x \<Rightarrow> Inr x)"

text \<open>Python's \<^verbatim>\<open>a // b\<close> on integers: floor division, raising on a zero divisor.\<close>

definition py_floordiv :: "int \<Rightarrow> int \<Rightarrow> error + int" where
  "py_floordiv a b = (if b = 0 then Inl ZeroDivisionError else Inr (a div b))"

text \<open>Python's \<^verbatim>\<open>a % b\<close> on integers: the sign follows the divisor.\<close>

definition py_mod :: "int \<Rightarrow> int \<Rightarrow> error + int" where
  "py_mod a b = (if b = 0 then Inl ZeroDivisionError else Inr (a mod b))"

text \<open>
  Python slicing \<^verbatim>\<open>xs[a:b]\<close> with integer bounds: a negative bound counts from the
  end, and both bounds are clipped to the sequence.
\<close>

definition py_bound :: "nat \<Rightarrow> int \<Rightarrow> nat" where
  "py_bound n i = (if i < 0 then nat (int n + i) else min n (nat i))"

definition py_slice :: "'a list \<Rightarrow> int \<Rightarrow> int \<Rightarrow> 'a list" where
  "py_slice xs a b = (let lo = py_bound (length xs) a; hi = py_bound (length xs) b
                      in take (hi - lo) (drop lo xs))"

definition py_take :: "int \<Rightarrow> 'a list \<Rightarrow> 'a list" where
  "py_take e xs = py_slice xs 0 e"

text \<open>
  A Python dict keeps insertion order: an association list. Assigning an existing key
  replaces the value in place, a new key is appended.
\<close>

fun dict_set :: "('k \<times> 'v) list \<Rightarrow> 'k \<Rightarrow> 'v \<Rightarrow> ('k \<times> 'v) list" where
  "dict_set [] k v = [(k, v)]"
| "dict_set ((k', v') # d) k v = (if k' = k then (k, v) # d else (k', v') # dict_set d k v)"

definition dict_get :: "(string \<times> 'v) list \<Rightarrow> string \<Rightarrow> error + 'v" where
  "dict_get d k = (case map_of d k of None \<Rightarrow> Inl (KeyError k) | Some v \<Rightarrow> Inr v)"

definition map_get :: "(string \<rightharpoonup> 'v) \<Rightarrow> string \<Rightarrow> error + 'v" where
  "map_get m k = (case m k of None \<Rightarrow> Inl (KeyError k) | Some v \<Rightarrow> Inr v)"

subsection \<open>Cells, arrays and tables\<close>

text \<open>
  A cell of a table: an integer (ids, tokens, labels), a floating value (modelled by the
  real it denotes; rounding is outside this model), a sequence, or the missing value.
\<close>

datatype cell = IntV int | FloatV real | SeqV "cell list" | NaN

text \<open>
  numpy's \<^verbatim>\<open>buf[lo:hi] = vals\<close> for an array \<open>vals\<close>: the slice is clipped to the
  buffer; the value must have the slice's length, or length one (it is then broadcast).
\<close>

definition np_assign_slice :: "'a list \<Rightarrow> nat \<Rightarrow> nat \<Rightarrow> 'a list \<Rightarrow> error + 'a list" where
  "np_assign_slice buf lo hi vals =
     (let l = min lo (length buf); h = max l (min hi (length buf)); n = h - l
      in if length vals = n then Inr (take l buf @ vals @ drop h buf)
         else if length vals = 1 then Inr (take l buf @ replicate n (hd vals) @ drop h buf)
         else Inl (ValueError ''could not broadcast input array''))"

text \<open>numpy's \<^verbatim>\<open>buf[lo:hi] = v\<close> for a scalar \<open>v\<close>.\<close>

definition np_fill_slice :: "'a list \<Rightarrow> nat \<Rightarrow> nat \<Rightarrow> 'a \<Rightarrow> 'a list" where
  "np_fill_slice buf lo hi v =
     (let l = min lo (length buf); h = max l (min hi (length buf))
      in take l buf @ replicate (h - l) v @ drop h buf)"

text \<open>\<^verbatim>\<open>np.zeros(n)\<close>: a negative size raises.\<close>

definition np_zeros :: "int \<Rightarrow> error + int list" where
  "np_zeros n = (if n < 0 then Inl (ValueError ''negative dimensions are not allowed'')
                 else Inr (replicate (nat n) 0))"

text \<open>
  A pandas table, column by column in column order; every column of a well-formed table
  has the same number of rows and the column names are distinct.
\<close>

type_synonym dataframe = "(string \<times> cell list) list"

definition df_len :: "dataframe \<Rightarrow> nat" where
  "df_len df = (case df of [] \<Rightarrow> 0 | (c, vs) # _ \<Rightarrow> length vs)"

definition df_columns :: "dataframe \<Rightarrow> string list" where
  "df_columns df = map fst df"

definition wf_df :: "dataframe \<Rightarrow> nat \<Rightarrow> bool" where
  "wf_df df n = (distinct (map fst df) \<and> list_all (\<lambda>(c, vs). length vs = n) df)"

text \<open>\<^verbatim>\<open>df[a:b]\<close>: a slice of the rows.\<close>

definition df_slice :: "dataframe \<Rightarrow> int \<Rightarrow> int \<Rightarrow> dataframe" where
  "df_slice df a b = map (\<lambda>(c, vs). (c, py_slice vs a b)) df"

subsection \<open>Tensors\<close>

text \<open>
  The tensor library is outside the repository: a tensor is its element type and its
  payload, with zero, one or two dimensions. A plain Python list has no \<^verbatim>\<open>shape\<close>.
\<close>

datatype dtype = Long | Float

datatype tensor = Tensor0 dtype cell | Tensor1 dtype "cell list" | Tensor2 dtype "cell list list"

datatype pyval = PyList "cell list" | Torch tensor

text \<open>\<^verbatim>\<open>x.shape[0]\<close>.\<close>

fun shape0 :: "pyval \<Rightarrow> error + nat" where
  "shape0 (PyList vs) = Inl (AttributeError ''shape'')"
| "shape0 (Torch (Tensor0 t c)) = Inl IndexError"
| "shape0 (Torch (Tensor1 t vs)) = Inr (length vs)"
| "shape0 (Torch (Tensor2 t vss)) = Inr (length vss)"

section \<open>The Interaction container (interaction.py)\<close>

text \<open>
  \<open>length_I\<close> is the attribute \<^verbatim>\<open>self.length\<close>; the constructor assigns it inside
  the loop over the fields, so it stays unassigned when there is no field.
\<close>

record Interaction =
  interaction :: "(string \<times> pyval) list"
  length_I :: "nat option"

definition Interaction_init :: "(string \<times> pyval) list \<Rightarrow> error + Interaction" where
  "Interaction_init d =
     (case d of
        [] \<Rightarrow> Inr \<lparr>interaction = d, length_I = None\<rparr>
      | (k, v) # _ \<Rightarrow> bind_err (shape0 v) (\<lambda>n. Inr \<lparr>interaction = d, length_I = Some n\<rparr>))"

definition Interaction_getitem :: "Interaction \<Rightarrow> string \<Rightarrow> error + pyval" where
  "Interaction_getitem self index = dict_get (interaction self) index"

definition Interaction_len :: "Interaction \<Rightarrow> error + nat" where
  "Interaction_len self = attr ''length'' (length_I self)"

definition Interaction_update :: "Interaction \<Rightarrow> Interaction \<Rightarrow> Interaction" where
  "Interaction_update self new_inter =
     self\<lparr>interaction := fold (\<lambda>(k, v) d. dict_set d k v) (interaction new_inter) (interaction self)\<rparr>"

section \<open>The loaders' collaborators and state (dataloader.py)\<close>

record config =
  LABEL_FIELD :: string
  USER_ID_FIELD :: string
  ITEM_ID_FIELD :: string
  NEG_PREFIX :: string

record neg_sample_args =
  nsa_strategy :: string
  nsa_real_time :: bool
  nsa_by :: int
  nsa_to :: int

text \<open>
  Modelled from the spec: the sampler collaborator (its class is outside these sources),
  reached through its three calls. A call is taken as a function of its arguments, and
  what it returns is not constrained here: a property that needs the sampler to return
  a certain number of items says so.
\<close>

record sampler =
  sample_by_user_ids :: "string \<Rightarrow> cell list \<Rightarrow> int \<Rightarrow> cell list"
  sample_full_by_user_id :: "string \<Rightarrow> int \<Rightarrow> int list"
  sample_by_user_id :: "string \<Rightarrow> int \<Rightarrow> int \<Rightarrow> int list"

text \<open>
  Modelled from the spec: the dataset collaborator (the class the loaders are built on is
  outside these sources), with the attributes the loaders read and write: the
  interaction table, the item feature table, the table \<open>uid2items\<close> of one row per user
  with the user's positive items, the three field registries, the item count, and the
  method \<open>join\<close> that attaches the feature columns to a table.
\<close>

record dataset =
  inter_feat :: dataframe
  item_feat :: "dataframe option"
  uid2items :: "(int \<times> int list) list"
  field2type :: "string \<rightharpoonup> string"
  field2source :: "string \<rightharpoonup> string"
  field2seqlen :: "string \<rightharpoonup> int"
  item_num :: int
  join :: "dataframe \<Rightarrow> dataframe"

text \<open>Modelled from the spec: \<^verbatim>\<open>len(dataset)\<close> is the row count of the interaction table.\<close>

definition dataset_len :: "dataset \<Rightarrow> int" where
  "dataset_len ds = int (df_len (inter_feat ds))"

text \<open>
  \<^verbatim>\<open>dataset[a:b]\<close>: the slice of the interaction table, joined with the features
  (as \<^verbatim>\<open>__getitem__\<close> of the dataset classes under \<^verbatim>\<open>recbole/data/dataset\<close> does).
\<close>

definition dataset_getitem :: "dataset \<Rightarrow> int \<Rightarrow> int \<Rightarrow> dataframe" where
  "dataset_getitem ds a b = join ds (df_slice (inter_feat ds) a b)"

text \<open>
  One record for the three loader classes; an attribute that a constructor may not have
  assigned yet is an option. \<open>times_l\<close> is \<^verbatim>\<open>self.times\<close>, \<open>next_l\<close> is
  \<^verbatim>\<open>self.next\<close>, \<open>uid2items_l\<close> is the loader's own \<^verbatim>\<open>self.uid2items\<close>.
\<close>

record loader =
  config :: config
  dataset :: dataset
  batch_size :: int
  shuffle :: bool
  pr :: int
  sampler :: sampler
  phase :: string
  neg_sample_args :: neg_sample_args
  dl_format :: string
  real_time_neg_sampling :: bool
  step :: "int option"
  times_l :: "int option"
  neg_sample_by :: "int option"
  label_field :: "string option"
  uid2items_l :: "(int \<times> int list) list option"
  full :: "bool option"
  next_l :: "(int \<rightharpoonup> int) option"

section \<open>AbstractDataLoader\<close>

definition set_batch_size :: "loader \<Rightarrow> int \<Rightarrow> error + loader" where
  "set_batch_size self bs =
     (if pr self \<noteq> 0 then Inl PermissionError
      else if batch_size self \<noteq> bs then Inr (self\<lparr>batch_size := bs\<rparr>)
      else Inr self)"

section \<open>Batch-size adaptation\<close>

text \<open>\<^verbatim>\<open>GeneralInteractionBasedDataLoader._batch_size_adaptation\<close>\<close>

definition interaction_batch_size_adaptation :: "loader \<Rightarrow> error + loader" where
  "interaction_batch_size_adaptation self =
     (if dl_format self = ''pairwise'' then Inr (self\<lparr>step := Some (batch_size self)\<rparr>)
      else bind_err (attr ''neg_sample_by'' (neg_sample_by self)) (\<lambda>nb.
        let tms = 1 + nb in
        bind_err (py_floordiv (batch_size self) tms) (\<lambda>batch_num.
          let new_batch_size = (batch_num + 1) * tms;
              stp = (if real_time_neg_sampling self then batch_num + 1 else new_batch_size)
          in set_batch_size (self\<lparr>times_l := Some tms, step := Some stp\<rparr>) new_batch_size)))"

text \<open>\<^verbatim>\<open>GeneralGroupedDataLoader._batch_size_adaptation\<close>\<close>

definition grouped_batch_size_adaptation :: "loader \<Rightarrow> error + loader" where
  "grouped_batch_size_adaptation self =
     (let nsa = neg_sample_args self;
          nsa1 = (if nsa_to nsa = - 1 then nsa\<lparr>nsa_to := item_num (dataset self)\<rparr> else nsa);
          self1 = self\<lparr>neg_sample_args := nsa1\<rparr>
      in bind_err (py_floordiv (batch_size self1) (nsa_to nsa1)) (\<lambda>batch_num.
           let new_batch_size = (batch_num + 1) * nsa_to nsa1
           in set_batch_size (self1\<lparr>step := Some (batch_num + 1)\<rparr>) new_batch_size))"

text \<open>
  The candidate-set size in force in the grouped loader: the configured \<open>to\<close>, or the
  item count when \<open>to\<close> is configured as \<open>-1\<close>.
\<close>

definition grouped_to :: "loader \<Rightarrow> int" where
  "grouped_to self = (if nsa_to (neg_sample_args self) = - 1 then item_num (dataset self)
                      else nsa_to (neg_sample_args self))"

section \<open>Table operations of the data-frame library\<close>

text \<open>\<^verbatim>\<open>df[c]\<close>: the column, or KeyError.\<close>

definition df_get :: "dataframe \<Rightarrow> string \<Rightarrow> error + cell list" where
  "df_get df c = dict_get df c"

text \<open>\<^verbatim>\<open>pd.concat([df] * times, ignore_index=True)\<close>: an empty list of tables raises.\<close>

definition df_concat_times :: "dataframe \<Rightarrow> int \<Rightarrow> error + dataframe" where
  "df_concat_times df n =
     (if n \<le> 0 then Inl (ValueError ''No objects to concatenate'')
      else Inr (map (\<lambda>(c, vs). (c, concat (replicate (nat n) vs))) df))"

text \<open>\<^verbatim>\<open>df[c] = vs\<close> for an array \<open>vs\<close>: replaces the column, or appends a new one.\<close>

definition df_set_column :: "dataframe \<Rightarrow> string \<Rightarrow> cell list \<Rightarrow> error + dataframe" where
  "df_set_column df c vs =
     (if df \<noteq> [] \<and> length vs \<noteq> df_len df
      then Inl (ValueError ''Length of values does not match length of index'')
      else Inr (dict_set df c vs))"

text \<open>\<^verbatim>\<open>df.insert(len(df.columns), c, vs)\<close>: a new last column; an existing name raises.\<close>

definition df_insert_last :: "dataframe \<Rightarrow> string \<Rightarrow> cell list \<Rightarrow> error + dataframe" where
  "df_insert_last df c vs =
     (if c \<in> set (df_columns df) then Inl (ValueError ''cannot insert, already exists'')
      else if df \<noteq> [] \<and> length vs \<noteq> df_len df
      then Inl (ValueError ''Length of values does not match length of index'')
      else Inr (df @ [(c, vs)]))"

text \<open>\<^verbatim>\<open>df.add_prefix(p)\<close>\<close>

definition df_add_prefix :: "string \<Rightarrow> dataframe \<Rightarrow> dataframe" where
  "df_add_prefix p df = map (\<lambda>(c, vs). (p @ c, vs)) df"

text \<open>
  \<^verbatim>\<open>pd.merge(left, right, on=key, how='left', suffixes=('_inter', '_item'))\<close>.
  Every left row, in order, is paired with each right row of the same key (in the right
  table's order), or with no row when there is none; the result has the left columns and
  then the right columns other than the key, a name that occurs on both sides taking
  the side's suffix; an unmatched row has the missing value in the right columns.
\<close>

definition merge_pairs :: "cell list \<Rightarrow> cell list \<Rightarrow> (nat \<times> nat option) list" where
  "merge_pairs lk rk =
     concat (map (\<lambda>i. let js = filter (\<lambda>j. rk ! j = lk ! i) [0..<length rk]
                       in if js = [] then [(i, None)] else map (\<lambda>j. (i, Some j)) js)
                 [0..<length lk])"

definition pd_merge_left :: "dataframe \<Rightarrow> dataframe \<Rightarrow> string \<Rightarrow> error + dataframe" where
  "pd_merge_left left right key =
     bind_err (df_get left key) (\<lambda>lk.
     bind_err (df_get right key) (\<lambda>rk.
       let pairs = merge_pairs lk rk;
           overlap = (\<lambda>c. c \<noteq> key \<and> c \<in> set (df_columns left) \<and> c \<in> set (df_columns right))
       in Inr (map (\<lambda>(c, vs). (if overlap c then c @ ''_inter'' else c,
                                 map (\<lambda>(i, jo). vs ! i) pairs)) left
               @ map (\<lambda>(c, vs). (if overlap c then c @ ''_item'' else c,
                                   map (\<lambda>(i, jo). case jo of None \<Rightarrow> NaN | Some j \<Rightarrow> vs ! j) pairs))
                     (filter (\<lambda>(c, vs). c \<noteq> key) right))))"

section \<open>GeneralInteractionBasedDataLoader: negative sampling\<close>

text \<open>
  \<^verbatim>\<open>_neg_sample_by_pair_wise_sampling\<close>: one more column with the negative item of each
  row and, when the dataset has an item feature table, its prefixed columns joined on it.
\<close>

definition neg_sample_by_pair_wise_sampling ::
  "loader \<Rightarrow> string \<Rightarrow> string \<Rightarrow> cell list \<Rightarrow> dataframe \<Rightarrow> error + dataframe" where
  "neg_sample_by_pair_wise_sampling self uid_field iid_field neg_iids feat =
     (let neg_prefix = NEG_PREFIX (config self);
          neg_item_id = neg_prefix @ iid_field
      in bind_err (df_insert_last feat neg_item_id neg_iids) (\<lambda>inter_feat1.
           case item_feat (dataset self) of
             None \<Rightarrow> Inr inter_feat1
           | Some itf \<Rightarrow> pd_merge_left inter_feat1 (df_add_prefix neg_prefix itf) neg_item_id))"

text \<open>
  \<^verbatim>\<open>_neg_sample_by_point_wise_sampling\<close>. The write
  \<^verbatim>\<open>new_df[iid_field].values[pos_inter_num:] = neg_iids\<close> goes through the array
  behind the column, so it is a write to the column.
\<close>

definition neg_sample_by_point_wise_sampling ::
  "loader \<Rightarrow> string \<Rightarrow> string \<Rightarrow> cell list \<Rightarrow> dataframe \<Rightarrow> error + dataframe" where
  "neg_sample_by_point_wise_sampling self uid_field iid_field neg_iids feat =
     (let pos_inter_num = df_len feat
      in bind_err (attr ''times'' (times_l self)) (\<lambda>tms.
         bind_err (df_concat_times feat tms) (\<lambda>new_df.
         bind_err (df_get new_df iid_field) (\<lambda>col.
         bind_err (np_assign_slice col pos_inter_num (length col) neg_iids) (\<lambda>col1.
           let new_df1 = dict_set new_df iid_field col1
           in bind_err (np_zeros (int pos_inter_num * tms)) (\<lambda>zeros.
              let labels = map IntV (np_fill_slice zeros 0 pos_inter_num 1)
              in bind_err (attr ''label_field'' (label_field self)) (\<lambda>lf.
                 bind_err (df_set_column new_df1 lf labels) (\<lambda>new_df2.
                   Inr (if real_time_neg_sampling self then join (dataset self) new_df2
                        else new_df2)))))))))"

text \<open>\<^verbatim>\<open>GeneralInteractionBasedDataLoader._neg_sampling\<close>\<close>

definition interaction_neg_sampling :: "loader \<Rightarrow> dataframe \<Rightarrow> error + dataframe" where
  "interaction_neg_sampling self feat =
     (let uid_field = USER_ID_FIELD (config self);
          iid_field = ITEM_ID_FIELD (config self)
      in bind_err (df_get feat uid_field) (\<lambda>uids.
         bind_err (attr ''neg_sample_by'' (neg_sample_by self)) (\<lambda>nb.
           let neg_iids = sample_by_user_ids (sampler self) (phase self) uids nb
           in if dl_format self = ''pointwise''
              then neg_sample_by_point_wise_sampling self uid_field iid_field neg_iids feat
              else if dl_format self = ''pairwise''
              then neg_sample_by_pair_wise_sampling self uid_field iid_field neg_iids feat
              else Inl (ValueError (''neg sampling by with dl_format ['' @ dl_format self
                                     @ ''] not been implemented'')))))"

text \<open>\<^verbatim>\<open>GeneralInteractionBasedDataLoader._pre_neg_sampling\<close>\<close>

definition interaction_pre_neg_sampling :: "loader \<Rightarrow> error + loader" where
  "interaction_pre_neg_sampling self =
     bind_err (interaction_neg_sampling self (inter_feat (dataset self))) (\<lambda>df.
       Inr (self\<lparr>dataset := (dataset self)\<lparr>inter_feat := df\<rparr>\<rparr>))"

text \<open>\<^verbatim>\<open>GeneralInteractionBasedDataLoader._next_dataframe\<close>\<close>

definition interaction_next_dataframe :: "loader \<Rightarrow> error + dataframe \<times> loader" where
  "interaction_next_dataframe self =
     bind_err (attr ''step'' (step self)) (\<lambda>stp.
       let cur_data = dataset_getitem (dataset self) (pr self) (pr self + stp);
           self1 = self\<lparr>pr := pr self + stp\<rparr>
       in if real_time_neg_sampling self1
          then bind_err (interaction_neg_sampling self1 cur_data) (\<lambda>cur. Inr (cur, self1))
          else Inr (cur_data, self1))"

subsection \<open>The joined columns, as the properties describe them\<close>

text \<open>The feature of the item \<open>x\<close> in a feature column, or the missing value.\<close>

definition feature_of :: "cell list \<Rightarrow> cell list \<Rightarrow> cell \<Rightarrow> cell" where
  "feature_of ids vs x = (case map_of (zip ids vs) x of None \<Rightarrow> NaN | Some v \<Rightarrow> v)"

text \<open>
  The names of the columns after the left join: a column of the interaction table whose
  name also occurs in the prefixed item table takes the suffix \<open>_inter\<close>, and a prefixed
  item column whose name also occurs in the interaction table takes \<open>_item\<close>.
\<close>

definition inter_name :: "string \<Rightarrow> dataframe \<Rightarrow> string \<Rightarrow> string" where
  "inter_name p itf c = (if c \<in> set (df_columns (df_add_prefix p itf)) then c @ ''_inter'' else c)"

definition item_name :: "string \<Rightarrow> dataframe \<Rightarrow> string \<Rightarrow> string" where
  "item_name p feat c = (if p @ c \<in> set (df_columns feat) then p @ c @ ''_item'' else p @ c)"

section \<open>AbstractDataLoader: conversion of a table to an Interaction\<close>

text \<open>
  \<^verbatim>\<open>data.to_dict(orient='list')\<close>: the dict of the columns as Python lists.
\<close>

definition to_dict :: "dataframe \<Rightarrow> (string \<times> pyval) list" where
  "to_dict df = fold (\<lambda>(c, vs) d. dict_set d c (PyList vs)) df []"

text \<open>
  The variable \<^verbatim>\<open>data\<close> of \<^verbatim>\<open>_dataframe_to_interaction\<close> is first the dict of the
  columns; the two sequence branches rebind it to a list of tensors. Indexing a list
  with a field name raises TypeError.
\<close>

datatype pydata = DictD "(string \<times> pyval) list" | ListD "pyval list"

definition data_getitem :: "pydata \<Rightarrow> string \<Rightarrow> error + pyval" where
  "data_getitem data k = (case data of DictD d \<Rightarrow> dict_get d k | ListD l \<Rightarrow> Inl TypeError)"

definition data_setitem :: "pydata \<Rightarrow> string \<Rightarrow> pyval \<Rightarrow> error + pydata" where
  "data_setitem data k v =
     (case data of DictD d \<Rightarrow> Inr (DictD (dict_set d k v)) | ListD l \<Rightarrow> Inl TypeError)"

text \<open>\<^verbatim>\<open>torch.LongTensor(x)\<close> and \<^verbatim>\<open>torch.FloatTensor(x)\<close>.\<close>

fun as_tensor :: "dtype \<Rightarrow> pyval \<Rightarrow> pyval" where
  "as_tensor t (PyList vs) = Torch (Tensor1 t vs)"
| "as_tensor t (Torch (Tensor0 u c)) = Torch (Tensor0 t c)"
| "as_tensor t (Torch (Tensor1 u vs)) = Torch (Tensor1 t vs)"
| "as_tensor t (Torch (Tensor2 u vss)) = Torch (Tensor2 t vss)"

text \<open>Iterating over a Python value: the elements of a list, the rows of a tensor.\<close>

fun rows_of :: "pyval \<Rightarrow> error + cell list" where
  "rows_of (PyList vs) = Inr vs"
| "rows_of (Torch (Tensor0 t c)) = Inl TypeError"
| "rows_of (Torch (Tensor1 t vs)) = Inr vs"
| "rows_of (Torch (Tensor2 t vss)) = Inr (map SeqV vss)"

text \<open>
  \<^verbatim>\<open>[torch.LongTensor(d[:seqlen[k]]) for d in data[k]]\<close>: every row is cut to the
  field's registered length; \<^verbatim>\<open>seqlen[k]\<close> is looked up for each row, and a row that is
  not a sequence cannot be sliced.
\<close>

fun cut_list :: "dtype \<Rightarrow> (string \<rightharpoonup> int) \<Rightarrow> string \<Rightarrow> cell list \<Rightarrow> error + pyval list" where
  "cut_list t seqlen k [] = Inr []"
| "cut_list t seqlen k (d # ds) =
     bind_err (map_get seqlen k) (\<lambda>n.
       case d of
         SeqV cs \<Rightarrow> bind_err (cut_list t seqlen k ds) (\<lambda>r. Inr (Torch (Tensor1 t (py_take n cs)) # r))
       | _ \<Rightarrow> Inl TypeError)"

text \<open>
  \<^verbatim>\<open>rnn_utils.pad_sequence(seqs, batch_first=True)\<close>: the rows padded with zeros to the
  longest one, stacked; an empty list of sequences raises.
\<close>

fun tensor_row :: "pyval \<Rightarrow> cell list" where
  "tensor_row (Torch (Tensor1 t vs)) = vs"
| "tensor_row v = []"

fun tensor_dtype :: "pyval \<Rightarrow> dtype" where
  "tensor_dtype (Torch (Tensor0 t c)) = t"
| "tensor_dtype (Torch (Tensor1 t vs)) = t"
| "tensor_dtype (Torch (Tensor2 t vss)) = t"
| "tensor_dtype (PyList vs) = Float"

definition pad_sequence :: "pyval list \<Rightarrow> error + pyval" where
  "pad_sequence seqs =
     (case seqs of
        [] \<Rightarrow> Inl IndexError
      | s # _ \<Rightarrow>
          let rows = map tensor_row seqs;
              m = fold max (map length rows) 0;
              zero = (if tensor_dtype s = Long then IntV 0 else FloatV 0)
          in Inr (Torch (Tensor2 (tensor_dtype s)
                    (map (\<lambda>r. r @ replicate (m - length r) zero) rows))))"

text \<open>The body of the loop over the fields, for the field \<open>k\<close>.\<close>

definition convert_field :: "dataset \<Rightarrow> string \<Rightarrow> pydata \<Rightarrow> error + pydata" where
  "convert_field ds k data =
     bind_err (map_get (field2type ds) k) (\<lambda>ftype.
       if ftype = ''token''
       then bind_err (data_getitem data k) (\<lambda>v. data_setitem data k (as_tensor Long v))
       else if ftype = ''float''
       then bind_err (data_getitem data k) (\<lambda>v. data_setitem data k (as_tensor Float v))
       else if ftype = ''token_seq''
       then bind_err (data_getitem data k) (\<lambda>v.
            bind_err (rows_of v) (\<lambda>rows.
            bind_err (cut_list Long (field2seqlen ds) k rows) (\<lambda>data1.
            bind_err (pad_sequence data1) (\<lambda>padded.
              data_setitem (ListD data1) k padded))))
       else if ftype = ''float_seq''
       then bind_err (data_getitem data k) (\<lambda>v.
            bind_err (rows_of v) (\<lambda>rows.
            bind_err (cut_list Float (field2seqlen ds) k rows) (\<lambda>data1.
            bind_err (pad_sequence data1) (\<lambda>padded.
              data_setitem (ListD data1) k padded))))
       else Inl (ValueError (''Illegal ftype ['' @ ftype @ '']'')))"

fun convert_fields :: "dataset \<Rightarrow> string list \<Rightarrow> pydata \<Rightarrow> error + pydata" where
  "convert_fields ds [] data = Inr data"
| "convert_fields ds (k # ks) data = bind_err (convert_field ds k data) (convert_fields ds ks)"

text \<open>\<^verbatim>\<open>AbstractDataLoader._dataframe_to_interaction\<close>\<close>

definition dataframe_to_interaction :: "loader \<Rightarrow> dataframe \<Rightarrow> error + Interaction" where
  "dataframe_to_interaction self df =
     (let data = to_dict df
      in bind_err (convert_fields (dataset self) (map fst data) (DictD data)) (\<lambda>data1.
           case data1 of DictD d \<Rightarrow> Interaction_init d | ListD l \<Rightarrow> Inl TypeError))"

text \<open>
  \<^verbatim>\<open>AbstractDataLoader.__next__\<close>, with the subclass's \<^verbatim>\<open>pr_end\<close>, \<^verbatim>\<open>_shuffle\<close> and
  \<^verbatim>\<open>_next_dataframe\<close> as parameters; the end of a pass (StopIteration) is the result
  \<open>None\<close>.
\<close>

definition loader_next ::
  "(loader \<Rightarrow> error + int) \<Rightarrow> (loader \<Rightarrow> loader) \<Rightarrow> (loader \<Rightarrow> error + dataframe \<times> loader)
   \<Rightarrow> loader \<Rightarrow> error + Interaction option \<times> loader" where
  "loader_next pr_end_m shuffle_m next_dataframe_m self =
     bind_err (pr_end_m self) (\<lambda>e.
       if pr self \<ge> e
       then Inr (None, if shuffle self then shuffle_m (self\<lparr>pr := 0\<rparr>) else self\<lparr>pr := 0\<rparr>)
       else bind_err (next_dataframe_m self) (\<lambda>(cur_data, self1).
            bind_err (dataframe_to_interaction self1 cur_data) (\<lambda>inter.
              Inr (Some inter, self1))))"

section \<open>GeneralGroupedDataLoader: negative sampling\<close>

text \<open>
  The state of the loop of \<^verbatim>\<open>_neg_sampling\<close>: the dict \<open>new_inter\<close> of the three
  pre-sized buffers, the number of rows written, the loader's \<^verbatim>\<open>self.next\<close> and the
  local \<^verbatim>\<open>last_pr\<close>, which is unbound until the first group has been processed.
\<close>

record gstate =
  new_inter :: "(string \<times> int list) list"
  new_inter_num :: nat
  g_next :: "(int \<rightharpoonup> int) option"
  last_pr :: "int option"

definition local_var :: "string \<Rightarrow> 'a option \<Rightarrow> error + 'a" where
  "local_var name v = (case v of None \<Rightarrow> Inl (UnboundLocalError name) | Some x \<Rightarrow> Inr x)"

text \<open>\<^verbatim>\<open>new_inter[f][lo:hi] = v\<close> for a scalar and for an array.\<close>

definition buf_fill ::
  "(string \<times> int list) list \<Rightarrow> string \<Rightarrow> nat \<Rightarrow> nat \<Rightarrow> int \<Rightarrow> error + (string \<times> int list) list" where
  "buf_fill b f lo hi v = bind_err (dict_get b f) (\<lambda>a. Inr (dict_set b f (np_fill_slice a lo hi v)))"

definition buf_assign ::
  "(string \<times> int list) list \<Rightarrow> string \<Rightarrow> nat \<Rightarrow> nat \<Rightarrow> int list \<Rightarrow> error + (string \<times> int list) list" where
  "buf_assign b f lo hi vals =
     bind_err (dict_get b f) (\<lambda>a.
     bind_err (np_assign_slice a lo hi vals) (\<lambda>a1. Inr (dict_set b f a1)))"

text \<open>The positive and the negative items of one row of the group table.\<close>

definition group_items :: "loader \<Rightarrow> int \<times> int list \<Rightarrow> error + int list \<times> int list" where
  "group_items self row =
     (let neg_sample_to = nsa_to (neg_sample_args self); uid = fst row
      in bind_err (attr ''full'' (full self)) (\<lambda>fl.
           if fl
           then Inr (snd row, sample_full_by_user_id (sampler self) (phase self) uid)
           else let pos_item_id = py_take (neg_sample_to - 1) (snd row)
                in Inr (pos_item_id,
                        sample_by_user_id (sampler self) (phase self) uid
                          (neg_sample_to - int (length pos_item_id)))))"

text \<open>
  The end of the loop body: in pre-materialized mode, at every index \<open>i\<close> that is a
  multiple of the step, the map is reset (at the first row) or the cursor reached
  becomes the successor of the last breakpoint and the new last breakpoint.
\<close>

definition record_breakpoint :: "loader \<Rightarrow> nat \<Rightarrow> gstate \<Rightarrow> error + gstate" where
  "record_breakpoint self i st1 =
     (if real_time_neg_sampling self then Inr st1
      else bind_err (attr ''step'' (step self)) (\<lambda>stp.
           bind_err (py_mod (int i) stp) (\<lambda>r.
             if r = 0
             then (if i = 0
                   then Inr (st1\<lparr>g_next := Some Map.empty, last_pr := Some 0\<rparr>)
                   else bind_err (attr ''next'' (g_next st1)) (\<lambda>nx.
                        bind_err (local_var ''last_pr'' (last_pr st1)) (\<lambda>lp.
                          Inr (st1\<lparr>g_next := Some (nx(lp \<mapsto> int (new_inter_num st1))),
                                   last_pr := Some (int (new_inter_num st1))\<rparr>))))
             else Inr st1)))"

text \<open>The body of the loop, for the row \<open>row\<close> at index \<open>i\<close>.\<close>

definition group_step :: "loader \<Rightarrow> nat \<Rightarrow> int \<times> int list \<Rightarrow> gstate \<Rightarrow> error + gstate" where
  "group_step self i row st =
     (let uid_field = USER_ID_FIELD (config self);
          iid_field = ITEM_ID_FIELD (config self);
          label_fld = LABEL_FIELD (config self);
          uid = fst row
      in bind_err (group_items self row) (\<lambda>(pos_item_id, neg_item_id).
           let pos_num = length pos_item_id;
               neg_num = length neg_item_id;
               neg_start = new_inter_num st + pos_num;
               neg_end = new_inter_num st + pos_num + neg_num
           in bind_err (buf_fill (new_inter st) uid_field (new_inter_num st) neg_end uid) (\<lambda>b1.
              bind_err (buf_assign b1 iid_field (new_inter_num st) neg_start pos_item_id) (\<lambda>b2.
              bind_err (buf_assign b2 iid_field neg_start neg_end neg_item_id) (\<lambda>b3.
              bind_err (buf_fill b3 label_fld (new_inter_num st) neg_start 1) (\<lambda>b4.
                record_breakpoint self i
                  (st\<lparr>new_inter := b4, new_inter_num := new_inter_num st + (pos_num + neg_num)\<rparr>)))))))"

text \<open>The loop over \<^verbatim>\<open>enumerate(uid2items.itertuples())\<close>.\<close>

fun grouped_loop :: "loader \<Rightarrow> nat \<Rightarrow> (int \<times> int list) list \<Rightarrow> gstate \<Rightarrow> error + gstate" where
  "grouped_loop self i [] st = Inr st"
| "grouped_loop self i (row # rows) st =
     bind_err (group_step self i row st) (grouped_loop self (Suc i) rows)"

text \<open>
  \<^verbatim>\<open>GeneralGroupedDataLoader._neg_sampling\<close>: returns the table and the loader, whose
  \<^verbatim>\<open>self.next\<close> the pre-materialized mode has rebuilt.
\<close>

definition grouped_neg_sampling ::
  "loader \<Rightarrow> (int \<times> int list) list \<Rightarrow> error + dataframe \<times> loader" where
  "grouped_neg_sampling self rows =
     (let uid_field = USER_ID_FIELD (config self);
          iid_field = ITEM_ID_FIELD (config self);
          label_fld = LABEL_FIELD (config self);
          neg_sample_to = nsa_to (neg_sample_args self)
      in bind_err (np_zeros (int (length rows) * neg_sample_to)) (\<lambda>zeros.
           let st0 = \<lparr>new_inter = dict_set (dict_set (dict_set [] uid_field zeros) iid_field zeros)
                                           label_fld zeros,
                      new_inter_num = 0, g_next = next_l self, last_pr = None\<rparr>
           in bind_err (grouped_loop self 0 rows st0) (\<lambda>st.
                let df = map (\<lambda>(c, a). (c, map IntV (take (new_inter_num st) a))) (new_inter st)
                in if \<not> real_time_neg_sampling self
                   then bind_err (attr ''next'' (g_next st)) (\<lambda>nx.
                        bind_err (local_var ''last_pr'' (last_pr st)) (\<lambda>lp.
                          Inr (df, self\<lparr>next_l := Some (nx(lp \<mapsto> int (df_len df)))\<rparr>)))
                   else Inr (join (dataset self) df, self\<lparr>next_l := g_next st\<rparr>))))"

text \<open>\<^verbatim>\<open>GeneralGroupedDataLoader._pre_neg_sampling\<close>\<close>

definition grouped_pre_neg_sampling :: "loader \<Rightarrow> error + loader" where
  "grouped_pre_neg_sampling self =
     bind_err (attr ''uid2items'' (uid2items_l self)) (\<lambda>u.
     bind_err (grouped_neg_sampling self u) (\<lambda>(df, self1).
       Inr (self1\<lparr>dataset := (dataset self1)\<lparr>inter_feat := df\<rparr>\<rparr>)))"

text \<open>\<^verbatim>\<open>GeneralGroupedDataLoader.pr_end\<close>\<close>

definition grouped_pr_end :: "loader \<Rightarrow> error + int" where
  "grouped_pr_end self =
     (if real_time_neg_sampling self
      then bind_err (attr ''uid2items'' (uid2items_l self)) (\<lambda>u. Inr (int (length u)))
      else Inr (dataset_len (dataset self)))"

text \<open>\<^verbatim>\<open>GeneralGroupedDataLoader.next_pr\<close>: \<^verbatim>\<open>self.next[self.pr]\<close>\<close>

definition next_pr :: "loader \<Rightarrow> error + int" where
  "next_pr self =
     bind_err (attr ''next'' (next_l self)) (\<lambda>nx.
       case nx (pr self) of None \<Rightarrow> Inl (KeyError ''pr'') | Some v \<Rightarrow> Inr v)"

text \<open>\<^verbatim>\<open>GeneralGroupedDataLoader._next_dataframe\<close>\<close>

definition grouped_next_dataframe :: "loader \<Rightarrow> error + dataframe \<times> loader" where
  "grouped_next_dataframe self =
     (if real_time_neg_sampling self
      then bind_err (attr ''uid2items'' (uid2items_l self)) (\<lambda>u.
           bind_err (attr ''step'' (step self)) (\<lambda>stp.
           bind_err (grouped_neg_sampling self (py_slice u (pr self) (pr self + stp))) (\<lambda>(cur_data, self1).
             Inr (cur_data, self1\<lparr>pr := pr self1 + stp\<rparr>))))
      else bind_err (next_pr self) (\<lambda>np.
             Inr (dataset_getitem (dataset self) (pr self) np, self\<lparr>pr := np\<rparr>)))"

text \<open>
  One pass over the grouped loader, as the loop \<^verbatim>\<open>for batch in loader\<close> drives it with
  the guard of \<^verbatim>\<open>__next__\<close>, keeping the tables that \<^verbatim>\<open>_next_dataframe\<close> returns.
  A pass that never reaches the end has the value \<open>None\<close>.
\<close>

partial_function (option) grouped_pass :: "loader \<Rightarrow> (error + dataframe list) option" where
  "grouped_pass self =
     (case grouped_pr_end self of
        Inl e \<Rightarrow> Some (Inl e)
      | Inr e \<Rightarrow>
          if pr self \<ge> e then Some (Inr [])
          else (case grouped_next_dataframe self of
                  Inl e \<Rightarrow> Some (Inl e)
                | Inr (cur_data, self1) \<Rightarrow>
                    Option.bind (grouped_pass self1)
                      (\<lambda>r. Some (case r of Inl e \<Rightarrow> Inl e | Inr rest \<Rightarrow> Inr (cur_data # rest)))))"

subsection \<open>The expanded table and the breakpoints, as the properties describe them\<close>

text \<open>
  The rows one group contributes to the expanded table: its user ids, its item ids (the
  positives, then the negatives) and its labels. \<open>group_width\<close> is their number.
\<close>

definition group_rows :: "loader \<Rightarrow> int \<times> int list \<Rightarrow> int list \<times> int list \<times> int list" where
  "group_rows self row =
     (case group_items self row of
        Inl e \<Rightarrow> ([], [], [])
      | Inr (pos, neg) \<Rightarrow>
          (replicate (length pos + length neg) (fst row), pos @ neg,
           replicate (length pos) 1 @ replicate (length neg) 0))"

definition group_width :: "loader \<Rightarrow> int \<times> int list \<Rightarrow> nat" where
  "group_width self row = length (fst (group_rows self row))"

text \<open>The expanded table of a list of groups: the groups' rows, group after group.\<close>

definition expanded_table :: "loader \<Rightarrow> (int \<times> int list) list \<Rightarrow> dataframe" where
  "expanded_table self rows =
     [(USER_ID_FIELD (config self), map IntV (concat (map (\<lambda>r. fst (group_rows self r)) rows))),
      (ITEM_ID_FIELD (config self), map IntV (concat (map (\<lambda>r. fst (snd (group_rows self r))) rows))),
      (LABEL_FIELD (config self), map IntV (concat (map (\<lambda>r. snd (snd (group_rows self r))) rows)))]"

text \<open>The number of expanded rows of the first \<open>j\<close> groups: the \<open>j\<close>-th group boundary.\<close>

definition group_boundary :: "loader \<Rightarrow> (int \<times> int list) list \<Rightarrow> nat \<Rightarrow> nat" where
  "group_boundary self rows j = sum_list (map (group_width self) (take j rows))"

text \<open>
  The state of the loop after the groups \<open>prev\<close>, with \<open>r\<close> rows of the buffers left: each
  buffer holds the rows of the groups so far, then zeros.
\<close>

definition buf_state :: "loader \<Rightarrow> (int \<times> int list) list \<Rightarrow> nat \<Rightarrow> gstate \<Rightarrow> bool" where
  "buf_state self prev r st \<longleftrightarrow>
     new_inter st
       = [(USER_ID_FIELD (config self), concat (map (\<lambda>x. fst (group_rows self x)) prev) @ replicate r 0),
          (ITEM_ID_FIELD (config self), concat (map (\<lambda>x. fst (snd (group_rows self x))) prev) @ replicate r 0),
          (LABEL_FIELD (config self), concat (map (\<lambda>x. snd (snd (group_rows self x))) prev) @ replicate r 0)]
     \<and> new_inter_num st = sum_list (map (group_width self) prev)"

text \<open>What the loop needs of the breakpoints in order to run through.\<close>

definition ctl_defined :: "loader \<Rightarrow> (int \<times> int list) list \<Rightarrow> (int \<rightharpoonup> int) option \<Rightarrow> int option \<Rightarrow> bool" where
  "ctl_defined self prev nx lp \<longleftrightarrow>
     real_time_neg_sampling self \<or> prev = [] \<or> (nx \<noteq> None \<and> lp \<noteq> None)"

text \<open>
  The breakpoints as the property states them, one every \<open>step\<close> groups: the group
  boundary before each group whose index is a multiple of the step (the start among
  them), and the end of the table. The real-time path of \<^verbatim>\<open>_next_dataframe\<close> cuts the
  group table at the same places, \<^verbatim>\<open>self.uid2items[self.pr: self.pr + self.step]\<close>.
\<close>

definition spec_breakpoints :: "loader \<Rightarrow> int \<Rightarrow> (int \<times> int list) list \<Rightarrow> int list" where
  "spec_breakpoints self stp rows =
     map (\<lambda>j. int (group_boundary self rows j)) (filter (\<lambda>j. int j mod stp = 0) [0..<length rows])
     @ [int (group_boundary self rows (length rows))]"

text \<open>
  The cursors the loop of \<^verbatim>\<open>_neg_sampling\<close> does record, read off its code: group \<open>i\<close> is
  written and counted in \<^verbatim>\<open>new_inter_num\<close> before \<^verbatim>\<open>i % self.step == 0\<close> is tested, so
  what is recorded is the start and the row count after each group whose index is a
  positive multiple of the step. This is not \<open>spec_breakpoints\<close>: the first recorded
  cursor lies after \<open>step + 1\<close> groups.
\<close>

definition recorded_cursors :: "loader \<Rightarrow> int \<Rightarrow> (int \<times> int list) list \<Rightarrow> int list" where
  "recorded_cursors self stp rows =
     0 # map (\<lambda>j. int (group_boundary self rows (Suc j)))
             (filter (\<lambda>j. 0 < j \<and> int j mod stp = 0) [0..<length rows])"

text \<open>
  The tables of a pass put one under the other, as \<^verbatim>\<open>pd.concat\<close> does for tables with the
  same columns: the columns of the first table, each holding that column of every
  table in turn.
\<close>

definition df_column :: "dataframe \<Rightarrow> string \<Rightarrow> cell list" where
  "df_column df c = (case map_of df c of None \<Rightarrow> [] | Some vs \<Rightarrow> vs)"

definition df_stack :: "dataframe list \<Rightarrow> dataframe" where
  "df_stack dfs =
     (case dfs of
        [] \<Rightarrow> []
      | d # _ \<Rightarrow> map (\<lambda>(c, vs). (c, concat (map (\<lambda>df. df_column df c) dfs))) d)"

text \<open>
  What holds of the map \<open>m\<close> and of the last breakpoint \<open>lp\<close> while the loop runs: every
  recorded cursor leads strictly upwards, to another recorded cursor or to \<open>lp\<close>, and the
  start is recorded or is \<open>lp\<close> itself.
\<close>

definition chain_inv :: "(int \<rightharpoonup> int) \<Rightarrow> int \<Rightarrow> bool" where
  "chain_inv m lp \<longleftrightarrow>
     (\<forall>k v. m k = Some v \<longrightarrow> 0 \<le> k \<and> k < v \<and> v \<le> lp \<and> (v = lp \<or> v \<in> dom m))
     \<and> (lp = 0 \<or> 0 \<in> dom m) \<and> 0 \<le> lp"

definition ctl_chain ::
  "loader \<Rightarrow> int \<Rightarrow> (int \<times> int list) list \<Rightarrow> (int \<rightharpoonup> int) option \<Rightarrow> int option \<Rightarrow> bool" where
  "ctl_chain self stp prev nx lp \<longleftrightarrow>
     (prev \<noteq> [] \<longrightarrow>
        (\<exists>m l. nx = Some m \<and> lp = Some l \<and> chain_inv m l
           \<and> l \<le> int (sum_list (map (group_width self) prev))
           \<and> insert l (dom m) = set (recorded_cursors self stp prev)))"

section \<open>The constructors\<close>

text \<open>The three registries of the dataset, for one field.\<close>

definition register_field :: "dataset \<Rightarrow> string \<Rightarrow> string \<Rightarrow> string \<Rightarrow> int \<Rightarrow> dataset" where
  "register_field ds f t s n =
     ds\<lparr>field2type := (field2type ds)(f \<mapsto> t),
        field2source := (field2source ds)(f \<mapsto> s),
        field2seqlen := (field2seqlen ds)(f \<mapsto> n)\<rparr>"

text \<open>
  The object under construction. The assignments of \<^verbatim>\<open>AbstractDataLoader.__init__\<close>
  (config, dataset, batch size, shuffle, \<open>pr = 0\<close>) and of
  \<^verbatim>\<open>NegSampleBasedDataLoader.__init__\<close> (sampler, phase, arguments, format, real-time
  flag) copy constructor arguments; no attribute is read before it is assigned, so the
  record carries them from the start and the constructors below keep the order of the
  checks, of the writes to the dataset and of the calls.
\<close>

definition new_loader ::
  "config \<Rightarrow> dataset \<Rightarrow> sampler \<Rightarrow> string \<Rightarrow> neg_sample_args \<Rightarrow> int \<Rightarrow> string \<Rightarrow> bool \<Rightarrow> loader" where
  "new_loader cfg ds smp ph nsa bs fmt shf =
     \<lparr>config = cfg, dataset = ds, batch_size = bs, shuffle = shf, pr = 0,
      sampler = smp, phase = ph, neg_sample_args = nsa, dl_format = fmt,
      real_time_neg_sampling = nsa_real_time nsa,
      step = None, times_l = None, neg_sample_by = None, label_field = None,
      uid2items_l = None, full = None, next_l = None\<rparr>"

text \<open>
  \<^verbatim>\<open>NegSampleBasedDataLoader.__init__\<close>, with the subclass's \<^verbatim>\<open>_batch_size_adaptation\<close>
  and \<^verbatim>\<open>_pre_neg_sampling\<close> as parameters.
\<close>

definition NegSampleBasedDataLoader_init ::
  "(loader \<Rightarrow> error + loader) \<Rightarrow> (loader \<Rightarrow> error + loader) \<Rightarrow> loader \<Rightarrow> error + loader" where
  "NegSampleBasedDataLoader_init batch_size_adaptation_m pre_neg_sampling_m self =
     (if dl_format self \<notin> set [''pointwise'', ''pairwise'']
      then Inl (ValueError (''dl_format ['' @ dl_format self @ ''] has not been implemented''))
      else if nsa_strategy (neg_sample_args self) \<notin> set [''by'', ''to'']
      then Inl (ValueError (''neg_sample strategy ['' @ nsa_strategy (neg_sample_args self)
                            @ ''] has not been implemented''))
      else bind_err (batch_size_adaptation_m self) (\<lambda>self1.
             if \<not> real_time_neg_sampling self1 then pre_neg_sampling_m self1 else Inr self1))"

text \<open>
  The loop at the end of \<^verbatim>\<open>GeneralInteractionBasedDataLoader.__init__\<close>: every column
  of the item table (or the item id alone) is registered again under the prefixed name.
\<close>

fun register_neg_cols :: "string \<Rightarrow> string list \<Rightarrow> dataset \<Rightarrow> error + dataset" where
  "register_neg_cols p [] ds = Inr ds"
| "register_neg_cols p (c # cs) ds =
     bind_err (map_get (field2type ds) c) (\<lambda>t.
       let ds1 = ds\<lparr>field2type := (field2type ds)(p @ c \<mapsto> t)\<rparr>
       in bind_err (map_get (field2source ds1) c) (\<lambda>s.
            let ds2 = ds1\<lparr>field2source := (field2source ds1)(p @ c \<mapsto> s)\<rparr>
            in bind_err (map_get (field2seqlen ds2) c) (\<lambda>n.
                 register_neg_cols p cs (ds2\<lparr>field2seqlen := (field2seqlen ds2)(p @ c \<mapsto> n)\<rparr>))))"

text \<open>\<^verbatim>\<open>GeneralInteractionBasedDataLoader.__init__\<close>\<close>

definition GeneralInteractionBasedDataLoader_init ::
  "config \<Rightarrow> dataset \<Rightarrow> sampler \<Rightarrow> string \<Rightarrow> neg_sample_args \<Rightarrow> int \<Rightarrow> string \<Rightarrow> bool
   \<Rightarrow> error + loader" where
  "GeneralInteractionBasedDataLoader_init cfg ds smp ph nsa bs fmt shf =
     (if nsa_strategy nsa \<noteq> ''by''
      then Inl (ValueError ''neg_sample strategy in GeneralInteractionBasedDataLoader() should be by'')
      else if fmt = ''pairwise'' \<and> nsa_by nsa \<noteq> 1
      then Inl (ValueError ''Pairwise dataloader can only neg sample by 1'')
      else
        let ds1 = (if fmt = ''pointwise''
                   then register_field ds (LABEL_FIELD cfg) ''float'' ''inter'' 1 else ds);
            self0 = (new_loader cfg ds1 smp ph nsa bs fmt shf)
                      \<lparr>neg_sample_by := Some (nsa_by nsa),
                       label_field := (if fmt = ''pointwise'' then Some (LABEL_FIELD cfg) else None)\<rparr>
        in bind_err (NegSampleBasedDataLoader_init interaction_batch_size_adaptation
                       interaction_pre_neg_sampling self0) (\<lambda>self1.
             if dl_format self1 = ''pairwise''
             then let columns = (case item_feat (dataset self1) of
                                   None \<Rightarrow> [ITEM_ID_FIELD (config self1)]
                                 | Some itf \<Rightarrow> df_columns itf)
                  in bind_err (register_neg_cols (NEG_PREFIX (config self1)) columns (dataset self1))
                       (\<lambda>ds2. Inr (self1\<lparr>dataset := ds2\<rparr>))
             else Inr self1))"

text \<open>\<^verbatim>\<open>GeneralGroupedDataLoader.__init__\<close>\<close>

definition GeneralGroupedDataLoader_init ::
  "config \<Rightarrow> dataset \<Rightarrow> sampler \<Rightarrow> string \<Rightarrow> neg_sample_args \<Rightarrow> int \<Rightarrow> string \<Rightarrow> bool
   \<Rightarrow> error + loader" where
  "GeneralGroupedDataLoader_init cfg ds smp ph nsa bs fmt shf =
     (if nsa_strategy nsa \<noteq> ''to''
      then Inl (ValueError ''neg_sample strategy in GeneralGroupedDataLoader() should be to'')
      else if fmt = ''pairwise''
      then Inl (ValueError ''pairwise dataloader cannot neg sample to'')
      else
        let self0 = (new_loader cfg ds smp ph nsa bs fmt shf)
                      \<lparr>uid2items_l := Some (uid2items ds), full := Some (nsa_to nsa = - 1)\<rparr>
        in bind_err (NegSampleBasedDataLoader_init grouped_batch_size_adaptation
                       grouped_pre_neg_sampling self0) (\<lambda>self1.
             Inr (self1\<lparr>dataset := register_field (dataset self1) (LABEL_FIELD (config self1))
                                       ''float'' ''inter'' 1\<rparr>)))"

subsection \<open>Configuration errors, as the properties describe them\<close>

text \<open>
  An error raised by one of the configuration checks of the constructors: a ValueError
  with one of their messages.
\<close>

definition config_error :: "error \<Rightarrow> bool" where
  "config_error e =
     (case e of
        ValueError msg \<Rightarrow>
          msg \<in> set [''neg_sample strategy in GeneralInteractionBasedDataLoader() should be by'',
                     ''Pairwise dataloader can only neg sample by 1'',
                     ''neg_sample strategy in GeneralGroupedDataLoader() should be to'',
                     ''pairwise dataloader cannot neg sample to'']
          \<or> take 11 msg = ''dl_format [''
          \<or> take 21 msg = ''neg_sample strategy [''
      | _ \<Rightarrow> False)"

definition fails_in_validation :: "error + 'a \<Rightarrow> bool" where
  "fails_in_validation r = (case r of Inl e \<Rightarrow> config_error e | Inr x \<Rightarrow> False)"

text \<open>
  The configurations the constructors reject, check by check: those of the
  interaction-based loader and those of the grouped loader.
\<close>

definition invalid_interaction_config :: "neg_sample_args \<Rightarrow> string \<Rightarrow> bool" where
  "invalid_interaction_config nsa fmt \<longleftrightarrow>
     nsa_strategy nsa \<noteq> ''by'' \<or> (fmt = ''pairwise'' \<and> nsa_by nsa \<noteq> 1)
     \<or> fmt \<notin> set [''pointwise'', ''pairwise'']"

definition invalid_grouped_config :: "neg_sample_args \<Rightarrow> string \<Rightarrow> bool" where
  "invalid_grouped_config nsa fmt \<longleftrightarrow>
     nsa_strategy nsa \<noteq> ''to'' \<or> fmt = ''pairwise'' \<or> fmt \<notin> set [''pointwise'', ''pairwise'']"

text \<open>
  The invalid configurations as the specification lists them, for the interaction-based
  loader: a format outside pointwise and pairwise, a strategy outside by and to, or the
  pairwise format with \<open>by\<close> other than 1.
\<close>

definition spec_invalid_interaction_config :: "neg_sample_args \<Rightarrow> string \<Rightarrow> bool" where
  "spec_invalid_interaction_config nsa fmt \<longleftrightarrow>
     fmt \<notin> set [''pointwise'', ''pairwise''] \<or> nsa_strategy nsa \<notin> set [''by'', ''to'']
     \<or> (fmt = ''pairwise'' \<and> nsa_by nsa \<noteq> 1)"

text \<open>A computation none of whose errors is a configuration error.\<close>

definition no_cfg :: "error + 'a \<Rightarrow> bool" where
  "no_cfg r = (case r of Inl e \<Rightarrow> \<not> config_error e | Inr x \<Rightarrow> True)"

section \<open>Concrete inputs\<close>

definition ex_config :: config where
  "ex_config = \<lparr>LABEL_FIELD = ''label'', USER_ID_FIELD = ''user_id'', ITEM_ID_FIELD = ''item_id'', NEG_PREFIX = ''neg_''\<rparr>"

definition ex_sampler :: sampler where
  "ex_sampler = \<lparr>sample_by_user_ids = (\<lambda>ph uids k. replicate (length uids * nat k) (IntV 9)),
                 sample_full_by_user_id = (\<lambda>ph uid. [7, 8, 9]),
                 sample_by_user_id = (\<lambda>ph uid k. replicate (nat k) 9)\<rparr>"

definition ex_dataset :: dataset where
  "ex_dataset = \<lparr>inter_feat = [(''user_id'', [IntV 1, IntV 1, IntV 2]), (''item_id'', [IntV 3, IntV 4, IntV 5])],
                 item_feat = None,
                 uid2items = [(1, [3, 4]), (2, [5])],
                 field2type = [''user_id'' \<mapsto> ''token'', ''item_id'' \<mapsto> ''token''],
                 field2source = [''user_id'' \<mapsto> ''inter'', ''item_id'' \<mapsto> ''inter''],
                 field2seqlen = [''user_id'' \<mapsto> 1, ''item_id'' \<mapsto> 1],
                 item_num = 10,
                 join = (\<lambda>df. df)\<rparr>"

definition ex_args :: neg_sample_args where
  "ex_args = \<lparr>nsa_strategy = ''by'', nsa_real_time = True, nsa_by = 2, nsa_to = 4\<rparr>"

definition ex_loader :: loader where
  "ex_loader = \<lparr>config = ex_config, dataset = ex_dataset, batch_size = 9, shuffle = False, pr = 0,
                sampler = ex_sampler, phase = ''train'', neg_sample_args = ex_args,
                dl_format = ''pointwise'', real_time_neg_sampling = True,
                step = None, times_l = None, neg_sample_by = Some 2, label_field = Some ''label'',
                uid2items_l = None, full = None, next_l = None\<rparr>"

definition ex_inter :: Interaction where
  "ex_inter = \<lparr>interaction = [(''user_id'', Torch (Tensor1 Long [IntV 1, IntV 2])),
                               (''item_id'', Torch (Tensor1 Long [IntV 5, IntV 6]))],
               length_I = Some 2\<rparr>"

definition ex_inter_new :: Interaction where
  "ex_inter_new = \<lparr>interaction = [(''item_id'', Torch (Tensor1 Long [IntV 7, IntV 8, IntV 9]))],
                   length_I = Some 3\<rparr>"

definition ex_point_loader :: loader where
  "ex_point_loader = ex_loader\<lparr>times_l := Some 3, step := Some 4, batch_size := 12\<rparr>"

definition ex_item_feat :: dataframe where
  "ex_item_feat = [(''item_id'', [IntV 3, IntV 4, IntV 9]), (''price'', [IntV 30, IntV 40, IntV 90])]"

definition ex_pair_loader :: loader where
  "ex_pair_loader = ex_loader\<lparr>dataset := ex_dataset\<lparr>item_feat := Some ex_item_feat\<rparr>,
                               dl_format := ''pairwise'', neg_sample_by := Some 1\<rparr>"

definition ex_seq_loader :: loader where
  "ex_seq_loader = ex_loader\<lparr>dataset := ex_dataset\<lparr>
      field2type := [''user_id'' \<mapsto> ''token'', ''item_list'' \<mapsto> ''token_seq''],
      field2seqlen := [''user_id'' \<mapsto> 1, ''item_list'' \<mapsto> 2]\<rparr>\<rparr>"

definition ex_seq_table :: dataframe where
  "ex_seq_table = [(''user_id'', [IntV 1, IntV 2]),
                   (''item_list'', [SeqV [IntV 3, IntV 4, IntV 5], SeqV [IntV 6]])]"

definition ex_groups :: "(int \<times> int list) list" where
  "ex_groups = [(1, [3, 4, 5, 6, 7]), (2, [5]), (3, [1, 2]), (4, [8]), (5, [2, 3])]"

definition ex_grouped_loader :: loader where
  "ex_grouped_loader = ex_loader\<lparr>
       neg_sample_args := \<lparr>nsa_strategy = ''to'', nsa_real_time = False, nsa_by = 1, nsa_to = 4\<rparr>,
       real_time_neg_sampling := False, step := Some 2, batch_size := 8,
       uid2items_l := Some ex_groups, full := Some False\<rparr>"

text \<open>
  A dataset of five users and the arguments of a pre-materialized grouped loader with
  candidate sets of four: the constructor is called on them with batch size 5.
\<close>

definition ex_grouped_dataset :: dataset where
  "ex_grouped_dataset = ex_dataset\<lparr>
       inter_feat := [(''user_id'', map IntV [1, 1, 1, 1, 1, 2, 3, 3, 4, 5, 5]),
                      (''item_id'', map IntV [3, 4, 5, 6, 7, 5, 1, 2, 8, 2, 3])],
       uid2items := ex_groups\<rparr>"

definition ex_grouped_args :: neg_sample_args where
  "ex_grouped_args = \<lparr>nsa_strategy = ''to'', nsa_real_time = False, nsa_by = 1, nsa_to = 4\<rparr>"

section \<open>Properties\<close>

lemma bind_err_simps:
  "bind_err (Inl e) f = Inl e"
  "bind_err (Inr x) f = f x"
  by (simp_all add: bind_err_def)

lemma attr_simps:
  "attr name None = Inl (AttributeError name)"
  "attr name (Some x) = Inr x"
  by (simp_all add: attr_def)

subsection \<open>Changing the batch size\<close>

text \<open>
  Claim C8. \<^verbatim>\<open>set_batch_size\<close> raises whenever the cursor \<open>pr\<close> is not zero, whatever
  the value passed (the current batch size included), and no state is returned; at
  \<open>pr = 0\<close> the current value leaves the loader as it is, and a different value becomes
  the batch size, every other attribute unchanged.
\<close>

theorem set_batch_size_spec:
  "(pr self \<noteq> 0 \<longrightarrow> set_batch_size self bs = Inl PermissionError)
   \<and> (pr self = 0 \<longrightarrow> set_batch_size self (batch_size self) = Inr self)
   \<and> (pr self = 0 \<and> bs \<noteq> batch_size self \<longrightarrow>
        set_batch_size self bs = Inr (self\<lparr>batch_size := bs\<rparr>))"
  by (simp add: set_batch_size_def)

theorem set_batch_size_spec_witness:
  "set_batch_size (ex_loader\<lparr>pr := 3\<rparr>) 9 = Inl PermissionError
   \<and> set_batch_size (ex_loader\<lparr>pr := 3\<rparr>) 12 = Inl PermissionError
   \<and> set_batch_size ex_loader 9 = Inr ex_loader
   \<and> set_batch_size ex_loader 12 = Inr (ex_loader\<lparr>batch_size := 12\<rparr>)"
  using set_batch_size_spec [of "ex_loader\<lparr>pr := 3\<rparr>" 9]
    set_batch_size_spec [of "ex_loader\<lparr>pr := 3\<rparr>" 12]
    set_batch_size_spec [of ex_loader 12]
  by (simp add: ex_loader_def)

subsection \<open>Batch-size adaptation of the grouped loader\<close>

text \<open>
  Claim C5. With \<open>to\<close> the candidate-set size in force (the item count when configured
  as \<open>-1\<close>, which is then stored back into the arguments), the adaptation of the grouped
  loader returns with \<open>step = batch_size div to + 1\<close> and batch size \<open>step * to\<close>. It is
  called from the constructor, where \<open>pr = 0\<close>; a zero \<open>to\<close> raises in the division.
\<close>

theorem grouped_batch_size_adaptation_spec:
  assumes "pr self = 0" and "grouped_to self \<noteq> 0"
  shows "\<exists>self'. grouped_batch_size_adaptation self = Inr self'
           \<and> step self' = Some (batch_size self div grouped_to self + 1)
           \<and> batch_size self' = (batch_size self div grouped_to self + 1) * grouped_to self
           \<and> nsa_to (neg_sample_args self') = grouped_to self"
  using assms
  by (auto simp add: grouped_batch_size_adaptation_def grouped_to_def Let_def py_floordiv_def
      bind_err_simps set_batch_size_def)

theorem grouped_batch_size_adaptation_spec_witness:
  "\<exists>self'. grouped_batch_size_adaptation ex_loader = Inr self'
     \<and> step self' = Some 3 \<and> batch_size self' = 12 \<and> nsa_to (neg_sample_args self') = 4"
  using grouped_batch_size_adaptation_spec [of ex_loader]
  by (simp add: ex_loader_def ex_args_def grouped_to_def)

subsection \<open>Batch-size adaptation of the interaction-based loader\<close>

text \<open>
  At \<open>by = 2\<close> and a requested batch size of 9 the pointwise adaptation gives
  \<open>times = 3\<close> and batch size 12, with step 4 when sampling in real time and 12
  otherwise: neither the step 3 nor the unchanged batch size 9.
\<close>

theorem interaction_batch_size_adaptation_counterexample:
  "interaction_batch_size_adaptation ex_loader
     = Inr (ex_loader\<lparr>batch_size := 12, step := Some 4, times_l := Some 3\<rparr>)
   \<and> interaction_batch_size_adaptation (ex_loader\<lparr>real_time_neg_sampling := False\<rparr>)
     = Inr (ex_loader\<lparr>batch_size := 12, real_time_neg_sampling := False, step := Some 12, times_l := Some 3\<rparr>)
   \<and> batch_size ex_loader = 9 \<and> neg_sample_by ex_loader = Some 2
   \<and> dl_format ex_loader = ''pointwise''"
  by (simp add: interaction_batch_size_adaptation_def ex_loader_def py_floordiv_def
      bind_err_simps attr_simps set_batch_size_def Let_def)

text \<open>
  Claim C1, amended. With \<open>times = 1 + by\<close> and \<open>q = batch_size div times\<close>, the
  adaptation outside the pairwise format sets the batch size to \<open>(q + 1) * times\<close> and
  the step to \<open>q + 1\<close> when sampling in real time, to \<open>(q + 1) * times\<close> otherwise; in the
  pairwise format the step is the batch size, which stays as it is.
\<close>

theorem interaction_batch_size_adaptation_spec:
  "(pr self = 0 \<and> dl_format self \<noteq> ''pairwise'' \<and> neg_sample_by self = Some k \<and> 1 + k \<noteq> 0 \<longrightarrow>
      interaction_batch_size_adaptation self
        = Inr (self\<lparr>times_l := Some (1 + k),
                   step := Some (if real_time_neg_sampling self then batch_size self div (1 + k) + 1
                                 else (batch_size self div (1 + k) + 1) * (1 + k)),
                   batch_size := (batch_size self div (1 + k) + 1) * (1 + k)\<rparr>))
   \<and> (dl_format self = ''pairwise'' \<longrightarrow>
      interaction_batch_size_adaptation self = Inr (self\<lparr>step := Some (batch_size self)\<rparr>))"
  by (simp add: interaction_batch_size_adaptation_def py_floordiv_def
      bind_err_simps attr_simps set_batch_size_def Let_def)

theorem interaction_batch_size_adaptation_spec_witness:
  "interaction_batch_size_adaptation ex_loader
     = Inr (ex_loader\<lparr>times_l := Some 3, step := Some 4, batch_size := 12\<rparr>)
   \<and> interaction_batch_size_adaptation (ex_loader\<lparr>dl_format := ''pairwise''\<rparr>)
     = Inr (ex_loader\<lparr>dl_format := ''pairwise'', step := Some 9\<rparr>)"
  using interaction_batch_size_adaptation_spec [of ex_loader 2]
    interaction_batch_size_adaptation_spec [of "ex_loader\<lparr>dl_format := ''pairwise''\<rparr>" 2]
  by (simp add: ex_loader_def)

subsection \<open>The reported length of an Interaction\<close>

lemma map_of_dict_set: "map_of (dict_set d k v) = (map_of d)(k \<mapsto> v)"
  by (induction d) (auto simp add: fun_eq_iff)

lemma map_of_fold_dict_set:
  "map_of (fold (\<lambda>(k, v) d. dict_set d k v) xs d) = map_of d ++ map_of (rev xs)"
proof (induction xs arbitrary: d)
  case Nil
  then show ?case by simp
next
  case (Cons x xs)
  obtain k v where x: "x = (k, v)" by (cases x)
  show ?case
    by (simp add: x Cons.IH map_of_dict_set map_add_def fun_eq_iff split: option.splits)
qed

lemma map_of_rev_distinct:
  "distinct (map fst xs) \<Longrightarrow> map_of (rev xs) = map_of xs"
proof (induction xs)
  case Nil
  then show ?case by simp
next
  case (Cons x xs)
  obtain k v where x: "x = (k, v)" by (cases x)
  from Cons.prems have k: "map_of xs k = None"
    by (simp add: x map_of_eq_None_iff)
  from Cons.prems have "map_of (rev xs) = map_of xs"
    by (simp add: Cons.IH)
  with k show ?case
    by (auto simp add: x fun_eq_iff map_add_def split: option.splits)
qed

text \<open>
  Claim C10. The constructor records the first-dimension length of the first field, and
  \<^verbatim>\<open>len\<close> reports it; when all fields have the first-dimension length \<open>L\<close> (and there
  is a field), \<^verbatim>\<open>len\<close> is \<open>L\<close>. \<^verbatim>\<open>update\<close> overwrites the fields present in the other
  container, leaves every other field as it was, and never touches the recorded length.
\<close>

theorem Interaction_length_spec:
  "(shape0 v = Inr n \<longrightarrow>
      Interaction_init ((k, v) # rest) = Inr \<lparr>interaction = (k, v) # rest, length_I = Some n\<rparr>
      \<and> Interaction_len \<lparr>interaction = (k, v) # rest, length_I = Some n\<rparr> = Inr n)
   \<and> (d \<noteq> [] \<and> (\<forall>f \<in> set d. shape0 (snd f) = Inr L) \<longrightarrow>
        (\<exists>I. Interaction_init d = Inr I \<and> interaction I = d \<and> Interaction_len I = Inr L))
   \<and> (distinct (map fst (interaction J)) \<longrightarrow>
        map_of (interaction (Interaction_update I J)) f
          = (case map_of (interaction J) f of Some x \<Rightarrow> Some x | None \<Rightarrow> map_of (interaction I) f))
   \<and> length_I (Interaction_update I J) = length_I I
   \<and> Interaction_len (Interaction_update I J) = Interaction_len I"
proof (intro conjI impI)
  assume "shape0 v = Inr n"
  then show "Interaction_init ((k, v) # rest) = Inr \<lparr>interaction = (k, v) # rest, length_I = Some n\<rparr>"
    by (simp add: Interaction_init_def bind_err_simps)
next
  show "Interaction_len \<lparr>interaction = (k, v) # rest, length_I = Some n\<rparr> = Inr n"
    by (simp add: Interaction_len_def attr_simps)
next
  assume a: "d \<noteq> [] \<and> (\<forall>f \<in> set d. shape0 (snd f) = Inr L)"
  then obtain k0 v0 r0 where d: "d = (k0, v0) # r0" by (cases d) auto
  with a have "shape0 v0 = Inr L" by simp
  then show "\<exists>I. Interaction_init d = Inr I \<and> interaction I = d \<and> Interaction_len I = Inr L"
    by (simp add: d Interaction_init_def bind_err_simps Interaction_len_def attr_simps)
next
  assume "distinct (map fst (interaction J))"
  then show "map_of (interaction (Interaction_update I J)) f
          = (case map_of (interaction J) f of Some x \<Rightarrow> Some x | None \<Rightarrow> map_of (interaction I) f)"
    by (simp add: Interaction_update_def map_of_fold_dict_set map_of_rev_distinct map_add_def)
next
  show "length_I (Interaction_update I J) = length_I I"
    by (simp add: Interaction_update_def)
next
  show "Interaction_len (Interaction_update I J) = Interaction_len I"
    by (simp add: Interaction_update_def Interaction_len_def)
qed

theorem Interaction_length_spec_witness:
  "Interaction_init (interaction ex_inter) = Inr ex_inter
   \<and> Interaction_len ex_inter = Inr 2
   \<and> map_of (interaction (Interaction_update ex_inter ex_inter_new)) ''item_id''
       = Some (Torch (Tensor1 Long [IntV 7, IntV 8, IntV 9]))
   \<and> map_of (interaction (Interaction_update ex_inter ex_inter_new)) ''user_id''
       = Some (Torch (Tensor1 Long [IntV 1, IntV 2]))
   \<and> Interaction_len (Interaction_update ex_inter ex_inter_new) = Inr 2"
proof -
  let ?v = "Torch (Tensor1 Long [IntV 1, IntV 2])"
  let ?rest = "[(''item_id'', Torch (Tensor1 Long [IntV 5, IntV 6]))]"
  have sh: "shape0 ?v = Inr 2" by simp
  have dj: "distinct (map fst (interaction ex_inter_new))" by (simp add: ex_inter_new_def)
  note t1 = Interaction_length_spec [of ?v 2 "''user_id''" ?rest "[]" 0 ex_inter_new ex_inter "''item_id''"]
  note t2 = Interaction_length_spec [of ?v 2 "''user_id''" ?rest "[]" 0 ex_inter_new ex_inter "''user_id''"]
  have e: "ex_inter = \<lparr>interaction = (''user_id'', ?v) # ?rest, length_I = Some 2\<rparr>"
    by (simp add: ex_inter_def)
  from t1 sh have a: "Interaction_init ((''user_id'', ?v) # ?rest) = Inr ex_inter"
    and b: "Interaction_len ex_inter = Inr 2"
    unfolding e by blast+
  from t1 dj have c: "map_of (interaction (Interaction_update ex_inter ex_inter_new)) ''item_id''
          = (case map_of (interaction ex_inter_new) ''item_id'' of Some x \<Rightarrow> Some x
             | None \<Rightarrow> map_of (interaction ex_inter) ''item_id'')"
    by blast
  from t2 dj have d: "map_of (interaction (Interaction_update ex_inter ex_inter_new)) ''user_id''
          = (case map_of (interaction ex_inter_new) ''user_id'' of Some x \<Rightarrow> Some x
             | None \<Rightarrow> map_of (interaction ex_inter) ''user_id'')"
    by blast
  from t1 have f: "Interaction_len (Interaction_update ex_inter ex_inter_new) = Interaction_len ex_inter"
    by blast
  have i: "interaction ex_inter = (''user_id'', ?v) # ?rest" by (simp add: ex_inter_def)
  show ?thesis
    unfolding c d f b i using a
    by (simp add: ex_inter_def ex_inter_new_def)
qed

subsection \<open>Pointwise negative sampling\<close>

lemma wf_df_len: "wf_df df n \<Longrightarrow> df \<noteq> [] \<Longrightarrow> df_len df = n"
  by (cases df) (auto simp add: wf_df_def df_len_def)

lemma keys_dict_set:
  "map fst (dict_set d k v) = (if k \<in> fst ` set d then map fst d else map fst d @ [k])"
  by (induction d) (auto simp add: rev_image_eqI)

lemma distinct_dict_set: "distinct (map fst d) \<Longrightarrow> distinct (map fst (dict_set d k v))"
  by (simp add: keys_dict_set)

lemma list_all_dict_set:
  "list_all P d \<Longrightarrow> P (k, v) \<Longrightarrow> list_all P (dict_set d k v)"
  by (induction d) auto

lemma wf_df_dict_set: "wf_df df n \<Longrightarrow> length vs = n \<Longrightarrow> wf_df (dict_set df c vs) n"
  by (simp add: wf_df_def distinct_dict_set list_all_dict_set)

lemma dict_set_nonempty: "dict_set d k v \<noteq> []"
  by (induction d k v rule: dict_set.induct) simp_all

lemma length_concat_replicate: "length (concat (replicate m xs)) = m * length xs"
  by (induction m) auto

lemma wf_df_concat_times:
  "wf_df df n \<Longrightarrow> wf_df (map (\<lambda>(c, vs). (c, concat (replicate m vs))) df) (m * n)"
  by (induction df) (auto simp add: wf_df_def length_concat_replicate image_iff)

lemma map_of_map_cols:
  "map_of (map (\<lambda>(c, vs). (c, f vs)) df) c = map_option f (map_of df c)"
  by (induction df) auto

lemma np_assign_tail:
  "length vals = length buf - lo \<Longrightarrow> lo \<le> length buf \<Longrightarrow>
   np_assign_slice buf lo (length buf) vals = Inr (take lo buf @ vals)"
  by (simp add: np_assign_slice_def Let_def)

lemma np_fill_head:
  "lo \<le> length buf \<Longrightarrow> np_fill_slice buf 0 lo v = replicate lo v @ drop lo buf"
  by (simp add: np_fill_slice_def Let_def)

lemma point_wise_sampling_result:
  assumes wf: "wf_df feat n"
    and iid: "map_of feat iid_field = Some items"
    and tms: "times_l self = Some (1 + int k)"
    and lf: "label_field self = Some lf"
    and negs: "length neg_iids = n * k"
  shows "neg_sample_by_point_wise_sampling self uid_field iid_field neg_iids feat
         = Inr ((if real_time_neg_sampling self then join (dataset self) else (\<lambda>df. df))
                 (dict_set (dict_set (map (\<lambda>(c, vs). (c, concat (replicate (Suc k) vs))) feat)
                                     iid_field (items @ neg_iids))
                           lf (replicate n (IntV 1) @ replicate (n * k) (IntV 0))))"
proof -
  let ?new = "map (\<lambda>(c, vs). (c, concat (replicate (Suc k) vs))) feat"
  from iid have ne: "feat \<noteq> []" by auto
  have len: "df_len feat = n" using wf ne by (rule wf_df_len)
  from iid wf have li: "length items = n"
    by (auto simp add: wf_df_def list_all_iff dest!: map_of_SomeD)
  have c1: "df_concat_times feat (1 + int k) = Inr ?new"
    by (simp add: df_concat_times_def nat_add_distrib)
  have c2: "df_get ?new iid_field = Inr (concat (replicate (Suc k) items))"
    by (simp add: df_get_def dict_get_def map_of_map_cols iid)
  have c3: "np_assign_slice (concat (replicate (Suc k) items)) n
              (length (concat (replicate (Suc k) items))) neg_iids = Inr (items @ neg_iids)"
    using np_assign_tail [of neg_iids "concat (replicate (Suc k) items)" n]
    by (simp add: length_concat_replicate li negs)
  have "int n * (1 + int k) = int (n * Suc k)" by (simp add: algebra_simps)
  then have c4: "np_zeros (int n * (1 + int k)) = Inr (replicate (n * Suc k) 0)"
    by (simp add: np_zeros_def del: of_nat_mult of_nat_Suc)
  have c5: "map IntV (np_fill_slice (replicate (n * Suc k) 0) 0 n 1)
            = replicate n (IntV 1) @ replicate (n * k) (IntV 0)"
    by (simp add: np_fill_head)
  have wfn: "wf_df (dict_set ?new iid_field (items @ neg_iids)) (Suc k * n)"
    by (rule wf_df_dict_set [OF wf_df_concat_times [OF wf]]) (simp add: li negs)
  have c6: "df_set_column (dict_set ?new iid_field (items @ neg_iids)) lf
              (replicate n (IntV 1) @ replicate (n * k) (IntV 0))
            = Inr (dict_set (dict_set ?new iid_field (items @ neg_iids)) lf
                     (replicate n (IntV 1) @ replicate (n * k) (IntV 0)))"
    using wf_df_len [OF wfn dict_set_nonempty]
    by (simp add: df_set_column_def del: replicate_Suc)
  show ?thesis
    unfolding neg_sample_by_point_wise_sampling_def Let_def len tms lf attr_simps bind_err_simps
      c1 c2 c3 c4 c5 c6
    by simp
qed

text \<open>
  Claim C2. Pointwise sampling of a slice of \<open>n\<close> positive rows with \<open>by = k\<close>, the
  sampler returning \<open>n * k\<close> negatives and the label column not being the item column:
  the table built has \<open>n * (1 + k)\<close> rows in every column, the label is 1 on the first
  \<open>n\<close> rows and 0 on the others, the item column is the \<open>n\<close> input item ids followed by
  the sampler's negatives, and every other column is the input column repeated. In
  real-time mode the loader returns this table passed through the dataset's \<open>join\<close>.
\<close>

theorem pointwise_neg_sampling_spec:
  assumes wf: "wf_df feat n"
    and uid: "map_of feat (USER_ID_FIELD (config self)) = Some uids"
    and iid: "map_of feat (ITEM_ID_FIELD (config self)) = Some items"
    and fmt: "dl_format self = ''pointwise''"
    and nb: "neg_sample_by self = Some (int k)"
    and tms: "times_l self = Some (1 + int k)"
    and lf: "label_field self = Some lf"
    and lfne: "lf \<noteq> ITEM_ID_FIELD (config self)"
    and negs: "length (sample_by_user_ids (sampler self) (phase self) uids (int k)) = n * k"
  shows "\<exists>out. interaction_neg_sampling self feat
                 = Inr (if real_time_neg_sampling self then join (dataset self) out else out)
           \<and> wf_df out (n * (1 + k)) \<and> df_len out = n * (1 + k)
           \<and> map_of out lf = Some (replicate n (IntV 1) @ replicate (n * k) (IntV 0))
           \<and> length items = n
           \<and> map_of out (ITEM_ID_FIELD (config self))
               = Some (items @ sample_by_user_ids (sampler self) (phase self) uids (int k))
           \<and> (\<forall>c vs. c \<noteq> lf \<and> c \<noteq> ITEM_ID_FIELD (config self) \<and> map_of feat c = Some vs
                 \<longrightarrow> map_of out c = Some (concat (replicate (1 + k) vs)))"
proof -
  let ?iid = "ITEM_ID_FIELD (config self)"
  let ?negs = "sample_by_user_ids (sampler self) (phase self) uids (int k)"
  let ?new = "map (\<lambda>(c, vs). (c, concat (replicate (Suc k) vs))) feat"
  let ?labels = "replicate n (IntV 1) @ replicate (n * k) (IntV 0)"
  let ?out = "dict_set (dict_set ?new ?iid (items @ ?negs)) lf ?labels"
  from iid wf have li: "length items = n"
    by (auto simp add: wf_df_def list_all_iff dest!: map_of_SomeD)
  have run: "interaction_neg_sampling self feat
             = Inr (if real_time_neg_sampling self then join (dataset self) ?out else ?out)"
    unfolding interaction_neg_sampling_def Let_def
    by (simp add: df_get_def dict_get_def uid nb attr_simps bind_err_simps fmt
        point_wise_sampling_result [OF wf iid tms lf negs])
  have wf1: "wf_df (dict_set ?new ?iid (items @ ?negs)) (Suc k * n)"
    by (rule wf_df_dict_set [OF wf_df_concat_times [OF wf]]) (simp add: li negs)
  have wf2: "wf_df ?out (Suc k * n)"
    by (rule wf_df_dict_set [OF wf1]) simp
  have len: "df_len ?out = Suc k * n"
    by (rule wf_df_len [OF wf2 dict_set_nonempty])
  have lab: "map_of ?out lf = Some ?labels"
    by (simp add: map_of_dict_set)
  have itm: "map_of ?out ?iid = Some (items @ ?negs)"
    using lfne by (simp add: map_of_dict_set)
  have oth: "\<forall>c vs. c \<noteq> lf \<and> c \<noteq> ?iid \<and> map_of feat c = Some vs
                \<longrightarrow> map_of ?out c = Some (concat (replicate (1 + k) vs))"
    by (simp add: map_of_dict_set map_of_map_cols)
  have eq: "Suc k * n = n * (1 + k)" by simp
  from run wf2 len lab li itm oth show ?thesis
    unfolding eq by blast
qed

theorem pointwise_neg_sampling_spec_witness:
  "\<exists>out. interaction_neg_sampling ex_point_loader (inter_feat ex_dataset) = Inr out
     \<and> df_len out = 9
     \<and> map_of out ''label''
         = Some [IntV 1, IntV 1, IntV 1, IntV 0, IntV 0, IntV 0, IntV 0, IntV 0, IntV 0]
     \<and> map_of out ''item_id''
         = Some [IntV 3, IntV 4, IntV 5, IntV 9, IntV 9, IntV 9, IntV 9, IntV 9, IntV 9]"
proof -
  have cfg: "config ex_point_loader = ex_config" "dataset ex_point_loader = ex_dataset"
    "sampler ex_point_loader = ex_sampler" "real_time_neg_sampling ex_point_loader"
    by (simp_all add: ex_point_loader_def ex_loader_def)
  have h1: "wf_df (inter_feat ex_dataset) 3"
    by (simp add: wf_df_def ex_dataset_def)
  have h2: "map_of (inter_feat ex_dataset) (USER_ID_FIELD (config ex_point_loader))
            = Some [IntV 1, IntV 1, IntV 2]"
    by (simp add: cfg ex_config_def ex_dataset_def)
  have h3: "map_of (inter_feat ex_dataset) (ITEM_ID_FIELD (config ex_point_loader))
            = Some [IntV 3, IntV 4, IntV 5]"
    by (simp add: cfg ex_config_def ex_dataset_def)
  have h4: "dl_format ex_point_loader = ''pointwise''"
    and h5: "neg_sample_by ex_point_loader = Some (int 2)"
    and h6: "times_l ex_point_loader = Some (1 + int 2)"
    and h7: "label_field ex_point_loader = Some ''label''"
    by (simp_all add: ex_point_loader_def ex_loader_def)
  have h8: "''label'' \<noteq> ITEM_ID_FIELD (config ex_point_loader)"
    by (simp add: cfg ex_config_def)
  have smp: "sample_by_user_ids (sampler ex_point_loader) (phase ex_point_loader)
               [IntV 1, IntV 1, IntV 2] (int 2) = replicate 6 (IntV 9)"
    by (simp add: cfg ex_sampler_def)
  have h9: "length (sample_by_user_ids (sampler ex_point_loader) (phase ex_point_loader)
               [IntV 1, IntV 1, IntV 2] (int 2)) = 3 * 2"
    unfolding smp by simp
  from pointwise_neg_sampling_spec [OF h1 h2 h3 h4 h5 h6 h7 h8 h9]
  obtain out where o: "interaction_neg_sampling ex_point_loader (inter_feat ex_dataset)
        = Inr (if real_time_neg_sampling ex_point_loader then join (dataset ex_point_loader) out else out)"
    and l: "df_len out = 3 * (1 + 2)"
    and lab: "map_of out ''label'' = Some (replicate 3 (IntV 1) @ replicate (3 * 2) (IntV 0))"
    and itm: "map_of out (ITEM_ID_FIELD (config ex_point_loader))
               = Some ([IntV 3, IntV 4, IntV 5] @ sample_by_user_ids (sampler ex_point_loader)
                    (phase ex_point_loader) [IntV 1, IntV 1, IntV 2] (int 2))"
    by blast
  have j: "join (dataset ex_point_loader) out = out"
    by (simp add: cfg ex_dataset_def)
  have "interaction_neg_sampling ex_point_loader (inter_feat ex_dataset) = Inr out"
    using o j by (simp add: cfg(4))
  moreover have "df_len out = 9" using l by simp
  moreover have "map_of out ''label''
         = Some [IntV 1, IntV 1, IntV 1, IntV 0, IntV 0, IntV 0, IntV 0, IntV 0, IntV 0]"
    using lab by (simp add: numeral_eq_Suc)
  moreover have "map_of out ''item_id''
         = Some [IntV 3, IntV 4, IntV 5, IntV 9, IntV 9, IntV 9, IntV 9, IntV 9, IntV 9]"
    using itm unfolding smp by (simp add: cfg ex_config_def numeral_eq_Suc)
  ultimately show ?thesis by blast
qed

subsection \<open>Pairwise negative sampling\<close>

lemma filter_upt_single:
  "j < n \<Longrightarrow> P j \<Longrightarrow> \<forall>i<n. P i \<longrightarrow> i = j \<Longrightarrow> filter P [0..<n] = [j]"
proof (induction n)
  case 0
  then show ?case by simp
next
  case (Suc n)
  show ?case
  proof (cases "j = n")
    case True
    have "\<not> P x" if "x < n" for x
    proof
      assume "P x"
      with Suc.prems(3) that have "x = j" by (simp add: less_Suc_eq)
      with True that show False by simp
    qed
    then have e: "filter P [0..<n] = []"
      by (simp add: filter_empty_conv)
    from True Suc.prems(2) have "P n" by simp
    then show ?thesis by (simp add: e True)
  next
    case False
    from Suc.prems(1) False have jn: "j < n" by arith
    from Suc.prems(3) have "\<forall>i<n. P i \<longrightarrow> i = j" by (simp add: less_Suc_eq)
    with Suc.IH jn Suc.prems(2) have f: "filter P [0..<n] = [j]" by blast
    have "\<not> P n"
    proof
      assume "P n"
      with Suc.prems(3) have "n = j" by (simp add: less_Suc_eq)
      with False show False by simp
    qed
    then show ?thesis by (simp add: f)
  qed
qed

lemma filter_index_distinct:
  assumes d: "distinct rk" and j: "j < length rk"
  shows "filter (\<lambda>i. rk ! i = rk ! j) [0..<length rk] = [j]"
proof (rule filter_upt_single [OF j])
  show "rk ! j = rk ! j" by simp
  show "\<forall>i<length rk. rk ! i = rk ! j \<longrightarrow> i = j"
    using d j by (simp add: nth_eq_iff_index_eq)
qed

lemma filter_index_absent:
  assumes "x \<notin> set rk"
  shows "filter (\<lambda>i. rk ! i = x) [0..<length rk] = []"
proof -
  have "rk ! i \<noteq> x" if "i < length rk" for i
    using assms that nth_mem by blast
  then show ?thesis by (simp add: filter_empty_conv)
qed

lemma merge_row_single:
  assumes d: "distinct rk"
  shows "\<exists>jo. (let js = filter (\<lambda>j. rk ! j = x) [0..<length rk]
               in if js = [] then [(i, None)] else map (\<lambda>j. (i, Some j)) js) = [(i, jo)]
              \<and> (\<forall>ws. length ws = length rk \<longrightarrow>
                    (case jo of None \<Rightarrow> NaN | Some j \<Rightarrow> ws ! j) = feature_of rk ws x)"
proof (cases "x \<in> set rk")
  case False
  have "NaN = feature_of rk ws x" if "length ws = length rk" for ws
  proof -
    from that have "length rk = length ws" by simp
    from map_of_zip_is_None [OF this, of x] False have "map_of (zip rk ws) x = None" by blast
    then show ?thesis by (simp add: feature_of_def)
  qed
  then show ?thesis
    by (simp add: filter_index_absent [OF False])
next
  case True
  then obtain j where j: "j < length rk" "rk ! j = x"
    by (auto simp add: in_set_conv_nth)
  have f: "filter (\<lambda>i. rk ! i = x) [0..<length rk] = [j]"
    using filter_index_distinct [OF d j(1)] j(2) by simp
  have "ws ! j = feature_of rk ws x" if "length ws = length rk" for ws
    using map_of_zip_nth [of rk ws j] that d j by (simp add: feature_of_def)
  with f show ?thesis by simp
qed

lemma merge_pairs_distinct:
  assumes d: "distinct rk"
  shows "map fst (merge_pairs lk rk) = [0..<length lk]
         \<and> (\<forall>ws. length ws = length rk \<longrightarrow>
               map (\<lambda>(i, jo). case jo of None \<Rightarrow> NaN | Some j \<Rightarrow> ws ! j) (merge_pairs lk rk)
               = map (feature_of rk ws) lk)"
proof -
  define g where "g = (\<lambda>i. let js = filter (\<lambda>j. rk ! j = lk ! i) [0..<length rk]
                       in if js = [] then [(i, None :: nat option)] else map (\<lambda>j. (i, Some j)) js)"
  have mp: "merge_pairs lk rk = concat (map g [0..<length lk])"
    by (simp add: merge_pairs_def g_def)
  have single: "\<exists>jo. g i = [(i, jo)]
              \<and> (\<forall>ws. length ws = length rk \<longrightarrow>
                    (case jo of None \<Rightarrow> NaN | Some j \<Rightarrow> ws ! j) = feature_of rk ws (lk ! i))" for i
    unfolding g_def by (rule merge_row_single [OF d])
  have gen: "map fst (concat (map g is)) = is
       \<and> (\<forall>ws. length ws = length rk \<longrightarrow>
               map (\<lambda>(i, jo). case jo of None \<Rightarrow> NaN | Some j \<Rightarrow> ws ! j) (concat (map g is))
               = map (\<lambda>i. feature_of rk ws (lk ! i)) is)" for "is"
  proof (induction "is")
    case Nil
    then show ?case by simp
  next
    case (Cons i "is")
    from single [of i] obtain jo where "g i = [(i, jo)]"
      and "\<forall>ws. length ws = length rk \<longrightarrow>
                    (case jo of None \<Rightarrow> NaN | Some j \<Rightarrow> ws ! j) = feature_of rk ws (lk ! i)"
      by blast
    with Cons.IH show ?case by simp
  qed
  have nth: "map (\<lambda>i. feature_of rk ws (lk ! i)) [0..<length lk] = map (feature_of rk ws) lk" for ws
    by (rule nth_equalityI) simp_all
  from gen [of "[0..<length lk]"]
  have g1: "map fst (concat (map g [0..<length lk])) = [0..<length lk]"
    and g2: "\<forall>ws. length ws = length rk \<longrightarrow>
               map (\<lambda>(i, jo). case jo of None \<Rightarrow> NaN | Some j \<Rightarrow> ws ! j) (concat (map g [0..<length lk]))
               = map (\<lambda>i. feature_of rk ws (lk ! i)) [0..<length lk]"
    by blast+
  show ?thesis
    unfolding mp using g1 g2 by (simp only: nth)
qed

lemma merge_pairs_left_column:
  assumes d: "distinct rk" and l: "length vs = length lk"
  shows "map (\<lambda>(i, jo). vs ! i) (merge_pairs lk rk) = vs"
proof -
  have "map (\<lambda>(i, jo). vs ! i) (merge_pairs lk rk) = map (\<lambda>i. vs ! i) (map fst (merge_pairs lk rk))"
    by (simp add: case_prod_unfold)
  also have "\<dots> = map (\<lambda>i. vs ! i) [0..<length vs]"
    using merge_pairs_distinct [OF d, of lk] l by simp
  also have "\<dots> = vs" by (rule map_nth)
  finally show ?thesis .
qed

lemma map_of_add_prefix: "map_of (df_add_prefix p df) (p @ c) = map_of df c"
  by (induction df) (auto simp add: df_add_prefix_def)

lemma filter_add_prefix:
  "filter (\<lambda>(c, vs). c \<noteq> p @ k) (df_add_prefix p df)
   = df_add_prefix p (filter (\<lambda>(c, vs). c \<noteq> k) df)"
  by (induction df) (auto simp add: df_add_prefix_def)

lemma wf_df_column_length: "wf_df df n \<Longrightarrow> (c, vs) \<in> set df \<Longrightarrow> length vs = n"
  by (auto simp add: wf_df_def list_all_iff)

lemma wf_df_map_of_length: "wf_df df n \<Longrightarrow> map_of df c = Some vs \<Longrightarrow> length vs = n"
  by (auto dest: map_of_SomeD wf_df_column_length)

lemma merge_left_result:
  assumes wf: "wf_df feat n"
    and ln: "length negs = n"
    and fresh: "neg \<notin> set (df_columns feat)"
    and wfi: "wf_df itf m"
    and ids: "map_of itf iid = Some ids"
    and dist: "distinct ids"
    and neg: "neg = p @ iid"
  shows "pd_merge_left (feat @ [(neg, negs)]) (df_add_prefix p itf) neg
         = Inr (map (\<lambda>(c, vs). (inter_name p itf c, vs)) feat @ [(neg, negs)]
                @ map (\<lambda>(c, vs). (item_name p feat c, map (feature_of ids vs) negs))
                      (filter (\<lambda>(c, vs). c \<noteq> iid) itf))"
proof -
  let ?left = "feat @ [(neg, negs)]"
  let ?right = "df_add_prefix p itf"
  let ?pairs = "merge_pairs negs ids"
  let ?overlap = "\<lambda>c. c \<noteq> neg \<and> c \<in> set (df_columns ?left) \<and> c \<in> set (df_columns ?right)"
  from fresh have none: "map_of feat neg = None"
    by (simp add: df_columns_def map_of_eq_None_iff)
  have m1: "df_get ?left neg = Inr negs"
    by (simp add: df_get_def dict_get_def map_add_def none)
  have m2: "df_get ?right neg = Inr ids"
    by (simp add: df_get_def dict_get_def neg map_of_add_prefix ids)
  have li: "length ids = m" using wfi ids by (rule wf_df_map_of_length)
  have lcol: "map (\<lambda>(i, jo). vs ! i) ?pairs = vs" if "length vs = n" for vs :: "cell list"
    using merge_pairs_left_column [OF dist, of vs negs] that ln by simp
  have rcol: "map (\<lambda>(i, jo). case jo of None \<Rightarrow> NaN | Some j \<Rightarrow> ws ! j) ?pairs
              = map (feature_of ids ws) negs" if "length ws = m" for ws
    using merge_pairs_distinct [OF dist, of negs] that li by simp
  have lpart1: "map (\<lambda>(c, vs). (if ?overlap c then c @ ''_inter'' else c,
                                 map (\<lambda>(i, jo). vs ! i) ?pairs)) feat
               = map (\<lambda>(c, vs). (inter_name p itf c, vs)) feat"
  proof (rule map_cong [OF refl])
    fix x assume x: "x \<in> set feat"
    obtain c vs where cv: "x = (c, vs)" by (cases x)
    from x cv wf have l: "length vs = n" by (auto dest: wf_df_column_length)
    from x cv fresh have "c \<noteq> neg" by (force simp add: df_columns_def)
    moreover from x cv have "c \<in> set (df_columns ?left)" by (force simp add: df_columns_def)
    ultimately have "?overlap c = (c \<in> set (df_columns ?right))" by simp
    then show "(case x of (c, vs) \<Rightarrow> (if ?overlap c then c @ ''_inter'' else c,
                                 map (\<lambda>(i, jo). vs ! i) ?pairs))
               = (case x of (c, vs) \<Rightarrow> (inter_name p itf c, vs))"
      by (simp add: cv lcol [OF l] inter_name_def)
  qed
  have lpart: "map (\<lambda>(c, vs). (if ?overlap c then c @ ''_inter'' else c,
                                 map (\<lambda>(i, jo). vs ! i) ?pairs)) ?left
               = map (\<lambda>(c, vs). (inter_name p itf c, vs)) feat @ [(neg, negs)]"
    using lpart1 lcol [OF ln] by simp
  have flt: "filter (\<lambda>(c, vs). c \<noteq> neg) ?right
             = df_add_prefix p (filter (\<lambda>(c, vs). c \<noteq> iid) itf)"
    unfolding neg by (rule filter_add_prefix)
  let ?F = "\<lambda>(c, vs). (if ?overlap c then c @ ''_item'' else c,
                     map (\<lambda>(i, jo). case jo of None \<Rightarrow> NaN | Some j \<Rightarrow> vs ! j) ?pairs)"
  let ?G = "\<lambda>(c, vs). (item_name p feat c, map (feature_of ids vs) negs)"
  let ?ys = "filter (\<lambda>(c, vs). c \<noteq> iid) itf"
  have rpart: "map ?F (df_add_prefix p ?ys) = map ?G ?ys"
  proof -
    have "map ?F (df_add_prefix p ?ys) = map (\<lambda>x. ?F (p @ fst x, snd x)) ?ys"
      by (simp add: df_add_prefix_def case_prod_unfold comp_def)
    also have "\<dots> = map ?G ?ys"
    proof (rule map_cong [OF refl])
      fix x assume x: "x \<in> set ?ys"
      obtain c vs where cv: "x = (c, vs)" by (cases x)
      from x cv have mem: "(c, vs) \<in> set itf" and ne: "c \<noteq> iid" by auto
      from wfi mem have l: "length vs = m" by (rule wf_df_column_length)
      from ne have a: "p @ c \<noteq> neg" by (simp add: neg)
      from mem have b: "p @ c \<in> set (df_columns (df_add_prefix p itf))"
        by (force simp add: df_columns_def df_add_prefix_def)
      from a have c: "p @ c \<in> set (df_columns ?left) \<longleftrightarrow> p @ c \<in> set (df_columns feat)"
        by (simp add: df_columns_def)
      have "?overlap (p @ c) = (p @ c \<in> set (df_columns feat))"
        using a b c by blast
      then show "?F (p @ fst x, snd x) = ?G x"
        by (simp add: cv rcol [OF l] item_name_def)
    qed
    finally show ?thesis .
  qed
  show ?thesis
    unfolding pd_merge_left_def m1 m2 bind_err_simps Let_def flt lpart rpart
    by simp
qed

text \<open>
  Claim C9. Pairwise sampling of a slice of \<open>n\<close> rows, the sampler returning one negative
  per row and the negative column's name being new: without an item feature table the
  output is the input with the negative column appended; with an item feature table
  whose item ids are distinct, the output has the input columns (values and row order
  unchanged), the negative column, and one prefixed column per item feature holding the
  feature of each row's negative item (the missing value for an unknown item); every
  column has \<open>n\<close> rows.
\<close>

theorem pairwise_neg_sampling_spec:
  assumes wf: "wf_df feat n"
    and uid: "map_of feat (USER_ID_FIELD (config self)) = Some uids"
    and fmt: "dl_format self = ''pairwise''"
    and nb: "neg_sample_by self = Some nb"
    and negs: "negs = sample_by_user_ids (sampler self) (phase self) uids nb"
    and ln: "length negs = n"
    and neg: "neg = NEG_PREFIX (config self) @ ITEM_ID_FIELD (config self)"
    and fresh: "neg \<notin> set (df_columns feat)"
  shows "(item_feat (dataset self) = None \<longrightarrow>
            interaction_neg_sampling self feat = Inr (feat @ [(neg, negs)]))
       \<and> (\<forall>itf m ids. item_feat (dataset self) = Some itf \<and> wf_df itf m
              \<and> map_of itf (ITEM_ID_FIELD (config self)) = Some ids \<and> distinct ids \<longrightarrow>
            (\<exists>out. interaction_neg_sampling self feat = Inr out
               \<and> out = map (\<lambda>(c, vs). (inter_name (NEG_PREFIX (config self)) itf c, vs)) feat
                        @ [(neg, negs)]
                        @ map (\<lambda>(c, vs). (item_name (NEG_PREFIX (config self)) feat c,
                                            map (feature_of ids vs) negs))
                              (filter (\<lambda>(c, vs). c \<noteq> ITEM_ID_FIELD (config self)) itf)
               \<and> list_all (\<lambda>(c, vs). length vs = n) out \<and> df_len out = n))"
proof (intro conjI allI impI)
  from uid have ne: "feat \<noteq> []" by auto
  have len: "df_len feat = n" using wf ne by (rule wf_df_len)
  have ins: "df_insert_last feat neg negs = Inr (feat @ [(neg, negs)])"
    using fresh by (simp add: df_insert_last_def len ln)
  have run: "interaction_neg_sampling self feat
             = (case item_feat (dataset self) of
                  None \<Rightarrow> Inr (feat @ [(neg, negs)])
                | Some itf \<Rightarrow> pd_merge_left (feat @ [(neg, negs)])
                               (df_add_prefix (NEG_PREFIX (config self)) itf) neg)"
    unfolding interaction_neg_sampling_def neg_sample_by_pair_wise_sampling_def Let_def neg negs
    by (simp add: df_get_def dict_get_def uid nb attr_simps bind_err_simps fmt
        ins [unfolded neg negs])
  {
    assume "item_feat (dataset self) = None"
    then show "interaction_neg_sampling self feat = Inr (feat @ [(neg, negs)])"
      by (simp add: run)
  }
  {
    fix itf m ids
    assume a: "item_feat (dataset self) = Some itf \<and> wf_df itf m
              \<and> map_of itf (ITEM_ID_FIELD (config self)) = Some ids \<and> distinct ids"
    let ?out = "map (\<lambda>(c, vs). (inter_name (NEG_PREFIX (config self)) itf c, vs)) feat
                        @ [(neg, negs)]
                        @ map (\<lambda>(c, vs). (item_name (NEG_PREFIX (config self)) feat c,
                                            map (feature_of ids vs) negs))
                              (filter (\<lambda>(c, vs). c \<noteq> ITEM_ID_FIELD (config self)) itf)"
    from a have r: "interaction_neg_sampling self feat = Inr ?out"
      by (simp add: run merge_left_result [OF wf ln fresh _ _ _ neg, of itf m ids])
    from wf have all: "list_all (\<lambda>(c, vs). length vs = n) ?out"
      by (auto simp add: wf_df_def list_all_iff ln)
    from ne obtain c vs rest where f: "feat = (c, vs) # rest" by (cases feat) auto
    with wf have "length vs = n" by (simp add: wf_df_def)
    then have dl: "df_len ?out = n" by (simp add: f df_len_def)
    from r all dl show "\<exists>out. interaction_neg_sampling self feat = Inr out
               \<and> out = ?out \<and> list_all (\<lambda>(c, vs). length vs = n) out \<and> df_len out = n"
      by blast
  }
qed

theorem pairwise_neg_sampling_spec_witness:
  "interaction_neg_sampling ex_pair_loader (inter_feat ex_dataset)
     = Inr [(''user_id'', [IntV 1, IntV 1, IntV 2]), (''item_id'', [IntV 3, IntV 4, IntV 5]),
            (''neg_item_id'', [IntV 9, IntV 9, IntV 9]), (''neg_price'', [IntV 90, IntV 90, IntV 90])]
   \<and> interaction_neg_sampling (ex_loader\<lparr>dl_format := ''pairwise'', neg_sample_by := Some 1\<rparr>)
        (inter_feat ex_dataset)
     = Inr [(''user_id'', [IntV 1, IntV 1, IntV 2]), (''item_id'', [IntV 3, IntV 4, IntV 5]),
            (''neg_item_id'', [IntV 9, IntV 9, IntV 9])]"
proof -
  let ?feat = "inter_feat ex_dataset"
  let ?negs = "[IntV 9, IntV 9, IntV 9]"
  let ?L2 = "ex_loader\<lparr>dl_format := ''pairwise'', neg_sample_by := Some 1\<rparr>"
  have h1: "wf_df ?feat 3" by (simp add: wf_df_def ex_dataset_def)
  have cfg: "config ex_pair_loader = ex_config" "sampler ex_pair_loader = ex_sampler"
      "config ?L2 = ex_config" "sampler ?L2 = ex_sampler"
    by (simp_all add: ex_pair_loader_def ex_loader_def)
  have h2: "map_of ?feat (USER_ID_FIELD (config ex_pair_loader)) = Some [IntV 1, IntV 1, IntV 2]"
      "map_of ?feat (USER_ID_FIELD (config ?L2)) = Some [IntV 1, IntV 1, IntV 2]"
    by (simp_all add: cfg ex_config_def ex_dataset_def)
  have h3: "dl_format ex_pair_loader = ''pairwise''" "dl_format ?L2 = ''pairwise''"
    by (simp_all add: ex_pair_loader_def)
  have h4: "neg_sample_by ex_pair_loader = Some 1" "neg_sample_by ?L2 = Some 1"
    by (simp_all add: ex_pair_loader_def)
  have h5: "?negs = sample_by_user_ids (sampler ex_pair_loader) (phase ex_pair_loader)
                      [IntV 1, IntV 1, IntV 2] 1"
      "?negs = sample_by_user_ids (sampler ?L2) (phase ?L2) [IntV 1, IntV 1, IntV 2] 1"
    by (simp_all add: cfg ex_sampler_def numeral_eq_Suc)
  have h6: "length ?negs = 3" by simp
  have h7: "''neg_item_id'' = NEG_PREFIX (config ex_pair_loader) @ ITEM_ID_FIELD (config ex_pair_loader)"
      "''neg_item_id'' = NEG_PREFIX (config ?L2) @ ITEM_ID_FIELD (config ?L2)"
    by (simp_all add: cfg ex_config_def)
  have h8: "''neg_item_id'' \<notin> set (df_columns ?feat)"
    by (simp add: df_columns_def ex_dataset_def)
  note t1 = pairwise_neg_sampling_spec [OF h1 h2(1) h3(1) h4(1) h5(1) h6 h7(1) h8]
  note t2 = pairwise_neg_sampling_spec [OF h1 h2(2) h3(2) h4(2) h5(2) h6 h7(2) h8]
  have i1: "item_feat (dataset ex_pair_loader) = Some ex_item_feat \<and> wf_df ex_item_feat 3
        \<and> map_of ex_item_feat (ITEM_ID_FIELD (config ex_pair_loader)) = Some [IntV 3, IntV 4, IntV 9]
        \<and> distinct [IntV 3, IntV 4, IntV 9]"
    by (simp add: ex_pair_loader_def ex_loader_def ex_config_def ex_item_feat_def wf_df_def)
  from t1 i1 have a: "interaction_neg_sampling ex_pair_loader ?feat
      = Inr (map (\<lambda>(c, vs). (inter_name (NEG_PREFIX (config ex_pair_loader)) ex_item_feat c, vs)) ?feat
                        @ [(''neg_item_id'', ?negs)]
                        @ map (\<lambda>(c, vs). (item_name (NEG_PREFIX (config ex_pair_loader)) ?feat c,
                                            map (feature_of [IntV 3, IntV 4, IntV 9] vs) ?negs))
                              (filter (\<lambda>(c, vs). c \<noteq> ITEM_ID_FIELD (config ex_pair_loader)) ex_item_feat))"
    by blast
  have i2: "item_feat (dataset ?L2) = None"
    by (simp add: ex_loader_def ex_dataset_def)
  from t2 i2 have b: "interaction_neg_sampling ?L2 ?feat = Inr (?feat @ [(''neg_item_id'', ?negs)])"
    by blast
  show ?thesis
    unfolding a b
    by (simp add: cfg ex_config_def ex_dataset_def ex_item_feat_def inter_name_def item_name_def
        feature_of_def df_columns_def df_add_prefix_def)
qed

text \<open>
  With an item id that occurs twice in the item feature table, every row whose negative
  is that item is matched twice: three input rows give six.
\<close>

lemma pairwise_duplicate_item_ids:
  "interaction_neg_sampling
     (ex_pair_loader\<lparr>dataset := ex_dataset\<lparr>item_feat :=
        Some [(''item_id'', [IntV 9, IntV 9]), (''price'', [IntV 90, IntV 91])]\<rparr>\<rparr>)
     (inter_feat ex_dataset)
   = Inr [(''user_id'', [IntV 1, IntV 1, IntV 1, IntV 1, IntV 2, IntV 2]),
          (''item_id'', [IntV 3, IntV 3, IntV 4, IntV 4, IntV 5, IntV 5]),
          (''neg_item_id'', [IntV 9, IntV 9, IntV 9, IntV 9, IntV 9, IntV 9]),
          (''neg_price'', [IntV 90, IntV 91, IntV 90, IntV 91, IntV 90, IntV 91])]"
  by code_simp

subsection \<open>Conversion of a table to an Interaction\<close>

lemma data_setitem_list: "data_setitem (ListD l) k v = Inl TypeError"
  by (simp add: data_setitem_def)

lemma bind_err_fails: "(\<And>x. \<exists>e. f x = Inl e) \<Longrightarrow> \<exists>e. bind_err m f = Inl e"
  by (cases m) (simp_all add: bind_err_simps)

lemma convert_field_token:
  "field2type ds k = Some ''token'' \<Longrightarrow> map_of d k = Some v \<Longrightarrow>
   convert_field ds k (DictD d) = Inr (DictD (dict_set d k (as_tensor Long v)))"
  by (simp add: convert_field_def map_get_def data_getitem_def data_setitem_def dict_get_def
      bind_err_simps)

lemma convert_field_float:
  "field2type ds k = Some ''float'' \<Longrightarrow> map_of d k = Some v \<Longrightarrow>
   convert_field ds k (DictD d) = Inr (DictD (dict_set d k (as_tensor Float v)))"
  by (simp add: convert_field_def map_get_def data_getitem_def data_setitem_def dict_get_def
      bind_err_simps)

lemma convert_field_illegal:
  "field2type ds k = Some t \<Longrightarrow> t \<notin> set [''token'', ''float'', ''token_seq'', ''float_seq''] \<Longrightarrow>
   convert_field ds k data = Inl (ValueError (''Illegal ftype ['' @ t @ '']''))"
  by (simp add: convert_field_def map_get_def bind_err_simps)

lemma convert_field_seq_fails:
  assumes "field2type ds k = Some ftype" and "ftype = ''token_seq'' \<or> ftype = ''float_seq''"
  shows "\<exists>e. convert_field ds k data = Inl e"
proof -
  have "\<exists>e. bind_err (data_getitem data k) (\<lambda>v.
            bind_err (rows_of v) (\<lambda>rows.
            bind_err (cut_list t (field2seqlen ds) k rows) (\<lambda>data1.
            bind_err (pad_sequence data1) (\<lambda>padded.
              data_setitem (ListD data1) k padded)))) = Inl e" for t
    by (intro bind_err_fails) (simp add: data_setitem_list)
  with assms show ?thesis
    by (auto simp add: convert_field_def map_get_def bind_err_simps)
qed

lemma convert_fields_seq_fails:
  assumes "k \<in> set ks" and "field2type ds k = Some ftype"
    and "ftype = ''token_seq'' \<or> ftype = ''float_seq''"
  shows "\<exists>e. convert_fields ds ks data = Inl e"
  using assms(1)
proof (induction ks arbitrary: data)
  case Nil
  then show ?case by simp
next
  case (Cons k' ks)
  show ?case
  proof (cases "convert_field ds k' data")
    case (Inl e)
    then show ?thesis by (simp add: bind_err_simps)
  next
    case (Inr data')
    have "k' \<noteq> k"
    proof
      assume "k' = k"
      with convert_field_seq_fails [OF assms(2,3), of data] Inr show False by simp
    qed
    with Cons.prems have "k \<in> set ks" by simp
    from Cons.IH [OF this, of data'] Inr show ?thesis by (simp add: bind_err_simps)
  qed
qed

lemma keys_to_dict_aux:
  "set (map fst (fold (\<lambda>(c, vs) d. dict_set d c (PyList vs)) df d)) = set (map fst d) \<union> set (map fst df)"
proof (induction df arbitrary: d)
  case Nil
  then show ?case by simp
next
  case (Cons x df)
  obtain c vs where x: "x = (c, vs)" by (cases x)
  have "set (map fst (dict_set d c (PyList vs))) = insert c (set (map fst d))"
    by (auto simp add: keys_dict_set)
  with Cons.IH [of "dict_set d c (PyList vs)"] show ?case
    by (simp add: x)
qed

lemma keys_to_dict: "set (map fst (to_dict df)) = set (map fst df)"
  unfolding to_dict_def using keys_to_dict_aux [of df "[]"] by simp

lemma dataframe_to_interaction_seq_fails:
  assumes "c \<in> set (df_columns df)" and "field2type (dataset self) c = Some ftype"
    and "ftype = ''token_seq'' \<or> ftype = ''float_seq''"
  shows "\<exists>e. dataframe_to_interaction self df = Inl e"
proof -
  from assms(1) have "c \<in> set (map fst (to_dict df))"
    by (simp only: keys_to_dict df_columns_def)
  from convert_fields_seq_fails [OF this assms(2,3), of "DictD (to_dict df)"]
  obtain e where "convert_fields (dataset self) (map fst (to_dict df)) (DictD (to_dict df)) = Inl e"
    by blast
  then show ?thesis
    unfolding dataframe_to_interaction_def Let_def by (simp add: bind_err_simps)
qed

text \<open>
  Claim C4 at a table with a \<open>token_seq\<close> field: the rows are cut to the registered
  length 2 and padded to \<open>[[3, 4], [6, 0]]\<close>, but the list of cut rows has been bound to
  \<open>data\<close>, so storing the padded tensor under the field name raises TypeError and no
  Interaction is returned.
\<close>

theorem dataframe_to_interaction_seq_field:
  "dataframe_to_interaction ex_seq_loader ex_seq_table = Inl TypeError
   \<and> bind_err (cut_list Long (field2seqlen (dataset ex_seq_loader)) ''item_list''
                 [SeqV [IntV 3, IntV 4, IntV 5], SeqV [IntV 6]]) pad_sequence
       = Inr (Torch (Tensor2 Long [[IntV 3, IntV 4], [IntV 6, IntV 0]]))
   \<and> dataframe_to_interaction ex_seq_loader [(''user_id'', [IntV 1, IntV 2])]
       = Inr \<lparr>interaction = [(''user_id'', Torch (Tensor1 Long [IntV 1, IntV 2]))], length_I = Some 2\<rparr>"
  by (simp add: dataframe_to_interaction_def ex_seq_loader_def ex_seq_table_def to_dict_def
      convert_field_def map_get_def dict_get_def data_getitem_def data_setitem_def bind_err_simps
      pad_sequence_def py_take_def py_slice_def py_bound_def Interaction_init_def Let_def)

subsection \<open>Grouped negative sampling: the buffers\<close>

lemma np_fill_at:
  "length A = lo \<Longrightarrow> n \<le> r \<Longrightarrow>
   np_fill_slice (A @ replicate r z) lo (lo + n) v = A @ replicate n v @ replicate (r - n) z"
  by (simp add: np_fill_slice_def Let_def min_def max_def)

lemma np_assign_at:
  "length A = lo \<Longrightarrow> length vals = n \<Longrightarrow> n \<le> r \<Longrightarrow>
   np_assign_slice (A @ replicate r z) lo (lo + n) vals = Inr (A @ vals @ replicate (r - n) z)"
  by (simp add: np_assign_slice_def Let_def min_def max_def)

lemma replicate_split: "n \<le> r \<Longrightarrow> replicate r z = replicate n z @ replicate (r - n) z"
  by (simp add: replicate_add [symmetric])

text \<open>The buffers after one more group, when the group fits in what is left of them.\<close>

lemma group_step_buffers:
  assumes names: "USER_ID_FIELD (config self) \<noteq> ITEM_ID_FIELD (config self)"
      "USER_ID_FIELD (config self) \<noteq> LABEL_FIELD (config self)"
      "ITEM_ID_FIELD (config self) \<noteq> LABEL_FIELD (config self)"
    and items: "group_items self row = Inr (pos, neg)"
    and buf: "new_inter st = [(USER_ID_FIELD (config self), U @ replicate r 0),
                              (ITEM_ID_FIELD (config self), I @ replicate r 0),
                              (LABEL_FIELD (config self), L @ replicate r 0)]"
    and len: "length U = new_inter_num st" "length I = new_inter_num st" "length L = new_inter_num st"
    and fits: "length pos + length neg \<le> r"
  shows "bind_err (buf_fill (new_inter st) (USER_ID_FIELD (config self)) (new_inter_num st)
                     (new_inter_num st + length pos + length neg) (fst row)) (\<lambda>b1.
         bind_err (buf_assign b1 (ITEM_ID_FIELD (config self)) (new_inter_num st)
                     (new_inter_num st + length pos) pos) (\<lambda>b2.
         bind_err (buf_assign b2 (ITEM_ID_FIELD (config self)) (new_inter_num st + length pos)
                     (new_inter_num st + length pos + length neg) neg) (\<lambda>b3.
         bind_err (buf_fill b3 (LABEL_FIELD (config self)) (new_inter_num st)
                     (new_inter_num st + length pos) 1) (\<lambda>b4. f b4))))
         = f [(USER_ID_FIELD (config self),
                 (U @ replicate (length pos + length neg) (fst row))
                   @ replicate (r - (length pos + length neg)) 0),
              (ITEM_ID_FIELD (config self),
                 (I @ pos @ neg) @ replicate (r - (length pos + length neg)) 0),
              (LABEL_FIELD (config self),
                 (L @ replicate (length pos) 1 @ replicate (length neg) 0)
                   @ replicate (r - (length pos + length neg)) 0)]"
proof -
  let ?n = "new_inter_num st" and ?p = "length pos" and ?q = "length neg"
  let ?uf = "USER_ID_FIELD (config self)" and ?itf = "ITEM_ID_FIELD (config self)"
  let ?lf = "LABEL_FIELD (config self)"
  have u: "np_fill_slice (U @ replicate r 0) ?n (?n + ?p + ?q) (fst row)
           = U @ replicate (?p + ?q) (fst row) @ replicate (r - (?p + ?q)) 0"
    using np_fill_at [OF len(1) fits, of 0 "fst row"] by (simp add: add.assoc)
  from fits have pr: "?p \<le> r" by simp
  have i1: "np_assign_slice (I @ replicate r 0) ?n (?n + ?p) pos
            = Inr (I @ pos @ replicate (r - ?p) 0)"
    by (rule np_assign_at [OF len(2) refl pr])
  have i2: "np_assign_slice (I @ pos @ replicate (r - ?p) 0) (?n + ?p) (?n + ?p + ?q) neg
            = Inr (I @ pos @ neg @ replicate (r - (?p + ?q)) 0)"
    using np_assign_at [of "I @ pos" "?n + ?p" neg ?q "r - ?p" 0] len(2) fits by simp
  have l1: "np_fill_slice (L @ replicate r 0) ?n (?n + ?p) 1
            = L @ replicate ?p 1 @ replicate ?q 0 @ replicate (r - (?p + ?q)) 0"
    using np_fill_at [OF len(3) pr, of 0 1] replicate_split [of ?q "r - ?p" "0::int"] fits
    by simp
  show ?thesis
    unfolding buf buf_fill_def buf_assign_def
    by (simp add: dict_get_def names names [symmetric] bind_err_simps u i1 i2 l1)
qed

lemma group_rows_lengths:
  "length (fst (snd (group_rows self x))) = group_width self x"
  "length (snd (snd (group_rows self x))) = group_width self x"
  "length (fst (group_rows self x)) = group_width self x"
  by (auto simp add: group_width_def group_rows_def split: sum.splits)

lemma length_concat_rows:
  "length (concat (map (\<lambda>x. fst (group_rows self x)) prev)) = sum_list (map (group_width self) prev)"
  "length (concat (map (\<lambda>x. fst (snd (group_rows self x))) prev)) = sum_list (map (group_width self) prev)"
  "length (concat (map (\<lambda>x. snd (snd (group_rows self x))) prev)) = sum_list (map (group_width self) prev)"
  by (simp_all add: length_concat comp_def group_rows_lengths)

lemma group_items_full: "full self = Some fl \<Longrightarrow> \<exists>pos neg. group_items self row = Inr (pos, neg)"
  by (simp add: group_items_def Let_def attr_simps bind_err_simps)

lemma group_step_buf_state:
  assumes names: "USER_ID_FIELD (config self) \<noteq> ITEM_ID_FIELD (config self)"
      "USER_ID_FIELD (config self) \<noteq> LABEL_FIELD (config self)"
      "ITEM_ID_FIELD (config self) \<noteq> LABEL_FIELD (config self)"
    and full: "full self = Some fl"
    and bs: "buf_state self prev r st"
    and fits: "group_width self row \<le> r"
  shows "\<exists>st1. group_step self i row st = record_breakpoint self i st1
           \<and> buf_state self (prev @ [row]) (r - group_width self row) st1
           \<and> g_next st1 = g_next st \<and> last_pr st1 = last_pr st"
proof -
  from group_items_full [OF full] obtain pos neg where gi: "group_items self row = Inr (pos, neg)"
    by blast
  then have gr: "group_rows self row
      = (replicate (length pos + length neg) (fst row), pos @ neg,
         replicate (length pos) 1 @ replicate (length neg) 0)"
    by (simp add: group_rows_def)
  then have w: "group_width self row = length pos + length neg"
    by (simp add: group_width_def)
  let ?U = "concat (map (\<lambda>x. fst (group_rows self x)) prev)"
  let ?I = "concat (map (\<lambda>x. fst (snd (group_rows self x))) prev)"
  let ?L = "concat (map (\<lambda>x. snd (snd (group_rows self x))) prev)"
  from bs have buf: "new_inter st = [(USER_ID_FIELD (config self), ?U @ replicate r 0),
                              (ITEM_ID_FIELD (config self), ?I @ replicate r 0),
                              (LABEL_FIELD (config self), ?L @ replicate r 0)]"
    and nin: "new_inter_num st = sum_list (map (group_width self) prev)"
    by (simp_all add: buf_state_def)
  have len: "length ?U = new_inter_num st" "length ?I = new_inter_num st" "length ?L = new_inter_num st"
    by (simp_all add: length_concat_rows nin)
  from fits w have fits': "length pos + length neg \<le> r" by simp
  let ?b4 = "[(USER_ID_FIELD (config self),
                 (?U @ replicate (length pos + length neg) (fst row))
                   @ replicate (r - (length pos + length neg)) 0),
              (ITEM_ID_FIELD (config self),
                 (?I @ pos @ neg) @ replicate (r - (length pos + length neg)) 0),
              (LABEL_FIELD (config self),
                 (?L @ replicate (length pos) 1 @ replicate (length neg) 0)
                   @ replicate (r - (length pos + length neg)) 0)]"
  let ?st1 = "st\<lparr>new_inter := ?b4, new_inter_num := new_inter_num st + (length pos + length neg)\<rparr>"
  have run: "group_step self i row st = record_breakpoint self i ?st1"
    unfolding group_step_def Let_def gi bind_err_simps prod.case
    by (rule group_step_buffers [OF names gi buf len fits'])
  have "buf_state self (prev @ [row]) (r - group_width self row) ?st1"
    by (simp add: buf_state_def gr w nin)
  with run show ?thesis by (intro exI [of _ ?st1]) simp
qed

lemma buf_state_cong:
  "new_inter st' = new_inter st \<Longrightarrow> new_inter_num st' = new_inter_num st \<Longrightarrow>
   buf_state self prev r st \<Longrightarrow> buf_state self prev r st'"
  by (simp add: buf_state_def)

text \<open>
  The loop keeps the buffers in step with the groups processed, whatever is known (\<open>C\<close>)
  about the breakpoints, as long as recording a breakpoint succeeds and keeps \<open>C\<close>.
\<close>

lemma grouped_loop_generic:
  assumes names: "USER_ID_FIELD (config self) \<noteq> ITEM_ID_FIELD (config self)"
      "USER_ID_FIELD (config self) \<noteq> LABEL_FIELD (config self)"
      "ITEM_ID_FIELD (config self) \<noteq> LABEL_FIELD (config self)"
    and full: "full self = Some fl"
    and ctl: "\<And>prev row st1. Rok row \<Longrightarrow> C prev (g_next st1) (last_pr st1) \<Longrightarrow>
               new_inter_num st1 = sum_list (map (group_width self) (prev @ [row])) \<Longrightarrow>
               \<exists>st'. record_breakpoint self (length prev) st1 = Inr st'
                 \<and> new_inter st' = new_inter st1 \<and> new_inter_num st' = new_inter_num st1
                 \<and> C (prev @ [row]) (g_next st') (last_pr st')"
  shows "list_all Rok rest \<Longrightarrow> buf_state self prev r st \<Longrightarrow> C prev (g_next st) (last_pr st) \<Longrightarrow>
         sum_list (map (group_width self) rest) \<le> r \<Longrightarrow>
         \<exists>st'. grouped_loop self (length prev) rest st = Inr st'
           \<and> buf_state self (prev @ rest) (r - sum_list (map (group_width self) rest)) st'
           \<and> C (prev @ rest) (g_next st') (last_pr st')"
proof (induction rest arbitrary: prev r st)
  case Nil
  then show ?case by simp
next
  case (Cons row rest)
  let ?w = "group_width self row"
  from Cons.prems(4) have fits: "?w \<le> r" and rest: "sum_list (map (group_width self) rest) \<le> r - ?w"
    by simp_all
  from Cons.prems(1) have ok: "Rok row" and oks: "list_all Rok rest" by simp_all
  from group_step_buf_state [OF names full Cons.prems(2) fits, of "length prev"]
  obtain st1 where s1: "group_step self (length prev) row st = record_breakpoint self (length prev) st1"
    and b1: "buf_state self (prev @ [row]) (r - ?w) st1"
    and c1: "g_next st1 = g_next st" "last_pr st1 = last_pr st"
    by blast
  from b1 have n1: "new_inter_num st1 = sum_list (map (group_width self) (prev @ [row]))"
    by (simp add: buf_state_def)
  from Cons.prems(3) c1 have "C prev (g_next st1) (last_pr st1)" by simp
  from ctl [OF ok this n1]
  obtain st2 where s2: "record_breakpoint self (length prev) st1 = Inr st2"
    and e2: "new_inter st2 = new_inter st1" "new_inter_num st2 = new_inter_num st1"
    and c2: "C (prev @ [row]) (g_next st2) (last_pr st2)"
    by blast
  have b2: "buf_state self (prev @ [row]) (r - ?w) st2"
    by (rule buf_state_cong [OF e2 b1])
  from Cons.IH [OF oks b2 c2 rest]
  obtain st3 where s3: "grouped_loop self (length (prev @ [row])) rest st2 = Inr st3"
    and b3: "buf_state self ((prev @ [row]) @ rest) (r - ?w - sum_list (map (group_width self) rest)) st3"
    and c3: "C ((prev @ [row]) @ rest) (g_next st3) (last_pr st3)"
    by blast
  have "grouped_loop self (length prev) (row # rest) st = Inr st3"
    using s1 s2 s3 by (simp add: bind_err_simps)
  moreover have "r - ?w - sum_list (map (group_width self) rest)
                 = r - sum_list (map (group_width self) (row # rest))"
    by simp
  ultimately show ?case using b3 c3 by (intro exI [of _ st3]) simp
qed

lemma record_breakpoint_defined:
  assumes "real_time_neg_sampling self \<or> (\<exists>stp. step self = Some stp \<and> stp \<noteq> 0)"
    and "ctl_defined self prev (g_next st1) (last_pr st1)"
  shows "\<exists>st'. record_breakpoint self (length prev) st1 = Inr st'
                 \<and> new_inter st' = new_inter st1 \<and> new_inter_num st' = new_inter_num st1
                 \<and> ctl_defined self (prev @ [row]) (g_next st') (last_pr st')"
proof (cases "real_time_neg_sampling self")
  case True
  then show ?thesis by (simp add: record_breakpoint_def ctl_defined_def)
next
  case False
  with assms(1) obtain stp where stp: "step self = Some stp" "stp \<noteq> 0" by blast
  show ?thesis
  proof (cases "prev = []")
    case True
    then show ?thesis
      by (simp add: record_breakpoint_def False stp attr_simps bind_err_simps py_mod_def
          ctl_defined_def)
  next
    case ne: False
    with assms(2) False obtain m l where d: "g_next st1 = Some m" "last_pr st1 = Some l"
      by (auto simp add: ctl_defined_def)
    from ne show ?thesis
      by (simp add: record_breakpoint_def False stp attr_simps bind_err_simps py_mod_def
          ctl_defined_def d local_var_def)
  qed
qed

lemma sum_list_le_times:
  "list_all (\<lambda>x. f x \<le> (c::nat)) xs \<Longrightarrow> sum_list (map f xs) \<le> length xs * c"
  by (induction xs) auto

lemma dict_set3:
  assumes "uf \<noteq> itf" "uf \<noteq> lf" "itf \<noteq> lf"
  shows "dict_set (dict_set (dict_set [] uf a) itf b) lf c = [(uf, a), (itf, b), (lf, c)]"
  using assms by simp

text \<open>
  The table of the grouped sampling: when no group is wider than \<open>to\<close>, the buffers are
  never overrun and the table is the expanded table of the groups.
\<close>

lemma grouped_neg_sampling_table:
  assumes names: "USER_ID_FIELD (config self) \<noteq> ITEM_ID_FIELD (config self)"
      "USER_ID_FIELD (config self) \<noteq> LABEL_FIELD (config self)"
      "ITEM_ID_FIELD (config self) \<noteq> LABEL_FIELD (config self)"
    and full: "full self = Some fl"
    and to0: "0 \<le> nsa_to (neg_sample_args self)"
    and wd: "list_all (\<lambda>row. group_width self row \<le> nat (nsa_to (neg_sample_args self))) rows"
    and ok: "list_all Rok rows"
    and c0: "C [] (next_l self) None"
    and ctl: "\<And>prev row st1. Rok row \<Longrightarrow> C prev (g_next st1) (last_pr st1) \<Longrightarrow>
               new_inter_num st1 = sum_list (map (group_width self) (prev @ [row])) \<Longrightarrow>
               \<exists>st'. record_breakpoint self (length prev) st1 = Inr st'
                 \<and> new_inter st' = new_inter st1 \<and> new_inter_num st' = new_inter_num st1
                 \<and> C (prev @ [row]) (g_next st') (last_pr st')"
  shows "\<exists>nx lp. C rows nx lp \<and>
           grouped_neg_sampling self rows
           = (if \<not> real_time_neg_sampling self
              then bind_err (attr ''next'' nx) (\<lambda>m.
                   bind_err (local_var ''last_pr'' lp) (\<lambda>l.
                     Inr (expanded_table self rows,
                          self\<lparr>next_l := Some (m(l \<mapsto> int (df_len (expanded_table self rows))))\<rparr>)))
              else Inr (join (dataset self) (expanded_table self rows), self\<lparr>next_l := nx\<rparr>))"
proof -
  let ?to = "nsa_to (neg_sample_args self)"
  let ?cap = "length rows * nat ?to"
  let ?W = "sum_list (map (group_width self) rows)"
  let ?Z = "replicate ?cap (0::int)"
  let ?st0 = "\<lparr>new_inter = [(USER_ID_FIELD (config self), ?Z), (ITEM_ID_FIELD (config self), ?Z),
                            (LABEL_FIELD (config self), ?Z)],
              new_inter_num = 0, g_next = next_l self, last_pr = None\<rparr>"
  have "int (length rows) * ?to = int ?cap" using to0 by simp
  then have z: "np_zeros (int (length rows) * ?to) = Inr ?Z"
    by (simp add: np_zeros_def del: of_nat_mult)
  have b0: "buf_state self [] ?cap ?st0" by (simp add: buf_state_def)
  have cap: "?W \<le> ?cap" using wd by (rule sum_list_le_times)
  from grouped_loop_generic [of self fl Rok C rows "[]" ?cap ?st0, OF names full ctl ok b0 _ cap] c0
  obtain st where run: "grouped_loop self 0 rows ?st0 = Inr st"
    and bs: "buf_state self rows (?cap - ?W) st"
    and c: "C rows (g_next st) (last_pr st)"
    by auto
  let ?U = "concat (map (\<lambda>x. fst (group_rows self x)) rows)"
  let ?I = "concat (map (\<lambda>x. fst (snd (group_rows self x))) rows)"
  let ?L = "concat (map (\<lambda>x. snd (snd (group_rows self x))) rows)"
  from bs have df: "map (\<lambda>(c, a). (c, map IntV (take (new_inter_num st) a))) (new_inter st)
                    = expanded_table self rows"
    by (simp add: buf_state_def expanded_table_def length_concat_rows)
  have "grouped_neg_sampling self rows
           = (if \<not> real_time_neg_sampling self
              then bind_err (attr ''next'' (g_next st)) (\<lambda>m.
                   bind_err (local_var ''last_pr'' (last_pr st)) (\<lambda>l.
                     Inr (expanded_table self rows,
                          self\<lparr>next_l := Some (m(l \<mapsto> int (df_len (expanded_table self rows))))\<rparr>)))
              else Inr (join (dataset self) (expanded_table self rows), self\<lparr>next_l := g_next st\<rparr>))"
    unfolding grouped_neg_sampling_def Let_def z bind_err_simps dict_set3 [OF names] run df
    by simp
  with c show ?thesis by blast
qed

lemma py_take_nonneg: "0 \<le> e \<Longrightarrow> py_take e xs = take (nat e) xs"
  by (simp add: py_take_def py_slice_def py_bound_def Let_def min_def)

subsection \<open>Grouped negative sampling: the groups\<close>

text \<open>
  Claim C3. In the grouped loader's sampling with a candidate-set size \<open>to\<close> of at
  least 1 (not full), for every group: the positives kept are the first
  \<open>min (pos_count, to - 1)\<close> positive items, \<open>to - pos_num\<close> negatives are requested from
  the sampler, the group's rows are its positives and then its negatives, all with the
  group's user id, labelled 1 on the positives and 0 on the negatives; with a sampler
  that never returns more than requested no group is wider than \<open>to\<close>, and a group is
  exactly \<open>to\<close> wide when the sampler returns as many as requested. The table returned is
  these rows, group after group (passed through the dataset's \<open>join\<close> in real-time mode).
\<close>

theorem grouped_neg_sampling_spec:
  assumes names: "USER_ID_FIELD (config self) \<noteq> ITEM_ID_FIELD (config self)"
      "USER_ID_FIELD (config self) \<noteq> LABEL_FIELD (config self)"
      "ITEM_ID_FIELD (config self) \<noteq> LABEL_FIELD (config self)"
    and full: "full self = Some False"
    and to1: "1 \<le> nsa_to (neg_sample_args self)"
    and smp: "\<forall>u k. length (sample_by_user_id (sampler self) (phase self) u k) \<le> nat k"
    and ctl: "real_time_neg_sampling self \<or> (rows \<noteq> [] \<and> (\<exists>stp. step self = Some stp \<and> stp \<noteq> 0))"
  shows "(\<forall>row. let pos = take (nat (nsa_to (neg_sample_args self) - 1)) (snd row);
                   neg = sample_by_user_id (sampler self) (phase self) (fst row)
                           (nsa_to (neg_sample_args self) - int (length pos))
               in group_items self row = Inr (pos, neg)
                  \<and> length pos = min (length (snd row)) (nat (nsa_to (neg_sample_args self) - 1))
                  \<and> group_rows self row
                      = (replicate (length pos + length neg) (fst row), pos @ neg,
                         replicate (length pos) 1 @ replicate (length neg) 0)
                  \<and> group_width self row \<le> nat (nsa_to (neg_sample_args self))
                  \<and> (length neg = nat (nsa_to (neg_sample_args self) - int (length pos))
                       \<longrightarrow> group_width self row = nat (nsa_to (neg_sample_args self))))
       \<and> (\<exists>self'. grouped_neg_sampling self rows
                    = Inr (if real_time_neg_sampling self
                           then join (dataset self) (expanded_table self rows)
                           else expanded_table self rows, self'))"
proof -
  let ?to = "nsa_to (neg_sample_args self)"
  have per_row: "group_items self row = Inr (pos, neg)
                  \<and> length pos = min (length (snd row)) (nat (?to - 1))
                  \<and> group_rows self row
                      = (replicate (length pos + length neg) (fst row), pos @ neg,
                         replicate (length pos) 1 @ replicate (length neg) 0)
                  \<and> group_width self row \<le> nat ?to
                  \<and> (length neg = nat (?to - int (length pos)) \<longrightarrow> group_width self row = nat ?to)"
    if pos: "pos = take (nat (?to - 1)) (snd row)"
      and neg: "neg = sample_by_user_id (sampler self) (phase self) (fst row) (?to - int (length pos))"
    for row pos neg
  proof -
    have gi: "group_items self row = Inr (pos, neg)"
      using to1 by (simp add: group_items_def Let_def full attr_simps bind_err_simps
          py_take_nonneg pos neg)
    have lp: "length pos = min (length (snd row)) (nat (?to - 1))"
      by (simp add: pos)
    have gr: "group_rows self row
                      = (replicate (length pos + length neg) (fst row), pos @ neg,
                         replicate (length pos) 1 @ replicate (length neg) 0)"
      by (simp add: group_rows_def gi)
    then have w: "group_width self row = length pos + length neg"
      by (simp add: group_width_def)
    from smp neg have ln: "length neg \<le> nat (?to - int (length pos))" by simp
    from lp to1 have "int (length pos) \<le> ?to - 1" by simp
    with ln w have "group_width self row \<le> nat ?to" by simp
    moreover have "group_width self row = nat ?to" if "length neg = nat (?to - int (length pos))"
      using w that \<open>int (length pos) \<le> ?to - 1\<close> by simp
    ultimately show ?thesis using gi lp gr by blast
  qed
  have wd: "list_all (\<lambda>row. group_width self row \<le> nat ?to) rows"
    using per_row by (simp add: list_all_iff)
  have ok: "list_all (\<lambda>row. True) rows" by (simp add: list_all_iff)
  have c0: "ctl_defined self [] (next_l self) None" by (simp add: ctl_defined_def)
  from to1 have to0: "0 \<le> ?to" by simp
  have rb: "\<exists>st'. record_breakpoint self (length prev) st1 = Inr st'
                 \<and> new_inter st' = new_inter st1 \<and> new_inter_num st' = new_inter_num st1
                 \<and> ctl_defined self (prev @ [row]) (g_next st') (last_pr st')"
    if "ctl_defined self prev (g_next st1) (last_pr st1)" for prev row st1
    using ctl that by (intro record_breakpoint_defined) blast+
  from grouped_neg_sampling_table [of self False rows "\<lambda>row. True" "ctl_defined self",
      OF names full to0 wd ok c0 rb]
  obtain nx lp where c: "ctl_defined self rows nx lp"
    and run: "grouped_neg_sampling self rows
           = (if \<not> real_time_neg_sampling self
              then bind_err (attr ''next'' nx) (\<lambda>m.
                   bind_err (local_var ''last_pr'' lp) (\<lambda>l.
                     Inr (expanded_table self rows,
                          self\<lparr>next_l := Some (m(l \<mapsto> int (df_len (expanded_table self rows))))\<rparr>)))
              else Inr (join (dataset self) (expanded_table self rows), self\<lparr>next_l := nx\<rparr>))"
    by blast
  have "\<exists>self'. grouped_neg_sampling self rows
                    = Inr (if real_time_neg_sampling self
                           then join (dataset self) (expanded_table self rows)
                           else expanded_table self rows, self')"
  proof (cases "real_time_neg_sampling self")
    case True
    with run show ?thesis by simp
  next
    case False
    with ctl c obtain m l where "nx = Some m" "lp = Some l"
      by (auto simp add: ctl_defined_def)
    with run False show ?thesis
      by (simp add: attr_simps local_var_def bind_err_simps)
  qed
  with per_row show ?thesis by (simp add: Let_def)
qed

theorem grouped_neg_sampling_spec_witness:
  "group_items ex_grouped_loader (1, [3, 4, 5, 6, 7]) = Inr ([3, 4, 5], [9])
   \<and> group_rows ex_grouped_loader (1, [3, 4, 5, 6, 7]) = ([1, 1, 1, 1], [3, 4, 5, 9], [1, 1, 1, 0])
   \<and> group_width ex_grouped_loader (1, [3, 4, 5, 6, 7]) = 4
   \<and> (\<exists>self'. grouped_neg_sampling ex_grouped_loader ex_groups
        = Inr ([(''user_id'', map IntV [1, 1, 1, 1, 2, 2, 2, 2, 3, 3, 3, 3, 4, 4, 4, 4, 5, 5, 5, 5]),
                (''item_id'', map IntV [3, 4, 5, 9, 5, 9, 9, 9, 1, 2, 9, 9, 8, 9, 9, 9, 2, 3, 9, 9]),
                (''label'', map IntV [1, 1, 1, 0, 1, 0, 0, 0, 1, 1, 0, 0, 1, 0, 0, 0, 1, 1, 0, 0])],
               self'))"
proof -
  let ?L = ex_grouped_loader
  have f: "config ?L = ex_config" "sampler ?L = ex_sampler" "nsa_to (neg_sample_args ?L) = 4"
      "full ?L = Some False" "\<not> real_time_neg_sampling ?L" "step ?L = Some 2"
    by (simp_all add: ex_grouped_loader_def ex_loader_def)
  have h1: "USER_ID_FIELD (config ?L) \<noteq> ITEM_ID_FIELD (config ?L)"
    and h2: "USER_ID_FIELD (config ?L) \<noteq> LABEL_FIELD (config ?L)"
    and h3: "ITEM_ID_FIELD (config ?L) \<noteq> LABEL_FIELD (config ?L)"
    by (simp_all add: f ex_config_def)
  have h5: "1 \<le> nsa_to (neg_sample_args ?L)" by (simp add: f)
  have h6: "\<forall>u k. length (sample_by_user_id (sampler ?L) (phase ?L) u k) \<le> nat k"
    by (simp add: f ex_sampler_def)
  have h7: "real_time_neg_sampling ?L \<or> (ex_groups \<noteq> [] \<and> (\<exists>stp. step ?L = Some stp \<and> stp \<noteq> 0))"
    by (simp add: f ex_groups_def)
  note t = grouped_neg_sampling_spec [OF h1 h2 h3 f(4) h5 h6 h7]
  note row = t [THEN conjunct1, THEN spec, of "(1, [3, 4, 5, 6, 7])"]
  from row have a: "group_items ?L (1, [3, 4, 5, 6, 7]) = Inr ([3, 4, 5], [9])"
    and b: "group_rows ?L (1, [3, 4, 5, 6, 7]) = ([1, 1, 1, 1], [3, 4, 5, 9], [1, 1, 1, 0])"
    and c: "group_width ?L (1, [3, 4, 5, 6, 7]) = 4"
    by (simp_all add: Let_def f ex_sampler_def numeral_eq_Suc)
  from t f(5) obtain self' where run: "grouped_neg_sampling ?L ex_groups = Inr (expanded_table ?L ex_groups, self')"
    by auto
  have tbl: "expanded_table ?L ex_groups
     = [(''user_id'', map IntV [1, 1, 1, 1, 2, 2, 2, 2, 3, 3, 3, 3, 4, 4, 4, 4, 5, 5, 5, 5]),
        (''item_id'', map IntV [3, 4, 5, 9, 5, 9, 9, 9, 1, 2, 9, 9, 8, 9, 9, 9, 2, 3, 9, 9]),
        (''label'', map IntV [1, 1, 1, 0, 1, 0, 0, 0, 1, 1, 0, 0, 1, 0, 0, 0, 1, 1, 0, 0])]"
    by (simp add: expanded_table_def ex_groups_def group_rows_def group_items_def f attr_simps
        bind_err_simps py_take_nonneg ex_config_def ex_sampler_def Let_def numeral_eq_Suc)
  from a b c run tbl show ?thesis by simp
qed

subsection \<open>Grouped negative sampling: the breakpoints\<close>

lemma group_boundary_snoc:
  "j \<le> length prev \<Longrightarrow> group_boundary self (prev @ [row]) j = group_boundary self prev j"
  by (simp add: group_boundary_def)

lemma group_boundary_all:
  "group_boundary self rows (length rows) = sum_list (map (group_width self) rows)"
  by (simp add: group_boundary_def)

lemma recorded_cursors_snoc:
  "recorded_cursors self stp (prev @ [row])
   = recorded_cursors self stp prev
     @ (if 0 < length prev \<and> int (length prev) mod stp = 0
        then [int (sum_list (map (group_width self) (prev @ [row])))] else [])"
proof -
  let ?P = "\<lambda>j. 0 < j \<and> int j mod stp = 0"
  have old: "map (\<lambda>j. int (group_boundary self (prev @ [row]) (Suc j))) (filter ?P [0..<length prev])
             = map (\<lambda>j. int (group_boundary self prev (Suc j))) (filter ?P [0..<length prev])"
    by (rule map_cong [OF refl]) (simp add: group_boundary_snoc)
  have new: "group_boundary self (prev @ [row]) (Suc (length prev))
             = sum_list (map (group_width self) (prev @ [row]))"
    using group_boundary_all [of self "prev @ [row]"] by simp
  show ?thesis
    unfolding recorded_cursors_def by (simp add: old new)
qed

lemma record_breakpoint_chain:
  assumes nrt: "\<not> real_time_neg_sampling self"
    and stp: "step self = Some stp" "stp \<noteq> 0"
    and pos: "0 < group_width self row"
    and inv: "ctl_chain self stp prev (g_next st1) (last_pr st1)"
    and nin: "new_inter_num st1 = sum_list (map (group_width self) (prev @ [row]))"
  shows "\<exists>st'. record_breakpoint self (length prev) st1 = Inr st'
           \<and> new_inter st' = new_inter st1 \<and> new_inter_num st' = new_inter_num st1
           \<and> ctl_chain self stp (prev @ [row]) (g_next st') (last_pr st')"
proof (cases "prev = []")
  case True
  have "chain_inv Map.empty 0" by (simp add: chain_inv_def)
  moreover have "set (recorded_cursors self stp [row]) = {0}"
    by (simp add: recorded_cursors_def)
  ultimately show ?thesis
    using True
    by (simp add: record_breakpoint_def nrt stp attr_simps bind_err_simps py_mod_def ctl_chain_def)
next
  case False
  with inv obtain m l where m: "g_next st1 = Some m" and l: "last_pr st1 = Some l"
    and ci: "chain_inv m l"
    and le: "l \<le> int (sum_list (map (group_width self) prev))"
    and bp: "insert l (dom m) = set (recorded_cursors self stp prev)"
    by (auto simp add: ctl_chain_def)
  let ?W = "int (sum_list (map (group_width self) (prev @ [row])))"
  from le pos have lt: "l < ?W" by simp
  from False have i0: "0 < length prev" by simp
  show ?thesis
  proof (cases "int (length prev) mod stp = 0")
    case nz: False
    have run: "record_breakpoint self (length prev) st1 = Inr st1"
      using nz by (simp add: record_breakpoint_def nrt stp attr_simps bind_err_simps py_mod_def)
    have "ctl_chain self stp (prev @ [row]) (g_next st1) (last_pr st1)"
      using ci lt bp nz by (simp add: ctl_chain_def m l recorded_cursors_snoc)
    with run show ?thesis by simp
  next
    case z: True
    let ?st = "st1\<lparr>g_next := Some (m(l \<mapsto> ?W)), last_pr := Some ?W\<rparr>"
    have run: "record_breakpoint self (length prev) st1 = Inr ?st"
      using z False
      by (simp add: record_breakpoint_def nrt stp attr_simps bind_err_simps py_mod_def m l
          local_var_def nin)
    from ci have c1: "\<And>k v. m k = Some v \<Longrightarrow> 0 \<le> k \<and> k < v \<and> v \<le> l \<and> (v = l \<or> v \<in> dom m)"
      and c2: "l = 0 \<or> 0 \<in> dom m" and c3: "0 \<le> l"
      by (simp_all add: chain_inv_def)
    have "chain_inv (m(l \<mapsto> ?W)) ?W"
      unfolding chain_inv_def
    proof (intro conjI allI impI)
      fix k v assume kv: "(m(l \<mapsto> ?W)) k = Some v"
      show "0 \<le> k" using kv c1 c3 by (cases "k = l") auto
      show "k < v" using kv c1 lt by (cases "k = l") auto
      show "v \<le> ?W" using kv c1 [of k v] lt by (cases "k = l") auto
      show "v = ?W \<or> v \<in> dom (m(l \<mapsto> ?W))" using kv c1 [of k v] by (cases "k = l") auto
    next
      show "?W = 0 \<or> 0 \<in> dom (m(l \<mapsto> ?W))" using c2 by auto
      show "0 \<le> ?W" by simp
    qed
    moreover have "insert ?W (dom (m(l \<mapsto> ?W))) = set (recorded_cursors self stp (prev @ [row]))"
      using bp z i0 by (simp add: recorded_cursors_snoc insert_commute)
    ultimately have "ctl_chain self stp (prev @ [row]) (g_next ?st) (last_pr ?st)"
      by (simp add: ctl_chain_def)
    with run show ?thesis by (intro exI [of _ ?st]) simp
  qed
qed

lemma df_len_expanded_table:
  "df_len (expanded_table self rows) = sum_list (map (group_width self) rows)"
  by (simp add: expanded_table_def df_len_def length_concat_rows)

text \<open>
  The map the pre-materialized sampling leaves behind: its cursors are the recorded
  breakpoints, and each leads strictly upwards to the next one, the last to the number
  of rows of the table.
\<close>

lemma grouped_neg_sampling_next:
  assumes names: "USER_ID_FIELD (config self) \<noteq> ITEM_ID_FIELD (config self)"
      "USER_ID_FIELD (config self) \<noteq> LABEL_FIELD (config self)"
      "ITEM_ID_FIELD (config self) \<noteq> LABEL_FIELD (config self)"
    and full: "full self = Some fl"
    and nrt: "\<not> real_time_neg_sampling self"
    and stp: "step self = Some stp" "stp \<noteq> 0"
    and ne: "rows \<noteq> []"
    and pos: "list_all (\<lambda>row. 0 < group_width self row) rows"
    and wd: "list_all (\<lambda>row. group_width self row \<le> nat (nsa_to (neg_sample_args self))) rows"
  shows "\<exists>m. grouped_neg_sampling self rows = Inr (expanded_table self rows, self\<lparr>next_l := Some m\<rparr>)
           \<and> dom m = set (recorded_cursors self stp rows)
           \<and> 0 \<in> dom m
           \<and> (\<forall>k v. m k = Some v \<longrightarrow>
                 0 \<le> k \<and> (k < int (sum_list (map (group_width self) rows)) \<longrightarrow> k < v)
                 \<and> v \<le> int (sum_list (map (group_width self) rows))
                 \<and> (v = int (sum_list (map (group_width self) rows)) \<or> v \<in> dom m))"
proof -
  let ?len = "int (sum_list (map (group_width self) rows))"
  from ne obtain row rest where r: "rows = row # rest" by (cases rows) auto
  with pos wd have "0 < group_width self row" "group_width self row \<le> nat (nsa_to (neg_sample_args self))"
    by simp_all
  then have to0: "0 \<le> nsa_to (neg_sample_args self)" by linarith
  have c0: "ctl_chain self stp [] (next_l self) None" by (simp add: ctl_chain_def)
  have rb: "\<exists>st'. record_breakpoint self (length prev) st1 = Inr st'
                 \<and> new_inter st' = new_inter st1 \<and> new_inter_num st' = new_inter_num st1
                 \<and> ctl_chain self stp (prev @ [row]) (g_next st') (last_pr st')"
    if "0 < group_width self row" "ctl_chain self stp prev (g_next st1) (last_pr st1)"
       "new_inter_num st1 = sum_list (map (group_width self) (prev @ [row]))" for prev row st1
    using that by (intro record_breakpoint_chain [OF nrt stp])
  from grouped_neg_sampling_table [of self fl rows "\<lambda>row. 0 < group_width self row" "ctl_chain self stp",
      OF names full to0 wd pos c0 rb]
  obtain nx lp where c: "ctl_chain self stp rows nx lp"
    and run: "grouped_neg_sampling self rows
           = (if \<not> real_time_neg_sampling self
              then bind_err (attr ''next'' nx) (\<lambda>m.
                   bind_err (local_var ''last_pr'' lp) (\<lambda>l.
                     Inr (expanded_table self rows,
                          self\<lparr>next_l := Some (m(l \<mapsto> int (df_len (expanded_table self rows))))\<rparr>)))
              else Inr (join (dataset self) (expanded_table self rows), self\<lparr>next_l := nx\<rparr>))"
    by blast
  from c ne obtain m l where nx: "nx = Some m" and lp: "lp = Some l"
    and ci: "chain_inv m l" and le: "l \<le> ?len"
    and bp: "insert l (dom m) = set (recorded_cursors self stp rows)"
    by (auto simp add: ctl_chain_def)
  let ?M = "m(l \<mapsto> ?len)"
  have res: "grouped_neg_sampling self rows = Inr (expanded_table self rows, self\<lparr>next_l := Some ?M\<rparr>)"
    by (simp add: run nrt nx lp attr_simps local_var_def bind_err_simps df_len_expanded_table)
  from ci have c1: "\<And>k v. m k = Some v \<Longrightarrow> 0 \<le> k \<and> k < v \<and> v \<le> l \<and> (v = l \<or> v \<in> dom m)"
    and c2: "l = 0 \<or> 0 \<in> dom m" and c3: "0 \<le> l"
    by (simp_all add: chain_inv_def)
  have d: "dom ?M = set (recorded_cursors self stp rows)" using bp by simp
  have z: "0 \<in> dom ?M" using c2 by auto
  have ch: "0 \<le> k \<and> (k < ?len \<longrightarrow> k < v) \<and> v \<le> ?len \<and> (v = ?len \<or> v \<in> dom ?M)"
    if kv: "?M k = Some v" for k v
  proof (cases "k = l")
    case True
    with kv c3 show ?thesis by simp
  next
    case False
    with kv have "m k = Some v" by simp
    from c1 [OF this] le show ?thesis by auto
  qed
  from res d z ch show ?thesis by (intro exI [of _ ?M]) blast
qed

lemma sorted_wrt_less_hd: "sorted_wrt (<) (bs::int list) \<Longrightarrow> x \<in> set bs \<Longrightarrow> hd bs \<le> x"
  by (cases bs) auto

text \<open>
  A pass in pre-materialized mode, from a cursor of the chain: it follows the map up to
  the number of rows and returns the slices between consecutive cursors.
\<close>

lemma grouped_pass_chain:
  assumes nrt: "\<not> real_time_neg_sampling self"
    and nx: "next_l self = Some m"
    and len: "dataset_len (dataset self) = len"
    and ch: "\<forall>k v. m k = Some v \<longrightarrow> (k < len \<longrightarrow> k < v) \<and> v \<le> len \<and> (v = len \<or> v \<in> dom m)"
  shows "k = len \<or> k \<in> dom m \<Longrightarrow> k \<le> len \<Longrightarrow>
         \<exists>bs. bs \<noteq> [] \<and> hd bs = k \<and> last bs = len \<and> sorted_wrt (<) bs
           \<and> (\<forall>i. Suc i < length bs \<longrightarrow> m (bs ! i) = Some (bs ! Suc i))
           \<and> grouped_pass (self\<lparr>pr := k\<rparr>)
               = Some (Inr (map (\<lambda>(a, b). dataset_getitem (dataset self) a b) (zip bs (tl bs))))"
proof (induction "nat (len - k)" arbitrary: k rule: less_induct)
  case less
  have pe: "grouped_pr_end (self\<lparr>pr := k\<rparr>) = Inr len"
    by (simp add: grouped_pr_end_def nrt len)
  show ?case
  proof (cases "k = len")
    case True
    have "grouped_pass (self\<lparr>pr := len\<rparr>) = Some (Inr [])"
      by (subst grouped_pass.simps) (simp add: pe [unfolded True])
    then show ?thesis
      unfolding True by (intro exI [of _ "[len]"]) simp
  next
    case False
    with less.prems have kl: "k < len" and kd: "k \<in> dom m" by auto
    then obtain v where mk: "m k = Some v" by auto
    with ch kl have kv: "k < v" and vl: "v \<le> len" and vd: "v = len \<or> v \<in> dom m" by blast+
    from kv vl have "nat (len - v) < nat (len - k)" by simp
    from less.hyps [OF this vd vl]
    obtain bs where b: "bs \<noteq> []" "hd bs = v" "last bs = len" "sorted_wrt (<) bs"
        "\<forall>i. Suc i < length bs \<longrightarrow> m (bs ! i) = Some (bs ! Suc i)"
      and p: "grouped_pass (self\<lparr>pr := v\<rparr>)
               = Some (Inr (map (\<lambda>(a, b). dataset_getitem (dataset self) a b) (zip bs (tl bs))))"
      by blast
    have nd: "grouped_next_dataframe (self\<lparr>pr := k\<rparr>)
              = Inr (dataset_getitem (dataset self) k v, self\<lparr>pr := v\<rparr>)"
      by (simp add: grouped_next_dataframe_def nrt next_pr_def nx attr_simps bind_err_simps mk)
    from b(1) obtain b0 brest where bs: "bs = b0 # brest" by (cases bs) auto
    with b(2) have b0: "b0 = v" by simp
    have run: "grouped_pass (self\<lparr>pr := k\<rparr>)
               = Some (Inr (map (\<lambda>(a, b). dataset_getitem (dataset self) a b)
                              (zip (k # bs) (tl (k # bs)))))"
      using kl by (subst grouped_pass.simps) (simp add: pe nd p bs b0)
    have srt: "sorted_wrt (<) (k # bs)"
      using b(4) kv sorted_wrt_less_hd [OF b(4)] b(2) by fastforce
    have nth: "\<forall>i. Suc i < length (k # bs) \<longrightarrow> m ((k # bs) ! i) = Some ((k # bs) ! Suc i)"
    proof (intro allI impI)
      fix i assume i: "Suc i < length (k # bs)"
      show "m ((k # bs) ! i) = Some ((k # bs) ! Suc i)"
      proof (cases i)
        case 0
        then show ?thesis using mk bs b0 by simp
      next
        case (Suc j)
        with i b(5) show ?thesis by simp
      qed
    qed
    from run srt nth b(1,3) show ?thesis
      by (intro exI [of _ "k # bs"]) simp
  qed
qed

lemma py_slice_nonneg:
  "0 \<le> a \<Longrightarrow> a \<le> b \<Longrightarrow> b \<le> int (length xs) \<Longrightarrow>
   py_slice xs a b = take (nat b - nat a) (drop (nat a) xs)"
  by (simp add: py_slice_def py_bound_def Let_def min_def)

lemma py_slice_append:
  assumes "0 \<le> a" "a \<le> b" "b \<le> c" "c \<le> int (length xs)"
  shows "py_slice xs a b @ py_slice xs b c = py_slice xs a c"
proof -
  let ?i = "nat b - nat a" and ?j = "nat c - nat b"
  from assms have ij: "?i + ?j = nat c - nat a" and ia: "?i + nat a = nat b" by simp_all
  have "take (?i + ?j) (drop (nat a) xs)
        = take ?i (drop (nat a) xs) @ take ?j (drop ?i (drop (nat a) xs))"
    by (rule take_add)
  also have "drop ?i (drop (nat a) xs) = drop (nat b) xs"
    by (simp only: drop_drop ia)
  finally have "take (nat c - nat a) (drop (nat a) xs)
        = take ?i (drop (nat a) xs) @ take ?j (drop (nat b) xs)"
    by (simp only: ij)
  moreover have "py_slice xs a b = take ?i (drop (nat a) xs)"
    using assms by (intro py_slice_nonneg) simp_all
  moreover have "py_slice xs b c = take ?j (drop (nat b) xs)"
    using assms by (intro py_slice_nonneg) simp_all
  moreover have "py_slice xs a c = take (nat c - nat a) (drop (nat a) xs)"
    using assms by (intro py_slice_nonneg) simp_all
  ultimately show ?thesis by simp
qed

text \<open>The slices between the consecutive cursors of an increasing chain, put together.\<close>

lemma concat_slices:
  "sorted_wrt (<) bs \<Longrightarrow> bs \<noteq> [] \<Longrightarrow> 0 \<le> hd bs \<Longrightarrow> last bs \<le> int (length xs) \<Longrightarrow>
   concat (map (\<lambda>(a, b). py_slice xs a b) (zip bs (tl bs))) = py_slice xs (hd bs) (last bs)"
proof (induction bs)
  case Nil
  then show ?case by simp
next
  case (Cons a bs)
  show ?case
  proof (cases bs)
    case Nil
    with Cons.prems show ?thesis by (simp add: py_slice_nonneg)
  next
    case (Cons b cs)
    with Cons.prems have ab: "a < b" and srt: "sorted_wrt (<) bs" and a0: "0 \<le> a"
      and l: "last bs \<le> int (length xs)" by simp_all
    from srt Cons have bl: "b \<le> last bs"
      using sorted_wrt_less_hd [OF srt, of "last bs"] by simp
    from Cons.IH [OF srt] Cons a0 ab l
    have ih: "concat (map (\<lambda>(a, b). py_slice xs a b) (zip bs (tl bs))) = py_slice xs b (last bs)"
      by simp
    have "py_slice xs a b @ py_slice xs b (last bs) = py_slice xs a (last bs)"
      using a0 ab bl l by (intro py_slice_append) simp_all
    with ih Cons show ?thesis by simp
  qed
qed

lemma py_slice_all: "py_slice xs 0 (int (length xs)) = xs"
  by (simp add: py_slice_nonneg)

lemma recorded_cursors_boundary:
  assumes "x \<in> set (recorded_cursors self stp rows)"
  shows "\<exists>j\<le>length rows. x = int (group_boundary self rows j)"
proof (cases "x = 0")
  case True
  then show ?thesis by (intro exI [of _ 0]) (simp add: group_boundary_def)
next
  case False
  with assms obtain j where "j < length rows" "x = int (group_boundary self rows (Suc j))"
    by (auto simp add: recorded_cursors_def)
  then show ?thesis by (intro exI [of _ "Suc j"]) simp
qed

text \<open>
  The slices of a three-column table between the consecutive cursors of an increasing
  chain from 0 to its number of rows, stacked: the table again.
\<close>

lemma df_stack_slices:
  assumes names: "cu \<noteq> ci" "cu \<noteq> cl" "ci \<noteq> cl"
    and len: "length U = n" "length I = n" "length L = n"
    and srt: "sorted_wrt (<) bs" and hd: "hd bs = 0" and lst: "last bs = int n"
    and two: "2 \<le> length bs"
  shows "df_stack (map (\<lambda>(a, b). df_slice [(cu, U), (ci, I), (cl, L)] a b) (zip bs (tl bs)))
         = [(cu, U), (ci, I), (cl, L)]"
proof -
  let ?tbl = "[(cu, U), (ci, I), (cl, L)]"
  let ?segs = "zip bs (tl bs)"
  from two obtain b0 b1 rest where bs: "bs = b0 # b1 # rest"
    by (cases bs; cases "tl bs") auto
  have ne: "bs \<noteq> []" using bs by simp
  have col: "concat (map (\<lambda>(a, b). py_slice vs a b) ?segs) = vs" if "length vs = n" for vs :: "cell list"
  proof -
    from concat_slices [OF srt ne, of vs] hd lst that
    have "concat (map (\<lambda>(a, b). py_slice vs a b) ?segs) = py_slice vs 0 (int (length vs))"
      by simp
    then show ?thesis by (simp add: py_slice_all)
  qed
  have cu: "map (\<lambda>df. df_column df cu) (map (\<lambda>(a, b). df_slice ?tbl a b) ?segs)
            = map (\<lambda>(a, b). py_slice U a b) ?segs"
    by (simp add: df_column_def df_slice_def split_def)
  have ci: "map (\<lambda>df. df_column df ci) (map (\<lambda>(a, b). df_slice ?tbl a b) ?segs)
            = map (\<lambda>(a, b). py_slice I a b) ?segs"
    using names by (simp add: df_column_def df_slice_def split_def)
  have cl: "map (\<lambda>df. df_column df cl) (map (\<lambda>(a, b). df_slice ?tbl a b) ?segs)
            = map (\<lambda>(a, b). py_slice L a b) ?segs"
    using names by (simp add: df_column_def df_slice_def split_def)
  define dfs where "dfs = map (\<lambda>(a, b). df_slice ?tbl a b) ?segs"
  have first: "dfs = df_slice ?tbl b0 b1 # map (\<lambda>(a, b). df_slice ?tbl a b) (zip (b1 # rest) rest)"
    by (simp add: dfs_def bs)
  have "df_stack dfs = map (\<lambda>(c, vs). (c, concat (map (\<lambda>df. df_column df c) dfs))) (df_slice ?tbl b0 b1)"
    unfolding df_stack_def by (subst (2) first) simp
  then have "df_stack dfs
        = [(cu, concat (map (\<lambda>df. df_column df cu) dfs)),
           (ci, concat (map (\<lambda>df. df_column df ci) dfs)),
           (cl, concat (map (\<lambda>df. df_column df cl) dfs))]"
    by (simp add: df_slice_def)
  then have "df_stack (map (\<lambda>(a, b). df_slice ?tbl a b) ?segs)
        = [(cu, concat (map (\<lambda>df. df_column df cu) (map (\<lambda>(a, b). df_slice ?tbl a b) ?segs))),
           (ci, concat (map (\<lambda>df. df_column df ci) (map (\<lambda>(a, b). df_slice ?tbl a b) ?segs))),
           (cl, concat (map (\<lambda>df. df_column df cl) (map (\<lambda>(a, b). df_slice ?tbl a b) ?segs)))]"
    unfolding dfs_def .
  then show ?thesis
    unfolding cu ci cl by (simp add: col len)
qed

text \<open>
  The pre-materialized pass, for a non-empty group table whose groups are between 1 and
  \<open>to\<close> rows wide and a nonzero step. \<^verbatim>\<open>_pre_neg_sampling\<close> returns the loader with the
  expanded table as its interaction table and a map whose cursors are the recorded
  ones; every cursor and every successor is a group boundary; from cursor 0 the map
  leads through a strictly increasing chain to the number of expanded rows, which is
  \<open>pr_end\<close>; one pass returns, for each pair of consecutive cursors of the chain, the
  slice of the expanded table between them, passed through the dataset's \<^verbatim>\<open>join\<close>; and
  these slices stacked are the expanded table, every expanded row once and in order.
  In real-time mode \<open>pr_end\<close> is the number of groups.
\<close>

lemma grouped_pre_materialized_pass:
  assumes names: "USER_ID_FIELD (config self) \<noteq> ITEM_ID_FIELD (config self)"
      "USER_ID_FIELD (config self) \<noteq> LABEL_FIELD (config self)"
      "ITEM_ID_FIELD (config self) \<noteq> LABEL_FIELD (config self)"
    and full: "full self = Some fl"
    and nrt: "\<not> real_time_neg_sampling self"
    and stp: "step self = Some stp" "stp \<noteq> 0"
    and u: "uid2items_l self = Some rows"
    and ne: "rows \<noteq> []"
    and pos: "list_all (\<lambda>row. 0 < group_width self row) rows"
    and wd: "list_all (\<lambda>row. group_width self row \<le> nat (nsa_to (neg_sample_args self))) rows"
    and pr0: "pr self = 0"
  shows "(\<exists>self' m bs.
            grouped_pre_neg_sampling self = Inr self'
          \<and> self' = self\<lparr>next_l := Some m,
                          dataset := (dataset self)\<lparr>inter_feat := expanded_table self rows\<rparr>\<rparr>
          \<and> df_len (expanded_table self rows) = group_boundary self rows (length rows)
          \<and> grouped_pr_end self' = Inr (int (group_boundary self rows (length rows)))
          \<and> dom m = set (recorded_cursors self stp rows)
          \<and> (\<forall>k v. m k = Some v \<longrightarrow>
                (\<exists>i\<le>length rows. k = int (group_boundary self rows i))
                \<and> (\<exists>j\<le>length rows. v = int (group_boundary self rows j)))
          \<and> 2 \<le> length bs \<and> hd bs = 0 \<and> last bs = int (group_boundary self rows (length rows))
          \<and> sorted_wrt (<) bs
          \<and> (\<forall>i. Suc i < length bs \<longrightarrow> m (bs ! i) = Some (bs ! Suc i))
          \<and> grouped_pass self'
              = Some (Inr (map (\<lambda>(a, b). join (dataset self) (df_slice (expanded_table self rows) a b))
                             (zip bs (tl bs))))
          \<and> df_stack (map (\<lambda>(a, b). df_slice (expanded_table self rows) a b) (zip bs (tl bs)))
              = expanded_table self rows)
       \<and> (\<forall>s us. real_time_neg_sampling s \<and> uid2items_l s = Some us \<longrightarrow>
              grouped_pr_end s = Inr (int (length us)))"
proof (intro conjI allI impI)
  fix s :: loader and us assume "real_time_neg_sampling s \<and> uid2items_l s = Some us"
  then show "grouped_pr_end s = Inr (int (length us))"
    by (simp add: grouped_pr_end_def attr_simps bind_err_simps)
next
  let ?n = "sum_list (map (group_width self) rows)"
  let ?len = "int ?n"
  let ?tbl = "expanded_table self rows"
  have gb: "group_boundary self rows (length rows) = ?n" by (rule group_boundary_all)
  from grouped_neg_sampling_next [OF names full nrt stp ne pos wd]
  obtain m where run: "grouped_neg_sampling self rows = Inr (?tbl, self\<lparr>next_l := Some m\<rparr>)"
    and d: "dom m = set (recorded_cursors self stp rows)"
    and z: "0 \<in> dom m"
    and ch: "\<forall>k v. m k = Some v \<longrightarrow>
                 0 \<le> k \<and> (k < ?len \<longrightarrow> k < v) \<and> v \<le> ?len \<and> (v = ?len \<or> v \<in> dom m)"
    by blast
  let ?self' = "self\<lparr>next_l := Some m, dataset := (dataset self)\<lparr>inter_feat := ?tbl\<rparr>\<rparr>"
  have pre: "grouped_pre_neg_sampling self = Inr ?self'"
    by (simp add: grouped_pre_neg_sampling_def u attr_simps bind_err_simps run)
  have dl: "df_len ?tbl = group_boundary self rows (length rows)"
    by (simp add: df_len_expanded_table gb)
  have dlen: "dataset_len (dataset ?self') = ?len"
    by (simp add: dataset_len_def df_len_expanded_table)
  have pe: "grouped_pr_end ?self' = Inr (int (group_boundary self rows (length rows)))"
    by (simp add: grouped_pr_end_def nrt dataset_len_def df_len_expanded_table gb)
  have nx: "next_l ?self' = Some m" by simp
  have nrt': "\<not> real_time_neg_sampling ?self'" using nrt by simp
  have bd: "(\<exists>i\<le>length rows. k = int (group_boundary self rows i))
                \<and> (\<exists>j\<le>length rows. v = int (group_boundary self rows j))"
    if kv: "m k = Some v" for k v
  proof
    from kv have "k \<in> set (recorded_cursors self stp rows)" using d by auto
    then show "\<exists>i\<le>length rows. k = int (group_boundary self rows i)"
      by (rule recorded_cursors_boundary)
    from ch kv have "v = ?len \<or> v \<in> dom m" by blast
    then show "\<exists>j\<le>length rows. v = int (group_boundary self rows j)"
    proof
      assume "v = ?len"
      then show ?thesis by (intro exI [of _ "length rows"]) (simp add: gb)
    next
      assume "v \<in> dom m"
      with d have "v \<in> set (recorded_cursors self stp rows)" by simp
      then show ?thesis by (rule recorded_cursors_boundary)
    qed
  qed
  from ch have ch': "\<forall>k v. m k = Some v \<longrightarrow> (k < ?len \<longrightarrow> k < v) \<and> v \<le> ?len \<and> (v = ?len \<or> v \<in> dom m)"
    by blast
  have "0 = ?len \<or> 0 \<in> dom m" using z by simp
  from grouped_pass_chain [OF nrt' nx dlen ch' this]
  obtain bs where b: "bs \<noteq> []" "hd bs = 0" "last bs = ?len" "sorted_wrt (<) bs"
      "\<forall>i. Suc i < length bs \<longrightarrow> m (bs ! i) = Some (bs ! Suc i)"
    and p: "grouped_pass (?self'\<lparr>pr := 0\<rparr>)
               = Some (Inr (map (\<lambda>(a, b). dataset_getitem (dataset ?self') a b) (zip bs (tl bs))))"
    by auto
  have "?self'\<lparr>pr := 0\<rparr> = ?self'" using pr0 by simp
  with p have p': "grouped_pass ?self'
               = Some (Inr (map (\<lambda>(a, b). join (dataset self) (df_slice ?tbl a b)) (zip bs (tl bs))))"
    by (simp add: dataset_getitem_def)
  from ne obtain row rest where "rows = row # rest" by (cases rows) auto
  with pos have np: "0 < ?n" by simp
  have two: "2 \<le> length bs"
  proof (rule ccontr)
    assume "\<not> 2 \<le> length bs"
    then have "length bs < 2" by simp
    with b(1) obtain x where "bs = [x]" by (cases bs; cases "tl bs") auto
    with b(2,3) have "?len = 0" by simp
    with np show False by linarith
  qed
  have st: "df_stack (map (\<lambda>(a, b). df_slice ?tbl a b) (zip bs (tl bs))) = ?tbl"
    unfolding expanded_table_def
    by (rule df_stack_slices [OF names _ _ _ b(4) b(2) b(3) two]) (simp_all add: length_concat_rows)
  show "\<exists>self' m bs.
            grouped_pre_neg_sampling self = Inr self'
          \<and> self' = self\<lparr>next_l := Some m,
                          dataset := (dataset self)\<lparr>inter_feat := expanded_table self rows\<rparr>\<rparr>
          \<and> df_len (expanded_table self rows) = group_boundary self rows (length rows)
          \<and> grouped_pr_end self' = Inr (int (group_boundary self rows (length rows)))
          \<and> dom m = set (recorded_cursors self stp rows)
          \<and> (\<forall>k v. m k = Some v \<longrightarrow>
                (\<exists>i\<le>length rows. k = int (group_boundary self rows i))
                \<and> (\<exists>j\<le>length rows. v = int (group_boundary self rows j)))
          \<and> 2 \<le> length bs \<and> hd bs = 0 \<and> last bs = int (group_boundary self rows (length rows))
          \<and> sorted_wrt (<) bs
          \<and> (\<forall>i. Suc i < length bs \<longrightarrow> m (bs ! i) = Some (bs ! Suc i))
          \<and> grouped_pass self'
              = Some (Inr (map (\<lambda>(a, b). join (dataset self) (df_slice (expanded_table self rows) a b))
                             (zip bs (tl bs))))
          \<and> df_stack (map (\<lambda>(a, b). df_slice (expanded_table self rows) a b) (zip bs (tl bs)))
              = expanded_table self rows"
    using pre dl pe d bd two b(2-5) p' st
    by (intro exI [of _ ?self'] exI [of _ m] exI [of _ bs]) (simp only: gb, blast)
qed

text \<open>
  Claim C6. The property asks for a breakpoint every \<open>step\<close> groups, each on a group
  boundary, a chain from cursor 0 that rises strictly to the number of expanded rows
  (which is \<open>pr_end\<close>), one pass that yields every expanded row once, and in real-time
  mode a \<open>pr_end\<close> equal to the number of groups. Lemma \<open>grouped_pre_materialized_pass\<close>
  shows all of it of the code but the first part: the loop of \<^verbatim>\<open>_neg_sampling\<close> tests
  \<^verbatim>\<open>i % self.step == 0\<close> after it has counted group \<open>i\<close>, so the first recorded cursor
  lies after \<open>step + 1\<close> groups, not after \<open>step\<close>. The loader constructed with batch
  size 5 and \<open>to = 4\<close> over five users, whose groups are four rows wide each, has step 2
  and batch size 8. The breakpoints of the property are 0, 8, 16 and 20; the map of
  the constructed loader is \<open>0 \<mapsto> 12\<close>, \<open>12 \<mapsto> 20\<close>, \<open>20 \<mapsto> 20\<close>, and the pass returns a
  table of twelve rows (three groups, four rows more than the batch size) and one of
  eight. The same call in real-time mode takes \<open>step\<close> groups for its first table: the
  eight rows of two groups.
\<close>

theorem grouped_breakpoints_first_segment:
  "(\<exists>self m.
       GeneralGroupedDataLoader_init ex_config ex_grouped_dataset ex_sampler ''train''
         ex_grouped_args 5 ''pointwise'' False = Inr self
     \<and> step self = Some 2 \<and> batch_size self = 8 \<and> uid2items_l self = Some ex_groups
     \<and> map (group_width self) ex_groups = [4, 4, 4, 4, 4]
     \<and> spec_breakpoints self 2 ex_groups = [0, 8, 16, 20]
     \<and> next_l self = Some m \<and> dom m = {0, 12, 20}
     \<and> map m [0, 12, 20] = [Some 12, Some 20, Some 20]
     \<and> grouped_pass self
         = Some (Inr [[(''user_id'', map IntV [1, 1, 1, 1, 2, 2, 2, 2, 3, 3, 3, 3]),
                       (''item_id'', map IntV [3, 4, 5, 9, 5, 9, 9, 9, 1, 2, 9, 9]),
                       (''label'', map IntV [1, 1, 1, 0, 1, 0, 0, 0, 1, 1, 0, 0])],
                      [(''user_id'', map IntV [4, 4, 4, 4, 5, 5, 5, 5]),
                       (''item_id'', map IntV [8, 9, 9, 9, 2, 3, 9, 9]),
                       (''label'', map IntV [1, 0, 0, 0, 1, 1, 0, 0])]]))
   \<and> (\<exists>self s.
       GeneralGroupedDataLoader_init ex_config ex_grouped_dataset ex_sampler ''train''
         (ex_grouped_args\<lparr>nsa_real_time := True\<rparr>) 5 ''pointwise'' False = Inr self
     \<and> step self = Some 2 \<and> batch_size self = 8 \<and> uid2items_l self = Some ex_groups
     \<and> grouped_next_dataframe self
         = Inr ([(''user_id'', map IntV [1, 1, 1, 1, 2, 2, 2, 2]),
                 (''item_id'', map IntV [3, 4, 5, 9, 5, 9, 9, 9]),
                 (''label'', map IntV [1, 1, 1, 0, 1, 0, 0, 0])], s)
     \<and> pr s = 2)"
proof (rule conjI)
  let ?R = "GeneralGroupedDataLoader_init ex_config ex_grouped_dataset ex_sampler ''train''
              ex_grouped_args 5 ''pointwise'' False"
  let ?A = "(new_loader ex_config ex_grouped_dataset ex_sampler ''train'' ex_grouped_args 5
               ''pointwise'' False)\<lparr>uid2items_l := Some ex_groups, full := Some False\<rparr>"
  let ?L = "?A\<lparr>step := Some 2, batch_size := 8\<rparr>"
  let ?tbl = "expanded_table ?L ex_groups"
  have ad: "grouped_batch_size_adaptation ?A = Inr ?L"
    by (simp add: grouped_batch_size_adaptation_def new_loader_def ex_grouped_args_def
        py_floordiv_def set_batch_size_def bind_err_simps Let_def)
  have f: "config ?L = ex_config" "nsa_to (neg_sample_args ?L) = 4"
      "full ?L = Some False" "\<not> real_time_neg_sampling ?L" "step ?L = Some 2"
      "uid2items_l ?L = Some ex_groups" "pr ?L = 0"
    by (simp_all add: new_loader_def ex_grouped_args_def)
  have w: "map (group_width ?L) ex_groups = [4, 4, 4, 4, 4]" by code_simp
  have h1: "USER_ID_FIELD (config ?L) \<noteq> ITEM_ID_FIELD (config ?L)"
    and h2: "USER_ID_FIELD (config ?L) \<noteq> LABEL_FIELD (config ?L)"
    and h3: "ITEM_ID_FIELD (config ?L) \<noteq> LABEL_FIELD (config ?L)"
    unfolding f(1) by (simp_all add: ex_config_def)
  have h4: "(2::int) \<noteq> 0" by simp
  have h5: "ex_groups \<noteq> []" by (simp add: ex_groups_def)
  have "list_all (\<lambda>w. 0 < w) (map (group_width ?L) ex_groups)"
    unfolding w by simp
  then have h6: "list_all (\<lambda>row. 0 < group_width ?L row) ex_groups"
    by (simp add: list_all_iff)
  have "list_all (\<lambda>w. w \<le> 4) (map (group_width ?L) ex_groups)"
    unfolding w by simp
  then have h7: "list_all (\<lambda>row. group_width ?L row \<le> nat (nsa_to (neg_sample_args ?L))) ex_groups"
    unfolding f(2) by (simp add: list_all_iff)
  from grouped_pre_materialized_pass [OF h1 h2 h3 f(3) f(4) f(5) h4 f(6) h5 h6 h7 f(7)]
  obtain m where pre: "grouped_pre_neg_sampling ?L
                       = Inr (?L\<lparr>next_l := Some m, dataset := (dataset ?L)\<lparr>inter_feat := ?tbl\<rparr>\<rparr>)"
    and d: "dom m = set (recorded_cursors ?L 2 ex_groups)"
    by blast
  let ?S = "?L\<lparr>next_l := Some m, dataset := (dataset ?L)\<lparr>inter_feat := ?tbl\<rparr>\<rparr>"
  let ?C = "?S\<lparr>dataset := register_field (dataset ?S) ''label'' ''float'' ''inter'' 1\<rparr>"
  have a: "dl_format ?A = ''pointwise''" "nsa_strategy (neg_sample_args ?A) = ''to''"
      "config (new_loader ex_config ex_grouped_dataset ex_sampler ''train'' ex_grouped_args 5
                 ''pointwise'' False) = ex_config"
    by (simp_all add: new_loader_def ex_grouped_args_def)
  have nb: "NegSampleBasedDataLoader_init grouped_batch_size_adaptation grouped_pre_neg_sampling ?A
            = Inr ?S"
    unfolding NegSampleBasedDataLoader_init_def a ad bind_err_simps using f(4) pre by simp
  have e: "uid2items ex_grouped_dataset = ex_groups" "(nsa_to ex_grouped_args = - 1) = False"
      "nsa_strategy ex_grouped_args = ''to''" "LABEL_FIELD ex_config = ''label''"
    by (simp_all add: ex_grouped_dataset_def ex_grouped_args_def ex_config_def)
  have R: "?R = Inr ?C"
    unfolding GeneralGroupedDataLoader_init_def Let_def e nb bind_err_simps
    by (simp add: a(3) e(4))
  have v: "map (the (next_l (projr ?R))) [0, 12, 20] = [Some 12, Some 20, Some 20]"
      "map (group_width (projr ?R)) ex_groups = [4, 4, 4, 4, 4]"
      "spec_breakpoints (projr ?R) 2 ex_groups = [0, 8, 16, 20]"
    by code_simp+
  from v(1) have mv: "m 0 = Some 12" "m 12 = Some 20" "m 20 = Some 20"
    unfolding R by simp_all
  have rc: "recorded_cursors ?L 2 ex_groups = [0, 12, 20]" by code_simp
  have dm: "dom m = {0, 12, 20}" using d unfolding rc by simp
  have nl: "real_time_neg_sampling (new_loader ex_config ex_grouped_dataset ex_sampler ''train''
               ex_grouped_args 5 ''pointwise'' False) = False"
      "join (dataset (new_loader ex_config ex_grouped_dataset ex_sampler ''train''
               ex_grouped_args 5 ''pointwise'' False)) = (\<lambda>df. df)"
    by (simp_all add: new_loader_def ex_grouped_args_def ex_grouped_dataset_def ex_dataset_def)
  have tl: "df_len ?tbl = 20" by (simp add: df_len_expanded_table w)
  define C where "C = ?C"
  have pe: "grouped_pr_end (C\<lparr>pr := k\<rparr>) = Inr 20" for k
    unfolding C_def by (simp add: grouped_pr_end_def nl dataset_len_def register_field_def tl)
  have nd: "grouped_next_dataframe (C\<lparr>pr := k\<rparr>) = Inr (df_slice ?tbl k v, C\<lparr>pr := v\<rparr>)"
    if "m k = Some v" for k v
    using that unfolding C_def
    by (simp add: grouped_next_dataframe_def nl next_pr_def attr_simps bind_err_simps
        dataset_getitem_def register_field_def)
  have p20: "grouped_pass (C\<lparr>pr := 20\<rparr>) = Some (Inr [])"
    by (subst grouped_pass.simps) (simp add: pe)
  have p12: "grouped_pass (C\<lparr>pr := 12\<rparr>) = Some (Inr [df_slice ?tbl 12 20])"
    by (subst grouped_pass.simps) (simp add: pe nd [OF mv(2)] p20)
  have p0: "grouped_pass (C\<lparr>pr := 0\<rparr>) = Some (Inr [df_slice ?tbl 0 12, df_slice ?tbl 12 20])"
    by (subst grouped_pass.simps) (simp add: pe nd [OF mv(1)] p12)
  have c0: "C\<lparr>pr := 0\<rparr> = ?C" unfolding C_def by (simp add: new_loader_def)
  have s1: "df_slice ?tbl 0 12
            = [(''user_id'', map IntV [1, 1, 1, 1, 2, 2, 2, 2, 3, 3, 3, 3]),
               (''item_id'', map IntV [3, 4, 5, 9, 5, 9, 9, 9, 1, 2, 9, 9]),
               (''label'', map IntV [1, 1, 1, 0, 1, 0, 0, 0, 1, 1, 0, 0])]"
    by code_simp
  have s2: "df_slice ?tbl 12 20
            = [(''user_id'', map IntV [4, 4, 4, 4, 5, 5, 5, 5]),
               (''item_id'', map IntV [8, 9, 9, 9, 2, 3, 9, 9]),
               (''label'', map IntV [1, 0, 0, 0, 1, 1, 0, 0])]"
    by code_simp
  from p0 have ps: "grouped_pass ?C
         = Some (Inr [[(''user_id'', map IntV [1, 1, 1, 1, 2, 2, 2, 2, 3, 3, 3, 3]),
                       (''item_id'', map IntV [3, 4, 5, 9, 5, 9, 9, 9, 1, 2, 9, 9]),
                       (''label'', map IntV [1, 1, 1, 0, 1, 0, 0, 0, 1, 1, 0, 0])],
                      [(''user_id'', map IntV [4, 4, 4, 4, 5, 5, 5, 5]),
                       (''item_id'', map IntV [8, 9, 9, 9, 2, 3, 9, 9]),
                       (''label'', map IntV [1, 0, 0, 0, 1, 1, 0, 0])]])"
    unfolding c0 s1 s2 .
  have g: "step ?C = Some 2" "batch_size ?C = 8" "uid2items_l ?C = Some ex_groups" "next_l ?C = Some m"
    by simp_all
  have mm: "map m [0, 12, 20] = [Some 12, Some 20, Some 20]" using mv by simp
  from v(2,3) have v': "map (group_width ?C) ex_groups = [4, 4, 4, 4, 4]"
      "spec_breakpoints ?C 2 ex_groups = [0, 8, 16, 20]"
    unfolding R by simp_all
  show "\<exists>self m.
       ?R = Inr self
     \<and> step self = Some 2 \<and> batch_size self = 8 \<and> uid2items_l self = Some ex_groups
     \<and> map (group_width self) ex_groups = [4, 4, 4, 4, 4]
     \<and> spec_breakpoints self 2 ex_groups = [0, 8, 16, 20]
     \<and> next_l self = Some m \<and> dom m = {0, 12, 20}
     \<and> map m [0, 12, 20] = [Some 12, Some 20, Some 20]
     \<and> grouped_pass self
         = Some (Inr [[(''user_id'', map IntV [1, 1, 1, 1, 2, 2, 2, 2, 3, 3, 3, 3]),
                       (''item_id'', map IntV [3, 4, 5, 9, 5, 9, 9, 9, 1, 2, 9, 9]),
                       (''label'', map IntV [1, 1, 1, 0, 1, 0, 0, 0, 1, 1, 0, 0])],
                      [(''user_id'', map IntV [4, 4, 4, 4, 5, 5, 5, 5]),
                       (''item_id'', map IntV [8, 9, 9, 9, 2, 3, 9, 9]),
                       (''label'', map IntV [1, 0, 0, 0, 1, 1, 0, 0])]])"
    using R g v' dm mm ps by (intro exI [of _ ?C] exI [of _ m]) (intro conjI)
next
  let ?Q = "GeneralGroupedDataLoader_init ex_config ex_grouped_dataset ex_sampler ''train''
              (ex_grouped_args\<lparr>nsa_real_time := True\<rparr>) 5 ''pointwise'' False"
  have q: "\<not> isl ?Q" "\<not> isl (grouped_next_dataframe (projr ?Q))"
      "fst (projr (grouped_next_dataframe (projr ?Q)))
         = [(''user_id'', map IntV [1, 1, 1, 1, 2, 2, 2, 2]),
            (''item_id'', map IntV [3, 4, 5, 9, 5, 9, 9, 9]),
            (''label'', map IntV [1, 1, 1, 0, 1, 0, 0, 0])]"
      "pr (snd (projr (grouped_next_dataframe (projr ?Q)))) = 2"
      "step (projr ?Q) = Some 2" "batch_size (projr ?Q) = 8"
      "uid2items_l (projr ?Q) = Some ex_groups"
    by code_simp+
  from q(1) obtain c where c: "?Q = Inr c" by (cases ?Q) auto
  from q(2) obtain cur s where n: "grouped_next_dataframe c = Inr (cur, s)"
    unfolding c by (cases "grouped_next_dataframe c") auto
  from q(3-7) show "\<exists>self s.
       ?Q = Inr self
     \<and> step self = Some 2 \<and> batch_size self = 8 \<and> uid2items_l self = Some ex_groups
     \<and> grouped_next_dataframe self
         = Inr ([(''user_id'', map IntV [1, 1, 1, 1, 2, 2, 2, 2]),
                 (''item_id'', map IntV [3, 4, 5, 9, 5, 9, 9, 9]),
                 (''label'', map IntV [1, 1, 1, 0, 1, 0, 0, 0])], s)
     \<and> pr s = 2"
    unfolding c by (intro exI [of _ c] exI [of _ s]) (simp add: n)
qed

subsection \<open>Failures of the constructors\<close>

lemma no_cfg_Inr: "no_cfg (Inr x)"
  by (simp add: no_cfg_def)

lemma no_cfg_bind: "no_cfg m \<Longrightarrow> (\<And>x. m = Inr x \<Longrightarrow> no_cfg (f x)) \<Longrightarrow> no_cfg (bind_err m f)"
  by (cases m) (simp_all add: bind_err_simps no_cfg_def)

lemma no_cfg_attr: "no_cfg (attr name v)"
  by (cases v) (simp_all add: attr_def no_cfg_def config_error_def)

lemma no_cfg_local_var: "no_cfg (local_var name v)"
  by (cases v) (simp_all add: local_var_def no_cfg_def config_error_def)

lemma no_cfg_py_floordiv: "no_cfg (py_floordiv a b)"
  by (simp add: py_floordiv_def no_cfg_def config_error_def)

lemma no_cfg_py_mod: "no_cfg (py_mod a b)"
  by (simp add: py_mod_def no_cfg_def config_error_def)

lemma no_cfg_dict_get: "no_cfg (dict_get d k)"
  by (simp add: dict_get_def no_cfg_def config_error_def split: option.splits)

lemma no_cfg_map_get: "no_cfg (map_get m k)"
  by (simp add: map_get_def no_cfg_def config_error_def split: option.splits)

lemma no_cfg_set_batch_size: "no_cfg (set_batch_size self bs)"
  by (simp add: set_batch_size_def no_cfg_def config_error_def)

lemma no_cfg_np_assign_slice: "no_cfg (np_assign_slice buf lo hi vals)"
  by (simp add: np_assign_slice_def Let_def no_cfg_def config_error_def)

lemma no_cfg_np_zeros: "no_cfg (np_zeros n)"
  by (simp add: np_zeros_def no_cfg_def config_error_def)

lemma no_cfg_df_concat_times: "no_cfg (df_concat_times df n)"
  by (simp add: df_concat_times_def no_cfg_def config_error_def)

lemma no_cfg_df_set_column: "no_cfg (df_set_column df c vs)"
  by (simp add: df_set_column_def no_cfg_def config_error_def)

lemma no_cfg_df_insert_last: "no_cfg (df_insert_last df c vs)"
  by (simp add: df_insert_last_def no_cfg_def config_error_def)

lemmas no_cfg_basic = no_cfg_Inr no_cfg_attr no_cfg_local_var no_cfg_py_floordiv no_cfg_py_mod
  no_cfg_dict_get no_cfg_map_get no_cfg_set_batch_size no_cfg_np_assign_slice no_cfg_np_zeros
  no_cfg_df_concat_times no_cfg_df_set_column no_cfg_df_insert_last

lemma no_cfg_pd_merge_left: "no_cfg (pd_merge_left left right key)"
  unfolding pd_merge_left_def Let_def df_get_def
  by (intro no_cfg_bind no_cfg_basic)

lemma no_cfg_interaction_batch_size_adaptation: "no_cfg (interaction_batch_size_adaptation self)"
  unfolding interaction_batch_size_adaptation_def Let_def
  by (simp add: no_cfg_basic no_cfg_bind)

lemma no_cfg_grouped_batch_size_adaptation: "no_cfg (grouped_batch_size_adaptation self)"
  unfolding grouped_batch_size_adaptation_def Let_def
  by (intro no_cfg_bind no_cfg_basic)

lemma no_cfg_point_wise:
  "no_cfg (neg_sample_by_point_wise_sampling self uid_field iid_field neg_iids feat)"
  unfolding neg_sample_by_point_wise_sampling_def Let_def df_get_def
  by (intro no_cfg_bind no_cfg_basic)

lemma no_cfg_pair_wise:
  "no_cfg (neg_sample_by_pair_wise_sampling self uid_field iid_field neg_iids feat)"
  unfolding neg_sample_by_pair_wise_sampling_def Let_def
  by (intro no_cfg_bind no_cfg_basic) (simp add: no_cfg_basic no_cfg_pd_merge_left split: option.splits)

lemma no_cfg_interaction_neg_sampling: "no_cfg (interaction_neg_sampling self feat)"
proof -
  have "no_cfg (Inl (ValueError (''neg sampling by with dl_format ['' @ dl_format self
                                     @ ''] not been implemented'')) :: error + dataframe)"
    by (simp add: no_cfg_def config_error_def)
  then show ?thesis
    unfolding interaction_neg_sampling_def Let_def df_get_def
    by (intro no_cfg_bind no_cfg_basic) (simp add: no_cfg_point_wise no_cfg_pair_wise)
qed

lemma no_cfg_interaction_pre_neg_sampling: "no_cfg (interaction_pre_neg_sampling self)"
  unfolding interaction_pre_neg_sampling_def
  by (intro no_cfg_bind no_cfg_basic no_cfg_interaction_neg_sampling)

lemma no_cfg_register_neg_cols: "no_cfg (register_neg_cols p cs ds)"
proof (induction cs arbitrary: ds)
  case Nil
  then show ?case by (simp add: no_cfg_basic)
next
  case (Cons c cs)
  show ?case
    unfolding register_neg_cols.simps Let_def
    by (intro no_cfg_bind no_cfg_basic Cons.IH)
qed

lemma no_cfg_record_breakpoint: "no_cfg (record_breakpoint self i st)"
  unfolding record_breakpoint_def
  by (simp add: no_cfg_basic no_cfg_bind)

lemma no_cfg_group_step: "no_cfg (group_step self i row st)"
proof -
  have gi: "no_cfg (group_items self row)"
    unfolding group_items_def Let_def by (simp add: no_cfg_basic no_cfg_bind)
  have bf: "no_cfg (buf_fill b f lo hi v)" for b f lo hi v
    unfolding buf_fill_def by (intro no_cfg_bind no_cfg_basic)
  have ba: "no_cfg (buf_assign b f lo hi vals)" for b f lo hi vals
    unfolding buf_assign_def by (intro no_cfg_bind no_cfg_basic)
  show ?thesis
    unfolding group_step_def Let_def
    by (intro no_cfg_bind gi) (auto intro!: no_cfg_bind bf ba no_cfg_record_breakpoint)
qed

lemma no_cfg_grouped_loop: "no_cfg (grouped_loop self i rows st)"
proof (induction rows arbitrary: i st)
  case Nil
  then show ?case by (simp add: no_cfg_basic)
next
  case (Cons row rows)
  show ?case
    unfolding grouped_loop.simps
    by (intro no_cfg_bind no_cfg_group_step Cons.IH)
qed

lemma no_cfg_grouped_neg_sampling: "no_cfg (grouped_neg_sampling self rows)"
  unfolding grouped_neg_sampling_def Let_def
  by (intro no_cfg_bind no_cfg_basic no_cfg_grouped_loop)
     (simp add: no_cfg_basic no_cfg_bind)

lemma no_cfg_grouped_pre_neg_sampling: "no_cfg (grouped_pre_neg_sampling self)"
  unfolding grouped_pre_neg_sampling_def
  by (intro no_cfg_bind no_cfg_basic no_cfg_grouped_neg_sampling) (simp add: no_cfg_basic split: prod.splits)

lemma no_cfg_NegSampleBasedDataLoader_init:
  assumes "dl_format self \<in> set [''pointwise'', ''pairwise'']"
    and "nsa_strategy (neg_sample_args self) \<in> set [''by'', ''to'']"
    and "\<And>s. no_cfg (adapt s)" and "\<And>s. no_cfg (pre s)"
  shows "no_cfg (NegSampleBasedDataLoader_init adapt pre self)"
  using assms(1,2) unfolding NegSampleBasedDataLoader_init_def
  by (auto intro!: no_cfg_bind assms(3,4) no_cfg_Inr)

lemma fails_in_validation_no_cfg: "no_cfg r \<Longrightarrow> \<not> fails_in_validation r"
  by (cases r) (simp_all add: no_cfg_def fails_in_validation_def)

lemma interaction_init_valid_no_cfg:
  assumes "\<not> invalid_interaction_config nsa fmt"
  shows "no_cfg (GeneralInteractionBasedDataLoader_init cfg ds smp ph nsa bs fmt shf)"
proof -
  from assms have s: "nsa_strategy nsa = ''by''" and p: "\<not> (fmt = ''pairwise'' \<and> nsa_by nsa \<noteq> 1)"
    and f: "fmt \<in> set [''pointwise'', ''pairwise'']"
    by (auto simp add: invalid_interaction_config_def)
  let ?ds1 = "if fmt = ''pointwise'' then register_field ds (LABEL_FIELD cfg) ''float'' ''inter'' 1 else ds"
  let ?self0 = "(new_loader cfg ?ds1 smp ph nsa bs fmt shf)
                      \<lparr>neg_sample_by := Some (nsa_by nsa),
                       label_field := (if fmt = ''pointwise'' then Some (LABEL_FIELD cfg) else None)\<rparr>"
  have a: "dl_format ?self0 \<in> set [''pointwise'', ''pairwise'']"
    using f by (simp add: new_loader_def)
  have b: "nsa_strategy (neg_sample_args ?self0) \<in> set [''by'', ''to'']"
    using s by (simp add: new_loader_def)
  have base: "no_cfg (NegSampleBasedDataLoader_init interaction_batch_size_adaptation
                       interaction_pre_neg_sampling ?self0)"
    by (rule no_cfg_NegSampleBasedDataLoader_init [OF a b
          no_cfg_interaction_batch_size_adaptation no_cfg_interaction_pre_neg_sampling])
  have rest: "no_cfg (if dl_format self1 = ''pairwise''
             then bind_err (register_neg_cols (NEG_PREFIX (config self1))
                              (case item_feat (dataset self1) of
                                 None \<Rightarrow> [ITEM_ID_FIELD (config self1)]
                               | Some itf \<Rightarrow> df_columns itf) (dataset self1))
                       (\<lambda>ds2. Inr (self1\<lparr>dataset := ds2\<rparr>))
             else Inr self1)" for self1
    by (simp add: no_cfg_Inr no_cfg_bind no_cfg_register_neg_cols)
  show ?thesis
    unfolding GeneralInteractionBasedDataLoader_init_def Let_def
    using s p by (simp only: if_False simp_thms) (intro no_cfg_bind base rest)
qed

lemma grouped_init_valid_no_cfg:
  assumes "\<not> invalid_grouped_config nsa fmt"
  shows "no_cfg (GeneralGroupedDataLoader_init cfg ds smp ph nsa bs fmt shf)"
proof -
  from assms have s: "nsa_strategy nsa = ''to''" and p: "fmt \<noteq> ''pairwise''"
    and f: "fmt \<in> set [''pointwise'', ''pairwise'']"
    by (auto simp add: invalid_grouped_config_def)
  let ?self0 = "(new_loader cfg ds smp ph nsa bs fmt shf)
                      \<lparr>uid2items_l := Some (uid2items ds), full := Some (nsa_to nsa = - 1)\<rparr>"
  have a: "dl_format ?self0 \<in> set [''pointwise'', ''pairwise'']"
    using f by (simp add: new_loader_def)
  have b: "nsa_strategy (neg_sample_args ?self0) \<in> set [''by'', ''to'']"
    using s by (simp add: new_loader_def)
  have base: "no_cfg (NegSampleBasedDataLoader_init grouped_batch_size_adaptation
                       grouped_pre_neg_sampling ?self0)"
    by (rule no_cfg_NegSampleBasedDataLoader_init [OF a b
          no_cfg_grouped_batch_size_adaptation no_cfg_grouped_pre_neg_sampling])
  show ?thesis
    unfolding GeneralGroupedDataLoader_init_def Let_def
    using s p by (simp only: if_False simp_thms) (intro no_cfg_bind base no_cfg_Inr)
qed

lemma interaction_init_invalid:
  assumes "invalid_interaction_config nsa fmt"
  shows "fails_in_validation (GeneralInteractionBasedDataLoader_init cfg ds smp ph nsa bs fmt shf)"
proof (cases "nsa_strategy nsa \<noteq> ''by'' \<or> (fmt = ''pairwise'' \<and> nsa_by nsa \<noteq> 1)")
  case True
  then show ?thesis
    by (auto simp add: GeneralInteractionBasedDataLoader_init_def fails_in_validation_def
        config_error_def)
next
  case False
  with assms have f: "fmt \<notin> set [''pointwise'', ''pairwise'']"
    by (auto simp add: invalid_interaction_config_def)
  with False show ?thesis
    by (simp add: GeneralInteractionBasedDataLoader_init_def Let_def
        NegSampleBasedDataLoader_init_def new_loader_def bind_err_simps
        fails_in_validation_def config_error_def)
qed

lemma grouped_init_invalid:
  assumes "invalid_grouped_config nsa fmt"
  shows "fails_in_validation (GeneralGroupedDataLoader_init cfg ds smp ph nsa bs fmt shf)"
proof (cases "nsa_strategy nsa \<noteq> ''to'' \<or> fmt = ''pairwise''")
  case True
  then show ?thesis
    by (auto simp add: GeneralGroupedDataLoader_init_def fails_in_validation_def config_error_def)
next
  case False
  with assms have f: "fmt \<notin> set [''pointwise'', ''pairwise'']"
    by (auto simp add: invalid_grouped_config_def)
  with False show ?thesis
    by (simp add: GeneralGroupedDataLoader_init_def Let_def
        NegSampleBasedDataLoader_init_def new_loader_def bind_err_simps
        fails_in_validation_def config_error_def)
qed

text \<open>
  With the strategy \<open>to\<close> and the pointwise format, a configuration the specification
  does not list as invalid, the interaction-based loader raises in its first check; and
  with the strategy \<open>by\<close>, the pointwise format and \<open>by = -1\<close>, which every check accepts,
  construction still raises, in the division of the batch-size adaptation.
\<close>

theorem constructor_validation_counterexample:
  "GeneralInteractionBasedDataLoader_init ex_config ex_dataset ex_sampler ''train''
      (ex_args\<lparr>nsa_strategy := ''to''\<rparr>) 9 ''pointwise'' False
     = Inl (ValueError ''neg_sample strategy in GeneralInteractionBasedDataLoader() should be by'')
   \<and> \<not> spec_invalid_interaction_config (ex_args\<lparr>nsa_strategy := ''to''\<rparr>) ''pointwise''
   \<and> GeneralInteractionBasedDataLoader_init ex_config ex_dataset ex_sampler ''train''
      (ex_args\<lparr>nsa_by := - 1\<rparr>) 9 ''pointwise'' False
     = Inl ZeroDivisionError
   \<and> \<not> spec_invalid_interaction_config (ex_args\<lparr>nsa_by := - 1\<rparr>) ''pointwise''"
  by (simp add: GeneralInteractionBasedDataLoader_init_def spec_invalid_interaction_config_def
      ex_args_def NegSampleBasedDataLoader_init_def new_loader_def Let_def bind_err_simps
      interaction_batch_size_adaptation_def attr_simps py_floordiv_def)

text \<open>
  Claim C7, amended. A constructor raises the ValueError of one of its configuration
  checks, returning no loader, exactly when: for the interaction-based loader, the
  strategy is not \<open>by\<close>, or the format is pairwise with \<open>by\<close> other than 1, or the format
  is neither pointwise nor pairwise; for the grouped loader, the strategy is not \<open>to\<close>,
  or the format is pairwise, or the format is neither pointwise nor pairwise. A
  configuration that passes the checks constructs in real-time mode and pointwise format
  when the divisor of the batch-size adaptation is not zero.
\<close>

theorem constructor_validation_spec:
  "(fails_in_validation (GeneralInteractionBasedDataLoader_init cfg ds smp ph nsa bs fmt shf)
      \<longleftrightarrow> invalid_interaction_config nsa fmt)
   \<and> (fails_in_validation (GeneralGroupedDataLoader_init cfg ds smp ph nsa bs fmt shf)
      \<longleftrightarrow> invalid_grouped_config nsa fmt)
   \<and> (nsa_strategy nsa = ''by'' \<and> fmt = ''pointwise'' \<and> nsa_real_time nsa \<and> 1 + nsa_by nsa \<noteq> 0 \<longrightarrow>
        (\<exists>self. GeneralInteractionBasedDataLoader_init cfg ds smp ph nsa bs fmt shf = Inr self
           \<and> pr self = 0 \<and> batch_size self = (bs div (1 + nsa_by nsa) + 1) * (1 + nsa_by nsa)
           \<and> step self = Some (bs div (1 + nsa_by nsa) + 1)))
   \<and> (nsa_strategy nsa = ''to'' \<and> fmt = ''pointwise'' \<and> nsa_real_time nsa
        \<and> (if nsa_to nsa = - 1 then item_num ds else nsa_to nsa) \<noteq> 0 \<longrightarrow>
        (\<exists>self. GeneralGroupedDataLoader_init cfg ds smp ph nsa bs fmt shf = Inr self
           \<and> pr self = 0
           \<and> step self = Some (bs div (if nsa_to nsa = - 1 then item_num ds else nsa_to nsa) + 1)))"
proof (intro conjI impI)
  show "fails_in_validation (GeneralInteractionBasedDataLoader_init cfg ds smp ph nsa bs fmt shf)
      \<longleftrightarrow> invalid_interaction_config nsa fmt"
    using interaction_init_invalid [of nsa fmt cfg ds smp ph bs shf]
      fails_in_validation_no_cfg [OF interaction_init_valid_no_cfg, of nsa fmt cfg ds smp ph bs shf]
    by blast
  show "fails_in_validation (GeneralGroupedDataLoader_init cfg ds smp ph nsa bs fmt shf)
      \<longleftrightarrow> invalid_grouped_config nsa fmt"
    using grouped_init_invalid [of nsa fmt cfg ds smp ph bs shf]
      fails_in_validation_no_cfg [OF grouped_init_valid_no_cfg, of nsa fmt cfg ds smp ph bs shf]
    by blast
next
  assume "nsa_strategy nsa = ''by'' \<and> fmt = ''pointwise'' \<and> nsa_real_time nsa \<and> 1 + nsa_by nsa \<noteq> 0"
  then show "\<exists>self. GeneralInteractionBasedDataLoader_init cfg ds smp ph nsa bs fmt shf = Inr self
           \<and> pr self = 0 \<and> batch_size self = (bs div (1 + nsa_by nsa) + 1) * (1 + nsa_by nsa)
           \<and> step self = Some (bs div (1 + nsa_by nsa) + 1)"
    by (simp add: GeneralInteractionBasedDataLoader_init_def NegSampleBasedDataLoader_init_def
        new_loader_def Let_def bind_err_simps interaction_batch_size_adaptation_def attr_simps
        py_floordiv_def set_batch_size_def)
next
  assume "nsa_strategy nsa = ''to'' \<and> fmt = ''pointwise'' \<and> nsa_real_time nsa
        \<and> (if nsa_to nsa = - 1 then item_num ds else nsa_to nsa) \<noteq> 0"
  then show "\<exists>self. GeneralGroupedDataLoader_init cfg ds smp ph nsa bs fmt shf = Inr self
           \<and> pr self = 0
           \<and> step self = Some (bs div (if nsa_to nsa = - 1 then item_num ds else nsa_to nsa) + 1)"
    by (auto simp add: GeneralGroupedDataLoader_init_def NegSampleBasedDataLoader_init_def
        new_loader_def Let_def bind_err_simps grouped_batch_size_adaptation_def attr_simps
        py_floordiv_def set_batch_size_def)
qed

theorem constructor_validation_spec_witness:
  "fails_in_validation (GeneralInteractionBasedDataLoader_init ex_config ex_dataset ex_sampler
      ''train'' (ex_args\<lparr>nsa_strategy := ''to''\<rparr>) 9 ''pointwise'' False)
   \<and> \<not> fails_in_validation (GeneralInteractionBasedDataLoader_init ex_config ex_dataset ex_sampler
      ''train'' ex_args 9 ''pointwise'' False)
   \<and> fails_in_validation (GeneralGroupedDataLoader_init ex_config ex_dataset ex_sampler
      ''train'' (ex_args\<lparr>nsa_strategy := ''to''\<rparr>) 9 ''pairwise'' False)
   \<and> \<not> fails_in_validation (GeneralGroupedDataLoader_init ex_config ex_dataset ex_sampler
      ''train'' (ex_args\<lparr>nsa_strategy := ''to''\<rparr>) 9 ''pointwise'' False)
   \<and> (\<exists>self. GeneralInteractionBasedDataLoader_init ex_config ex_dataset ex_sampler
      ''train'' ex_args 9 ''pointwise'' False = Inr self \<and> batch_size self = 12 \<and> step self = Some 4)"
proof -
  note a = constructor_validation_spec [of ex_config ex_dataset ex_sampler "''train''"
      "ex_args\<lparr>nsa_strategy := ''to''\<rparr>" 9 "''pointwise''" False]
  note b = constructor_validation_spec [of ex_config ex_dataset ex_sampler "''train''"
      ex_args 9 "''pointwise''" False]
  note c = constructor_validation_spec [of ex_config ex_dataset ex_sampler "''train''"
      "ex_args\<lparr>nsa_strategy := ''to''\<rparr>" 9 "''pairwise''" False]
  have i1: "invalid_interaction_config (ex_args\<lparr>nsa_strategy := ''to''\<rparr>) ''pointwise''"
    and i2: "\<not> invalid_interaction_config ex_args ''pointwise''"
    and i3: "invalid_grouped_config (ex_args\<lparr>nsa_strategy := ''to''\<rparr>) ''pairwise''"
    and i4: "\<not> invalid_grouped_config (ex_args\<lparr>nsa_strategy := ''to''\<rparr>) ''pointwise''"
    by (simp_all add: invalid_interaction_config_def invalid_grouped_config_def ex_args_def)
  have v: "nsa_strategy ex_args = ''by'' \<and> ''pointwise'' = ''pointwise'' \<and> nsa_real_time ex_args
           \<and> 1 + nsa_by ex_args \<noteq> 0"
    by (simp add: ex_args_def)
  from b v have "\<exists>self. GeneralInteractionBasedDataLoader_init ex_config ex_dataset ex_sampler
      ''train'' ex_args 9 ''pointwise'' False = Inr self
           \<and> pr self = 0 \<and> batch_size self = (9 div (1 + nsa_by ex_args) + 1) * (1 + nsa_by ex_args)
           \<and> step self = Some (9 div (1 + nsa_by ex_args) + 1)"
    by blast
  then have d: "\<exists>self. GeneralInteractionBasedDataLoader_init ex_config ex_dataset ex_sampler
      ''train'' ex_args 9 ''pointwise'' False = Inr self \<and> batch_size self = 12 \<and> step self = Some 4"
    by (auto simp add: ex_args_def)
  from a i1 i4 b i2 c i3 d show ?thesis by blast
qed

end
